theory Spec2Isabelle
  imports Main "HOL-Library.Code_Target_Nat"
begin

section \<open>Machine integers\<close>

text \<open>
  \<^verbatim>\<open>size_t\<close> is an unsigned 64-bit integer. It is modelled as a natural number below
  \<open>2 ^ 64\<close>; the two places where the source can wrap around (a decrement of zero and
  an increment of \<^verbatim>\<open>SIZE_MAX\<close>) are written out.
\<close>

definition SIZE_MAX :: nat where
  "SIZE_MAX = 2 ^ 64 - 1"

definition inc64 :: "nat \<Rightarrow> nat" where
  "inc64 x = (if x = SIZE_MAX then 0 else x + 1)"

definition dec64 :: "nat \<Rightarrow> nat" where
  "dec64 x = (if x = 0 then SIZE_MAX else x - 1)"

section \<open>LR table entries (ptable.h)\<close>

datatype LRTableEntryType =
  TET_ACTION_SHIFT | TET_ACTION_REDUCE | TET_GOTO | TET_ACCEPT | TET_ERROR

record LRTableEntry =
  isEmpty :: bool
  entryType :: LRTableEntryType
  number :: nat

text \<open>The default-constructed entry: empty, of type error, with number \<^verbatim>\<open>SIZE_MAX\<close>.\<close>

definition LRTableEntry_default :: LRTableEntry where
  "LRTableEntry_default = \<lparr>isEmpty = True, entryType = TET_ERROR, number = SIZE_MAX\<rparr>"

text \<open>The entry macros \<^verbatim>\<open>TE_SHIFT\<close>, \<^verbatim>\<open>TE_REDUCE\<close>, \<^verbatim>\<open>TE_GOTO\<close>, \<^verbatim>\<open>TE_ACCEPT\<close>, \<^verbatim>\<open>TE_ERROR\<close>.\<close>

definition TE_SHIFT :: "nat \<Rightarrow> LRTableEntry" where
  "TE_SHIFT state = \<lparr>isEmpty = False, entryType = TET_ACTION_SHIFT, number = state\<rparr>"

definition TE_REDUCE :: "nat \<Rightarrow> LRTableEntry" where
  "TE_REDUCE prodNum = \<lparr>isEmpty = False, entryType = TET_ACTION_REDUCE, number = prodNum\<rparr>"

definition TE_GOTO :: "nat \<Rightarrow> LRTableEntry" where
  "TE_GOTO state = \<lparr>isEmpty = False, entryType = TET_GOTO, number = state\<rparr>"

definition TE_ACCEPT :: LRTableEntry where
  "TE_ACCEPT = \<lparr>isEmpty = False, entryType = TET_ACCEPT, number = SIZE_MAX\<rparr>"

definition TE_ERROR :: LRTableEntry where
  "TE_ERROR = \<lparr>isEmpty = False, entryType = TET_ERROR, number = SIZE_MAX\<rparr>"

text \<open>\<^verbatim>\<open>LRTableEntry::operator==\<close>.\<close>

definition LRTableEntry_eq :: "LRTableEntry \<Rightarrow> LRTableEntry \<Rightarrow> bool" where
  "LRTableEntry_eq lhs rhs =
     (let initCond = (isEmpty lhs = isEmpty rhs \<and> entryType lhs = entryType rhs) in
      if \<not> initCond then False
      else if entryType lhs = TET_ACTION_SHIFT \<or> entryType lhs = TET_ACTION_REDUCE
        then number lhs = number rhs
      else True)"

text \<open>\<^verbatim>\<open>LRTableEntry::isError\<close>: an empty entry counts as an error.\<close>

definition isError :: "LRTableEntry \<Rightarrow> bool" where
  "isError e = (isEmpty e \<or> entryType e = TET_ERROR)"

section \<open>Errors\<close>

text \<open>
  Every exception, abort and undefined behaviour of the source is a value:
  \<^item> \<open>StackUnderflow\<close>: the \<^verbatim>\<open>std::runtime_error\<close> "Stack underflow" of the LR stack;
  \<^item> \<open>ErrorRecoveryLimitExceeded\<close>: the \<^verbatim>\<open>std::logic_error\<close> "Error recovery limit exceeded!"
    of the LR parser and the \<^verbatim>\<open>std::runtime_error\<close> "Limit of recovered-from errors
    exceeded" of the LL parser;
  \<^item> \<open>UnacceptedString\<close>: the \<^verbatim>\<open>std::logic_error\<close> "Cannot continue further with the parse!";
  \<^item> \<open>IncorrectEntryType\<close>: the \<^verbatim>\<open>std::logic_error\<close> of \<^verbatim>\<open>_reduce\<close> on a non-goto entry;
  \<^item> \<open>OutOfRange\<close>: the \<^verbatim>\<open>std::out_of_range\<close> of \<^verbatim>\<open>vector::at\<close> and \<^verbatim>\<open>array::at\<close>;
  \<^item> \<open>MissingValue\<close>: \<^verbatim>\<open>MissingValueException\<close> and the runtime errors raised when FIRST
    or FOLLOW is read before it is calculated;
  \<^item> \<open>EmptyFIRST\<close>: the \<^verbatim>\<open>std::logic_error\<close> "FIRST(..) is empty" of a symbol string;
  \<^item> \<open>InvalidDotPosition\<close>, \<open>InvalidProduction\<close>, \<open>EmptyProductionBody\<close>: the logic errors of
    the constructors and of \<^verbatim>\<open>check_prod_body\<close>;
  \<^item> \<open>RangeError\<close>: the \<^verbatim>\<open>std::range_error\<close> of the LL parsing table;
  \<^item> \<open>InvalidArgument\<close>: the \<^verbatim>\<open>std::invalid_argument\<close> of the LL error recovery;
  \<^item> \<open>ProgramAbort\<close>: a call of \<^verbatim>\<open>std::abort\<close>;
  \<^item> \<open>UndefinedBehaviour\<close>: an unchecked out-of-range access, \<^verbatim>\<open>pop_back\<close> or \<^verbatim>\<open>back\<close> on
    an empty vector, dereferencing an end iterator, calling an action through the wrong
    function type.
\<close>

datatype exn =
    StackUnderflow
  | ErrorRecoveryLimitExceeded
  | UnacceptedString
  | IncorrectEntryType
  | OutOfRange
  | MissingValue
  | EmptyFIRST
  | InvalidDotPosition
  | InvalidProduction
  | EmptyProductionBody
  | RangeError
  | InvalidArgument
  | ProgramAbort
  | UndefinedBehaviour

section \<open>Grammar symbols (production.h)\<close>

text \<open>
  The terminal and non-terminal enumerations are template parameters. An enumerator is
  modelled by its integer value; the enumerators the library itself names are collected
  in a record that the functions take as their first argument.
\<close>

record enumerators =
  T_EPSILON :: nat
  T_EOF :: nat
  T_COUNT :: nat
  NT_COUNT :: nat

text \<open>
  \<^verbatim>\<open>GrammaticalSymbol\<close>: a flag and a union \<^verbatim>\<open>as\<close> of a terminal and a non-terminal
  enumerator. The union is one stored value, read as either member.
\<close>

record GrammaticalSymbol =
  isTerminal :: bool
  as_value :: nat

definition EPSILON :: "enumerators \<Rightarrow> GrammaticalSymbol" where
  "EPSILON E = \<lparr>isTerminal = True, as_value = T_EPSILON E\<rparr>"

definition END_MARKER :: "enumerators \<Rightarrow> GrammaticalSymbol" where
  "END_MARKER E = \<lparr>isTerminal = True, as_value = T_EOF E\<rparr>"

text \<open>\<^verbatim>\<open>GrammaticalSymbol::operator==\<close>: it reads the member selected by the left operand.\<close>

definition Symbol_eq :: "GrammaticalSymbol \<Rightarrow> GrammaticalSymbol \<Rightarrow> bool" where
  "Symbol_eq this other =
     (if isTerminal this then as_value this = as_value other
      else as_value this = as_value other)"

text \<open>
  \<^verbatim>\<open>GrammaticalSymbol::operator<\<close>. For operands of different kinds the source returns
  the difference of the two flags converted to \<^verbatim>\<open>bool\<close>.
\<close>

definition Symbol_less :: "GrammaticalSymbol \<Rightarrow> GrammaticalSymbol \<Rightarrow> bool" where
  "Symbol_less this other =
     (if isTerminal this \<noteq> isTerminal other
        then (of_bool (isTerminal this) :: int) - of_bool (isTerminal other) \<noteq> 0
      else if isTerminal this \<and> isTerminal other then as_value this < as_value other
      else as_value this < as_value other)"

subsection \<open>Ordered sets of symbols\<close>

text \<open>
  \<^verbatim>\<open>std::set<SymbolT>\<close> is modelled by the list of its elements in iteration order,
  that is, ascending under \<open>Symbol_less\<close>; two symbols are the same key when neither is
  less than the other.

  The container requires of its comparison that it is a strict weak ordering.
  \<^verbatim>\<open>operator<\<close> is one among the symbols of one kind; a terminal and a non-terminal are
  each less than the other. What a tree does with such a pair depends on its shape, and
  the behaviour of the container is undefined: \<open>comparable x s\<close> is the condition under
  which \<^verbatim>\<open>insert\<close>, \<^verbatim>\<open>contains\<close> and \<^verbatim>\<open>erase\<close> of \<open>x\<close> on the set \<open>s\<close> are defined, every
  element of \<open>s\<close> is of the kind of \<open>x\<close>. The three functions on lists are the operations
  under that condition.
\<close>

type_synonym SymbolSet = "GrammaticalSymbol list"

definition comparable :: "GrammaticalSymbol \<Rightarrow> SymbolSet \<Rightarrow> bool" where
  "comparable x s = list_all (\<lambda>y. isTerminal y = isTerminal x) s"

fun insert_ordered :: "GrammaticalSymbol \<Rightarrow> SymbolSet \<Rightarrow> SymbolSet \<times> bool" where
  "insert_ordered x [] = ([x], True)"
| "insert_ordered x (y # ys) =
     (if Symbol_less x y then (x # y # ys, True)
      else if Symbol_less y x then (case insert_ordered x ys of (r, b) \<Rightarrow> (y # r, b))
      else (y # ys, False))"

fun contains_ordered :: "GrammaticalSymbol \<Rightarrow> SymbolSet \<Rightarrow> bool" where
  "contains_ordered x [] = False"
| "contains_ordered x (y # ys) =
     (if \<not> Symbol_less x y \<and> \<not> Symbol_less y x then True else contains_ordered x ys)"

fun erase_ordered :: "GrammaticalSymbol \<Rightarrow> SymbolSet \<Rightarrow> SymbolSet \<times> bool" where
  "erase_ordered x [] = ([], False)"
| "erase_ordered x (y # ys) =
     (if \<not> Symbol_less x y \<and> \<not> Symbol_less y x then (ys, True)
      else (case erase_ordered x ys of (r, b) \<Rightarrow> (y # r, b)))"

text \<open>
  \<^verbatim>\<open>set::insert(value)\<close>: the set and whether the value was new; \<^verbatim>\<open>set::contains(value)\<close>;
  \<^verbatim>\<open>set::erase(value)\<close>: the set and whether an element was removed.
\<close>

definition set_insert :: "GrammaticalSymbol \<Rightarrow> SymbolSet \<Rightarrow> exn + (SymbolSet \<times> bool)" where
  "set_insert x s = (if comparable x s then Inr (insert_ordered x s) else Inl UndefinedBehaviour)"

definition set_contains :: "GrammaticalSymbol \<Rightarrow> SymbolSet \<Rightarrow> exn + bool" where
  "set_contains x s = (if comparable x s then Inr (contains_ordered x s) else Inl UndefinedBehaviour)"

definition set_erase :: "GrammaticalSymbol \<Rightarrow> SymbolSet \<Rightarrow> exn + (SymbolSet \<times> bool)" where
  "set_erase x s = (if comparable x s then Inr (erase_ordered x s) else Inl UndefinedBehaviour)"

text \<open>\<^verbatim>\<open>set::insert(first, last)\<close>: the result and whether any element was new.\<close>

fun set_insert_range :: "SymbolSet \<Rightarrow> SymbolSet \<Rightarrow> exn + (SymbolSet \<times> bool)" where
  "set_insert_range [] s = Inr (s, False)"
| "set_insert_range (x # xs) s =
     (case set_insert x s of
        Inl e \<Rightarrow> Inl e
      | Inr (s', b) \<Rightarrow>
          (case set_insert_range xs s' of
             Inl e \<Rightarrow> Inl e
           | Inr (s'', b') \<Rightarrow> Inr (s'', b \<or> b')))"

section \<open>Production elements and productions\<close>

datatype ProdElementType = PET_GRAM_SYMBOL | PET_SYNTH_RECORD | PET_ACTION_RECORD

text \<open>
  \<^verbatim>\<open>LRProductionElement\<close>: a type tag and the grammar symbol. The LL stack element
  extends it with the two records.
\<close>

record ProductionElement =
  elemType :: ProdElementType
  gramSymbol :: GrammaticalSymbol

definition LRProductionElement :: "GrammaticalSymbol \<Rightarrow> ProductionElement" where
  "LRProductionElement symbol = \<lparr>elemType = PET_GRAM_SYMBOL, gramSymbol = symbol\<rparr>"

definition LRProductionElement_eq :: "ProductionElement \<Rightarrow> ProductionElement \<Rightarrow> bool" where
  "LRProductionElement_eq lhs rhs =
     (elemType lhs = elemType rhs \<and> Symbol_eq (gramSymbol lhs) (gramSymbol rhs))"

text \<open>
  \<^verbatim>\<open>ProductionRecord\<close>. \<open>m_Size\<close> is the private count of grammar symbols in the body that
  the constructor computes; \<open>postfixAction\<close> is the untyped action pointer, \<open>None\<close> for
  \<^verbatim>\<open>nullptr\<close>.
\<close>

record ('e, 'a) ProductionRecord =
  m_Size :: nat
  prodHead :: GrammaticalSymbol
  prodBody :: "'e list"
  prodNumber :: nat
  postfixAction :: "'a option"

definition isGramSymbol :: "'x ProductionElement_scheme \<Rightarrow> bool" where
  "isGramSymbol prodElement = (elemType prodElement = PET_GRAM_SYMBOL)"

text \<open>The converting constructor of \<^verbatim>\<open>ProductionRecord\<close>, with its two checks.\<close>

definition ProductionRecord_make ::
  "GrammaticalSymbol \<Rightarrow> ('x ProductionElement_scheme) list \<Rightarrow> nat \<Rightarrow> 'a option
     \<Rightarrow> exn + ('x ProductionElement_scheme, 'a) ProductionRecord" where
  "ProductionRecord_make head body n postfixAct =
     (if isTerminal head then Inl InvalidProduction
      else if body = [] then Inl EmptyProductionBody
      else Inr \<lparr>m_Size = length (filter isGramSymbol body), prodHead = head, prodBody = body,
                prodNumber = n, postfixAction = postfixAct\<rparr>)"

text \<open>\<^verbatim>\<open>ProductionRecord::size\<close>: the number of grammar symbols in the body.\<close>

definition ProductionRecord_size :: "('e, 'a) ProductionRecord \<Rightarrow> nat" where
  "ProductionRecord_size p = m_Size p"

text \<open>
  \<^verbatim>\<open>ProductionRecord::operator==\<close>: heads and bodies, the bodies compared as vectors with
  the element type's own equality \<open>eqE\<close>.
\<close>

definition ProductionRecord_eq ::
  "('e \<Rightarrow> 'e \<Rightarrow> bool) \<Rightarrow> ('e, 'a) ProductionRecord \<Rightarrow> ('e, 'a) ProductionRecord \<Rightarrow> bool" where
  "ProductionRecord_eq eqE this rhs =
     (if \<not> Symbol_eq (prodHead this) (prodHead rhs) then False
      else list_all2 eqE (prodBody this) (prodBody rhs))"

text \<open>\<^verbatim>\<open>ProductionRecord::toSymbolString\<close>: the grammar symbols of the body, in order.\<close>

definition toSymbolString :: "('x ProductionElement_scheme, 'a) ProductionRecord \<Rightarrow> GrammaticalSymbol list" where
  "toSymbolString p = map gramSymbol (filter isGramSymbol (prodBody p))"

section \<open>Production vectors: FIRST and FOLLOW\<close>

record ('e, 'a) ProductionVector =
  FIRST :: "SymbolSet list"
  FOLLOW :: "SymbolSet list"
  m_CalculatedFIRST :: bool
  m_CalculatedFOLLOW :: bool
  m_Vector :: "('e, 'a) ProductionRecord list"

definition ProductionVector_make ::
  "('e, 'a) ProductionRecord list \<Rightarrow> ('e, 'a) ProductionVector" where
  "ProductionVector_make vec =
     \<lparr>FIRST = [], FOLLOW = [], m_CalculatedFIRST = False, m_CalculatedFOLLOW = False,
      m_Vector = vec\<rparr>"

text \<open>\<^verbatim>\<open>vector::resize\<close> with value-initialised new elements.\<close>

definition resize :: "nat \<Rightarrow> 'a \<Rightarrow> 'a list \<Rightarrow> 'a list" where
  "resize n d xs = (if n \<le> length xs then take n xs else xs @ replicate (n - length xs) d)"

text \<open>
  The loop of \<^verbatim>\<open>_calc_FIRST_of_prod\<close> over the FIRST set of a non-terminal. It walks the
  set in order and inserts each symbol into the head's set, and on reaching EPSILON it
  returns \<^verbatim>\<open>true\<close> from the whole function: the first component of the result is that
  early return.
\<close>

fun copy_FIRST_loop ::
  "enumerators \<Rightarrow> SymbolSet \<Rightarrow> SymbolSet \<Rightarrow> bool \<Rightarrow> exn + (bool \<times> SymbolSet \<times> bool)" where
  "copy_FIRST_loop E [] fsetH added = Inr (False, fsetH, added)"
| "copy_FIRST_loop E (symbol # rest) fsetH added =
     (if Symbol_eq symbol (EPSILON E) then Inr (True, fsetH, added)
      else (case set_insert symbol fsetH of
              Inl e \<Rightarrow> Inl e
            | Inr (fsetH', inserted) \<Rightarrow> copy_FIRST_loop E rest fsetH' (added \<or> inserted)))"

text \<open>
  \<^verbatim>\<open>_calc_FIRST_of_prod(production, symbol, added, index)\<close> on the FIRST vector \<open>F\<close>: the result is
  the returned flag (continue with the next grammar symbol of the body), the new vector
  and the new value of \<open>added\<close>. \<^verbatim>\<open>FIRST[i]\<close> is an unchecked access.
\<close>

definition calc_FIRST_of_prod ::
  "enumerators \<Rightarrow> SymbolSet list \<Rightarrow> ('e, 'a) ProductionRecord \<Rightarrow> GrammaticalSymbol \<Rightarrow> bool \<Rightarrow> nat
     \<Rightarrow> exn + (bool \<times> SymbolSet list \<times> bool)" where
  "calc_FIRST_of_prod E F production symbol added index =
     (let head = prodHead production; setIndexH = as_value head in
      if setIndexH \<ge> length F then Inl UndefinedBehaviour
      else
        let fsetH = F ! setIndexH in
        case set_contains (EPSILON E) fsetH of
          Inl e \<Rightarrow> Inl e
        | Inr containsEpsilonH \<Rightarrow>
        if \<not> isTerminal symbol then
          (let setIndexN = as_value symbol in
           if setIndexN \<ge> length F then Inl UndefinedBehaviour
           else
             let fsetN = F ! setIndexN in
             case set_contains (EPSILON E) fsetN of
               Inl e \<Rightarrow> Inl e
             | Inr containsEpsilonN \<Rightarrow>
             if Symbol_eq symbol head then
               (if \<not> containsEpsilonN then Inr (False, F, added) else Inr (True, F, added))
             else if fsetN = [] then Inr (False, F, added)
             else
               (case copy_FIRST_loop E fsetN fsetH added of
                  Inl e \<Rightarrow> Inl e
                | Inr (True, fsetH', added') \<Rightarrow> Inr (True, F[setIndexH := fsetH'], added')
                | Inr (False, fsetH', added') \<Rightarrow>
                    (if containsEpsilonN then
                       (let atEnd = (index = length (prodBody production)) in
                        if \<not> atEnd then Inr (False, F[setIndexH := fsetH'], added')
                        else if \<not> containsEpsilonH then
                          (case set_insert (EPSILON E) fsetH' of
                             Inl e \<Rightarrow> Inl e
                           | Inr (fsetH'', inserted) \<Rightarrow>
                               Inr (False, F[setIndexH := fsetH''], added' \<or> inserted))
                        else Inr (False, F[setIndexH := fsetH'], added'))
                     else Inr (False, F[setIndexH := fsetH'], added'))))
        else
          (case set_insert symbol fsetH of
             Inl e \<Rightarrow> Inl e
           | Inr (fsetH', inserted) \<Rightarrow> Inr (False, F[setIndexH := fsetH'], added \<or> inserted)))"

text \<open>
  The loop of \<^verbatim>\<open>calculateFIRST\<close> over the elements of one body. \<open>index\<close> starts at 1 and
  is incremented only after a grammar symbol; other elements are skipped.
\<close>

fun FIRST_body_loop ::
  "enumerators \<Rightarrow> ('x ProductionElement_scheme, 'a) ProductionRecord
     \<Rightarrow> ('x ProductionElement_scheme) list \<Rightarrow> nat \<Rightarrow> SymbolSet list \<Rightarrow> bool
     \<Rightarrow> exn + (SymbolSet list \<times> bool)" where
  "FIRST_body_loop E production [] index F added = Inr (F, added)"
| "FIRST_body_loop E production (stackElement # rest) index F added =
     (if elemType stackElement \<noteq> PET_GRAM_SYMBOL then FIRST_body_loop E production rest index F added
      else
        (case calc_FIRST_of_prod E F production (gramSymbol stackElement) added index of
           Inl e \<Rightarrow> Inl e
         | Inr (cont, F', added') \<Rightarrow>
             (if \<not> cont then Inr (F', added')
              else FIRST_body_loop E production rest (index + 1) F' added')))"

text \<open>One pass of \<^verbatim>\<open>calculateFIRST\<close> over all productions.\<close>

fun FIRST_round ::
  "enumerators \<Rightarrow> ('x ProductionElement_scheme, 'a) ProductionRecord list
     \<Rightarrow> SymbolSet list \<Rightarrow> bool \<Rightarrow> exn + (SymbolSet list \<times> bool)" where
  "FIRST_round E [] F added = Inr (F, added)"
| "FIRST_round E (production # productions) F added =
     (case FIRST_body_loop E production (prodBody production) 1 F added of
        Inl e \<Rightarrow> Inl e
      | Inr (F', added') \<Rightarrow> FIRST_round E productions F' added')"

text \<open>
  The \<^verbatim>\<open>while (true)\<close> of \<^verbatim>\<open>calculateFIRST\<close>: passes are repeated until one adds nothing.
  A loop that never ends has the value \<open>None\<close>.
\<close>

partial_function (option) FIRST_while ::
  "enumerators \<Rightarrow> ('x ProductionElement_scheme, 'a) ProductionRecord list
     \<Rightarrow> SymbolSet list \<Rightarrow> (exn + SymbolSet list) option" where
  [code]: "FIRST_while E productions F =
     (case FIRST_round E productions F False of
        Inl e \<Rightarrow> Some (Inl e)
      | Inr (F', added) \<Rightarrow> (if \<not> added then Some (Inr F') else FIRST_while E productions F'))"

text \<open>\<^verbatim>\<open>ProductionVector::calculateFIRST\<close>: the grammar with its FIRST cache filled.\<close>

definition calculateFIRST ::
  "enumerators \<Rightarrow> ('x ProductionElement_scheme, 'a) ProductionVector
     \<Rightarrow> (exn + ('x ProductionElement_scheme, 'a) ProductionVector) option" where
  "calculateFIRST E pv =
     (if m_CalculatedFIRST pv then Some (Inr pv)
      else
        (case FIRST_while E (m_Vector pv) (resize (NT_COUNT E) [] (FIRST pv)) of
           None \<Rightarrow> None
         | Some (Inl e) \<Rightarrow> Some (Inl e)
         | Some (Inr F') \<Rightarrow> Some (Inr (pv\<lparr>FIRST := F', m_CalculatedFIRST := True\<rparr>))))"

text \<open>\<^verbatim>\<open>ProductionVector::getFIRST()\<close>: the whole FIRST vector, calculated or not.\<close>

definition getFIRST :: "('e, 'a) ProductionVector \<Rightarrow> SymbolSet list" where
  "getFIRST pv = FIRST pv"

subsection \<open>FOLLOW\<close>

text \<open>
  The lambda \<^verbatim>\<open>cpyToFollow\<close> applied by \<^verbatim>\<open>std::for_each\<close> to every symbol of a set: the
  symbol is inserted into the FOLLOW set of the current non-terminal, and \<open>added\<close> is
  set when the symbol was new and is not EPSILON.
\<close>

fun cpyToFollow_each ::
  "enumerators \<Rightarrow> SymbolSet \<Rightarrow> SymbolSet \<Rightarrow> bool \<Rightarrow> exn + (SymbolSet \<times> bool)" where
  "cpyToFollow_each E [] currSymFollow added = Inr (currSymFollow, added)"
| "cpyToFollow_each E (symb # rest) currSymFollow added =
     (case set_insert symb currSymFollow of
        Inl e \<Rightarrow> Inl e
      | Inr (currSymFollow', inserted) \<Rightarrow>
          cpyToFollow_each E rest currSymFollow'
            (added \<or> (inserted \<and> \<not> Symbol_eq symb (EPSILON E))))"

text \<open>
  The \<^verbatim>\<open>for\<close> loop of \<^verbatim>\<open>_calc_FOLLOW_of_nonTerminal\<close> over the elements after the
  non-terminal. The list argument is the part of the body from \<open>varIndex\<close> on, so its
  head is \<^verbatim>\<open>prodBody.at(varIndex)\<close>. \<open>FL\<close> is the FOLLOW vector; the set of the head is read
  from it when it is used, as the source reads it through a reference.
\<close>

fun FOLLOW_scan ::
  "enumerators \<Rightarrow> SymbolSet list \<Rightarrow> nat \<Rightarrow> nat \<Rightarrow> nat \<Rightarrow> ('x ProductionElement_scheme) list \<Rightarrow> nat
     \<Rightarrow> SymbolSet list \<Rightarrow> bool \<Rightarrow> exn + (bool \<times> SymbolSet list)" where
  "FOLLOW_scan E FI prodBdySz headIndex currSymIndex [] varIndex FL added = Inr (added, FL)"
| "FOLLOW_scan E FI prodBdySz headIndex currSymIndex (el # rest) varIndex FL added =
     (if elemType el \<noteq> PET_GRAM_SYMBOL then
        (let atEnd = (varIndex + 1 = prodBdySz) in
         if \<not> atEnd then
           FOLLOW_scan E FI prodBdySz headIndex currSymIndex rest (varIndex + 1) FL added
         else
           (case cpyToFollow_each E (FL ! headIndex) (FL ! currSymIndex) added of
              Inl e \<Rightarrow> Inl e
            | Inr (cur', added') \<Rightarrow> Inr (added', FL[currSymIndex := cur'])))
      else
        (let symbol = gramSymbol el; symIndex = as_value symbol in
         if isTerminal symbol then
           (case set_insert symbol (FL ! currSymIndex) of
              Inl e \<Rightarrow> Inl e
            | Inr (cur', inserted) \<Rightarrow> Inr (inserted, FL[currSymIndex := cur']))
         else if symIndex \<ge> length FI then Inl OutOfRange
         else
           (case cpyToFollow_each E (FI ! symIndex) (FL ! currSymIndex) added of
              Inl e \<Rightarrow> Inl e
            | Inr (cur', added') \<Rightarrow>
                (case set_erase (EPSILON E) cur' of
                   Inl e \<Rightarrow> Inl e
                 | Inr (cur'', containsEpsilon) \<Rightarrow>
                     (if \<not> containsEpsilon then Inr (added', FL[currSymIndex := cur''])
                      else
                        (let atEnd = (varIndex + 1 = prodBdySz);
                             FL' = FL[currSymIndex := cur''] in
                         if \<not> atEnd then
                           FOLLOW_scan E FI prodBdySz headIndex currSymIndex rest (varIndex + 1)
                             FL' added'
                         else
                           (case cpyToFollow_each E (FL' ! headIndex) (FL' ! currSymIndex) added' of
                              Inl e \<Rightarrow> Inl e
                            | Inr (cur3, added3) \<Rightarrow>
                                FOLLOW_scan E FI prodBdySz headIndex currSymIndex rest
                                  (varIndex + 1) (FL'[currSymIndex := cur3]) added3)))))))"

text \<open>
  \<^verbatim>\<open>_calc_FOLLOW_of_nonTerminal(nonTerminal, prodIndex, variableIndex)\<close>: the returned flag
  and the new FOLLOW vector. All accesses here are checked (\<^verbatim>\<open>at\<close>).
\<close>

definition calc_FOLLOW_of_nonTerminal ::
  "enumerators \<Rightarrow> SymbolSet list \<Rightarrow> ('x ProductionElement_scheme, 'a) ProductionRecord list
     \<Rightarrow> SymbolSet list \<Rightarrow> nat \<Rightarrow> nat \<Rightarrow> nat \<Rightarrow> exn + (bool \<times> SymbolSet list)" where
  "calc_FOLLOW_of_nonTerminal E FI vec FL nonTerminal prodIndex variableIndex =
     (if prodIndex \<ge> length vec then Inl OutOfRange
      else
        let production = vec ! prodIndex;
            prodBdySz = length (prodBody production);
            headIndex = as_value (prodHead production);
            currSymIndex = nonTerminal
        in
        if headIndex \<ge> length FL then Inl OutOfRange
        else if currSymIndex \<ge> length FL then Inl OutOfRange
        else
          let lastSymbol = (variableIndex = dec64 prodBdySz) in
          if lastSymbol then
            (case cpyToFollow_each E (FL ! headIndex) (FL ! currSymIndex) False of
               Inl e \<Rightarrow> Inl e
             | Inr (cur', added) \<Rightarrow> Inr (added, FL[currSymIndex := cur']))
          else
            FOLLOW_scan E FI prodBdySz headIndex currSymIndex
              (drop (variableIndex + 1) (prodBody production)) (variableIndex + 1) FL False)"

text \<open>The loop of \<^verbatim>\<open>calculateFOLLOW\<close> over the elements of one body.\<close>

fun FOLLOW_body_loop ::
  "enumerators \<Rightarrow> SymbolSet list \<Rightarrow> ('x ProductionElement_scheme, 'a) ProductionRecord list
     \<Rightarrow> nat \<Rightarrow> ('x ProductionElement_scheme) list \<Rightarrow> nat \<Rightarrow> SymbolSet list \<Rightarrow> bool
     \<Rightarrow> exn + (SymbolSet list \<times> bool)" where
  "FOLLOW_body_loop E FI vec prodIndex [] symIndex FL added = Inr (FL, added)"
| "FOLLOW_body_loop E FI vec prodIndex (stackElement # rest) symIndex FL added =
     (if elemType stackElement \<noteq> PET_GRAM_SYMBOL then
        FOLLOW_body_loop E FI vec prodIndex rest (symIndex + 1) FL added
      else
        (let symbol = gramSymbol stackElement in
         if isTerminal symbol then
           FOLLOW_body_loop E FI vec prodIndex rest (symIndex + 1) FL added
         else
           (case calc_FOLLOW_of_nonTerminal E FI vec FL (as_value symbol) prodIndex symIndex of
              Inl e \<Rightarrow> Inl e
            | Inr (added', FL') \<Rightarrow>
                FOLLOW_body_loop E FI vec prodIndex rest (symIndex + 1) FL' (added \<or> added'))))"

text \<open>One pass of \<^verbatim>\<open>calculateFOLLOW\<close> over all productions.\<close>

fun FOLLOW_round ::
  "enumerators \<Rightarrow> SymbolSet list \<Rightarrow> ('x ProductionElement_scheme, 'a) ProductionRecord list
     \<Rightarrow> ('x ProductionElement_scheme, 'a) ProductionRecord list \<Rightarrow> nat \<Rightarrow> SymbolSet list \<Rightarrow> bool
     \<Rightarrow> exn + (SymbolSet list \<times> bool)" where
  "FOLLOW_round E FI vec [] prodIndex FL added = Inr (FL, added)"
| "FOLLOW_round E FI vec (production # productions) prodIndex FL added =
     (case FOLLOW_body_loop E FI vec prodIndex (prodBody production) 0 FL added of
        Inl e \<Rightarrow> Inl e
      | Inr (FL', added') \<Rightarrow> FOLLOW_round E FI vec productions (prodIndex + 1) FL' added')"

text \<open>The \<^verbatim>\<open>while (true)\<close> of \<^verbatim>\<open>calculateFOLLOW\<close>.\<close>

partial_function (option) FOLLOW_while ::
  "enumerators \<Rightarrow> SymbolSet list \<Rightarrow> ('x ProductionElement_scheme, 'a) ProductionRecord list
     \<Rightarrow> SymbolSet list \<Rightarrow> (exn + SymbolSet list) option" where
  [code]: "FOLLOW_while E FI vec FL =
     (case FOLLOW_round E FI vec vec 0 FL False of
        Inl e \<Rightarrow> Some (Inl e)
      | Inr (FL', added) \<Rightarrow> (if \<not> added then Some (Inr FL') else FOLLOW_while E FI vec FL'))"

text \<open>
  \<^verbatim>\<open>ProductionVector::calculateFOLLOW\<close>. FIRST must have been calculated. The FOLLOW set of
  the head of the first production starts with the end marker.
\<close>

definition calculateFOLLOW ::
  "enumerators \<Rightarrow> ('x ProductionElement_scheme, 'a) ProductionVector
     \<Rightarrow> (exn + ('x ProductionElement_scheme, 'a) ProductionVector) option" where
  "calculateFOLLOW E pv =
     (if m_CalculatedFOLLOW pv then Some (Inr pv)
      else if \<not> m_CalculatedFIRST pv then Some (Inl MissingValue)
      else
        let FL0 = resize (NT_COUNT E) [] (FOLLOW pv) in
        if m_Vector pv = [] then Some (Inl OutOfRange)
        else
          let startHeadIndex = as_value (prodHead (m_Vector pv ! 0)) in
          if startHeadIndex \<ge> length FL0 then Some (Inl OutOfRange)
          else
            (case set_insert (END_MARKER E) (FL0 ! startHeadIndex) of
               Inl e \<Rightarrow> Some (Inl e)
             | Inr (startFollow, inserted) \<Rightarrow>
                 (case FOLLOW_while E (FIRST pv) (m_Vector pv) (FL0[startHeadIndex := startFollow]) of
                    None \<Rightarrow> None
                  | Some (Inl e) \<Rightarrow> Some (Inl e)
                  | Some (Inr FL') \<Rightarrow>
                      Some (Inr (pv\<lparr>FOLLOW := FL', m_CalculatedFOLLOW := True\<rparr>)))))"

text \<open>\<^verbatim>\<open>ProductionVector::getFOLLOW(nonTerminal)\<close>; the subscript is unchecked.\<close>

definition getFOLLOW :: "('e, 'a) ProductionVector \<Rightarrow> nat \<Rightarrow> exn + SymbolSet" where
  "getFOLLOW pv nonTerminal =
     (if m_CalculatedFOLLOW pv then
        (if nonTerminal < length (FOLLOW pv) then Inr (FOLLOW pv ! nonTerminal)
         else Inl UndefinedBehaviour)
      else Inl MissingValue)"

text \<open>
  The two calls of the constructor of \<^verbatim>\<open>LRParser\<close>: \<^verbatim>\<open>calculateFIRST\<close>, then
  \<^verbatim>\<open>calculateFOLLOW\<close>, on the grammar of the parsing table.
\<close>

definition calculate_FIRST_FOLLOW ::
  "enumerators \<Rightarrow> ('x ProductionElement_scheme, 'a) ProductionVector
     \<Rightarrow> (exn + ('x ProductionElement_scheme, 'a) ProductionVector) option" where
  "calculate_FIRST_FOLLOW E pv =
     (case calculateFIRST E pv of
        None \<Rightarrow> None
      | Some (Inl e) \<Rightarrow> Some (Inl e)
      | Some (Inr pv') \<Rightarrow> calculateFOLLOW E pv')"

section \<open>Symbol strings\<close>

text \<open>
  \<^verbatim>\<open>GrammaticalSymbolString\<close>: the symbols, the FIRST set and the flag that it has been
  calculated (the two private members carry the prefix \<open>ss\<close> here, the production vector
  has members of the same names).
\<close>

record GrammaticalSymbolString =
  ss_CalculatedFIRST :: bool
  ss_FIRST :: SymbolSet
  symbols :: "GrammaticalSymbol list"

definition SymbolString_make :: "GrammaticalSymbol list \<Rightarrow> GrammaticalSymbolString" where
  "SymbolString_make syms = \<lparr>ss_CalculatedFIRST = False, ss_FIRST = [], symbols = syms\<rparr>"

definition SymbolString_push_back ::
  "GrammaticalSymbol \<Rightarrow> GrammaticalSymbolString \<Rightarrow> GrammaticalSymbolString" where
  "SymbolString_push_back symbol ss = ss\<lparr>symbols := symbols ss @ [symbol]\<rparr>"

text \<open>
  The loop of \<^verbatim>\<open>GrammaticalSymbolString::calculateFIRST\<close>. \<open>n\<close> is \<^verbatim>\<open>symbols.size()\<close>; the
  counter \<open>i\<close> is incremented only at the end of the non-terminal branch.
\<close>

fun SymbolString_FIRST_loop ::
  "enumerators \<Rightarrow> SymbolSet list \<Rightarrow> nat \<Rightarrow> GrammaticalSymbol list \<Rightarrow> nat \<Rightarrow> SymbolSet
     \<Rightarrow> exn + SymbolSet" where
  "SymbolString_FIRST_loop E prodVecFIRST n [] i first = Inr first"
| "SymbolString_FIRST_loop E prodVecFIRST n (symbol # rest) i first =
     (let isLastSymbol = (i = dec64 n) in
      if isTerminal symbol then
        (let isEpsilon = Symbol_eq symbol (EPSILON E) in
         case (if \<not> isEpsilon \<or> isLastSymbol then map_sum id fst (set_insert symbol first)
               else Inr first) of
           Inl e \<Rightarrow> Inl e
         | Inr first' \<Rightarrow>
             (if \<not> isEpsilon then Inr first'
              else SymbolString_FIRST_loop E prodVecFIRST n rest i first'))
      else
        (let symIndex = as_value symbol in
         if symIndex \<ge> length prodVecFIRST then Inl OutOfRange
         else
           let fset = prodVecFIRST ! symIndex in
           if fset = [] then Inl EmptyFIRST
           else
             (case set_insert_range fset first of
                Inl e \<Rightarrow> Inl e
              | Inr (first1, inserted) \<Rightarrow>
                  (case set_erase (EPSILON E) first1 of
                     Inl e \<Rightarrow> Inl e
                   | Inr (first', containsEpsilon) \<Rightarrow>
                       (if \<not> containsEpsilon then Inr first'
                        else
                          (case (if isLastSymbol then map_sum id fst (set_insert (EPSILON E) first')
                                 else Inr first') of
                             Inl e \<Rightarrow> Inl e
                           | Inr first'' \<Rightarrow>
                               SymbolString_FIRST_loop E prodVecFIRST n rest (i + 1) first''))))))"

text \<open>\<^verbatim>\<open>GrammaticalSymbolString::calculateFIRST(prodVecFIRST)\<close>: the string afterwards.\<close>

definition SymbolString_calculateFIRST ::
  "enumerators \<Rightarrow> SymbolSet list \<Rightarrow> GrammaticalSymbolString \<Rightarrow> exn + GrammaticalSymbolString" where
  "SymbolString_calculateFIRST E prodVecFIRST ss =
     (if ss_CalculatedFIRST ss then Inr ss
      else
        (case SymbolString_FIRST_loop E prodVecFIRST (length (symbols ss)) (symbols ss) 0
                (ss_FIRST ss) of
           Inl e \<Rightarrow> Inl e
         | Inr first \<Rightarrow> Inr (ss\<lparr>ss_FIRST := first, ss_CalculatedFIRST := True\<rparr>)))"

text \<open>\<^verbatim>\<open>GrammaticalSymbolString::getFIRST\<close>: a runtime error before the calculation.\<close>

definition SymbolString_getFIRST :: "GrammaticalSymbolString \<Rightarrow> exn + SymbolSet" where
  "SymbolString_getFIRST ss = (if ss_CalculatedFIRST ss then Inr (ss_FIRST ss) else Inl MissingValue)"

section \<open>Tokens and the lexical analyzer\<close>

text \<open>
  \<^verbatim>\<open>Token\<close> (LADataStructs.h): a terminal and an attribute. The default token is the end
  of input: its name is \<^verbatim>\<open>T_EOF\<close> and its attribute is empty.
\<close>

record Token =
  name :: nat
  attribute :: string

definition Token_default :: "enumerators \<Rightarrow> Token" where
  "Token_default E = \<lparr>name = T_EOF E, attribute = []\<rparr>"

definition Token_TEOF :: "enumerators \<Rightarrow> Token" where
  "Token_TEOF E = \<lparr>name = T_EOF E, attribute = []\<rparr>"

definition Token_EPSILON :: "enumerators \<Rightarrow> Token" where
  "Token_EPSILON E = \<lparr>name = T_EPSILON E, attribute = []\<rparr>"

definition Token_eq :: "Token \<Rightarrow> Token \<Rightarrow> bool" where
  "Token_eq this other = (name this = name other \<and> attribute this = attribute other)"

text \<open>
  The parsers see the lexical analyzer through \<^verbatim>\<open>get_next_token\<close> and \<^verbatim>\<open>peak\<close> only. It is
  modelled by the sequence of tokens it has still to deliver: \<^verbatim>\<open>get_next_token\<close> takes
  the first one, \<^verbatim>\<open>peak\<close> reads it, and at the end of the input both give the default
  token.
\<close>

definition get_next_token :: "enumerators \<Rightarrow> Token list \<Rightarrow> Token \<times> Token list" where
  "get_next_token E lx = (case lx of [] \<Rightarrow> (Token_default E, []) | t # ts \<Rightarrow> (t, ts))"

definition peak :: "enumerators \<Rightarrow> Token list \<Rightarrow> Token" where
  "peak E lx = (case lx of [] \<Rightarrow> Token_default E | t # ts \<Rightarrow> t)"

section \<open>The LR parsing table\<close>

text \<open>\<^verbatim>\<open>LRState\<close>: the state number, the data and the token that caused the push.\<close>

record 'd LRState =
  state :: nat
  data :: 'd
  token :: Token

text \<open>
  The constructors \<^verbatim>\<open>LRState()\<close> and \<^verbatim>\<open>LRState(state)\<close>; \<open>d0\<close> is the value-initialised
  data \<^verbatim>\<open>DataT{}\<close>.
\<close>

definition LRState_default :: "enumerators \<Rightarrow> 'd \<Rightarrow> 'd LRState" where
  "LRState_default E d0 = \<lparr>state = SIZE_MAX, data = d0, token = Token_EPSILON E\<rparr>"

definition LRState_of :: "enumerators \<Rightarrow> 'd \<Rightarrow> nat \<Rightarrow> 'd LRState" where
  "LRState_of E d0 n = \<lparr>state = n, data = d0, token = Token_EPSILON E\<rparr>"

text \<open>
  The postfix action of a production is an untyped pointer that the parser casts to the
  reduce form \<^verbatim>\<open>void(StackType&, StackElementType&)\<close> or, for production 0 on accept, to
  the accept form with the parser result as third argument. The two forms are the two
  constructors; an action changes what it gets by reference, so it returns it.
\<close>

datatype ('d, 'r) PostfixAction =
    ReduceAction "'d LRState list \<Rightarrow> 'd LRState \<Rightarrow> 'd LRState list \<times> 'd LRState"
  | AcceptAction "'d LRState list \<Rightarrow> 'd LRState \<Rightarrow> 'r \<Rightarrow> 'd LRState list \<times> 'd LRState \<times> 'r"

record ('d, 'r) LRParsingTable =
  grammar :: "(ProductionElement, ('d, 'r) PostfixAction) ProductionVector"
  actionTable :: "LRTableEntry list list"
  gotoTable :: "LRTableEntry list list"

text \<open>
  A row of a table is a \<^verbatim>\<open>std::array\<close> of \<open>N\<close> entries. It is modelled by a list; the
  entries beyond the end of the list are default entries. \<^verbatim>\<open>array::at\<close> checks the index.
\<close>

definition array_get :: "LRTableEntry list \<Rightarrow> nat \<Rightarrow> LRTableEntry" where
  "array_get row i = (if i < length row then row ! i else LRTableEntry_default)"

text \<open>
  \<^verbatim>\<open>atAction(state, terminal)\<close> and \<^verbatim>\<open>atGoto(state, nonTerminal)\<close>: the table is first
  resized to \<^verbatim>\<open>state + 1\<close> rows when the state is beyond it. Both are \<^verbatim>\<open>noexcept\<close>, so the
  range error of \<^verbatim>\<open>at\<close> ends the program. The result is the entry and the table.
\<close>

definition atAction ::
  "enumerators \<Rightarrow> ('d, 'r) LRParsingTable \<Rightarrow> nat \<Rightarrow> nat \<Rightarrow> exn + (LRTableEntry \<times> ('d, 'r) LRParsingTable)" where
  "atAction E tbl st terminal =
     (let rows = (if st \<ge> length (actionTable tbl) then resize (inc64 st) [] (actionTable tbl)
                  else actionTable tbl)
      in if st \<ge> length rows then Inl ProgramAbort
         else if terminal \<ge> T_COUNT E then Inl ProgramAbort
         else Inr (array_get (rows ! st) terminal, tbl\<lparr>actionTable := rows\<rparr>))"

definition atGoto ::
  "enumerators \<Rightarrow> ('d, 'r) LRParsingTable \<Rightarrow> nat \<Rightarrow> nat \<Rightarrow> exn + (LRTableEntry \<times> ('d, 'r) LRParsingTable)" where
  "atGoto E tbl st nonTerminal =
     (let rows = (if st \<ge> length (gotoTable tbl) then resize (inc64 st) [] (gotoTable tbl)
                  else gotoTable tbl)
      in if st \<ge> length rows then Inl ProgramAbort
         else if nonTerminal \<ge> NT_COUNT E then Inl ProgramAbort
         else Inr (array_get (rows ! st) nonTerminal, tbl\<lparr>gotoTable := rows\<rparr>))"

text \<open>
  \<^verbatim>\<open>getGotos(state)\<close>: the non-terminals with a non-error goto entry in the row of the
  state. The row is read with an unchecked subscript.
\<close>

definition getGotos :: "enumerators \<Rightarrow> ('d, 'r) LRParsingTable \<Rightarrow> nat \<Rightarrow> exn + nat list" where
  "getGotos E tbl st =
     (if st \<ge> length (gotoTable tbl) then Inl UndefinedBehaviour
      else Inr (filter (\<lambda>variable. \<not> isError (array_get (gotoTable tbl ! st) variable))
                  [0 ..< NT_COUNT E]))"

section \<open>The LR parser (LRParser.h, Parser.h)\<close>

datatype ErrorRecoveryType =
  ERT_NONE | ERT_PANIC_MODE | ERT_PHRASE_LEVE | ERT_GLOBAL | ERT_ABORT | ERT_NUM

definition ERR_RECOVERY_LIMIT :: nat where
  "ERR_RECOVERY_LIMIT = 5"

text \<open>
  The members of the parser that change during a parse: the stack (the top is the last
  element), the current top state, the current input token, the table (its accessors may
  resize it) and the lexical analyzer.
\<close>

record ('d, 'r) LRParser =
  m_Stack :: "'d LRState list"
  m_CurrTopState :: "'d LRState"
  m_CurrInputToken :: Token
  p_Table :: "('d, 'r) LRParsingTable"
  lexer :: "Token list"

definition START_STATE :: "enumerators \<Rightarrow> 'd \<Rightarrow> 'd LRState" where
  "START_STATE E d0 = LRState_of E d0 0"

text \<open>
  The constructor of \<^verbatim>\<open>LRParser\<close>: it stores the lexical analyzer and the table and
  calculates FIRST and FOLLOW of the table's grammar.
\<close>

definition LRParser_make ::
  "enumerators \<Rightarrow> 'd \<Rightarrow> Token list \<Rightarrow> ('d, 'r) LRParsingTable \<Rightarrow> (exn + ('d, 'r) LRParser) option" where
  "LRParser_make E d0 lx parsingTable =
     (case calculate_FIRST_FOLLOW E (grammar parsingTable) of
        None \<Rightarrow> None
      | Some (Inl e) \<Rightarrow> Some (Inl e)
      | Some (Inr g) \<Rightarrow>
          Some (Inr \<lparr>m_Stack = [], m_CurrTopState = START_STATE E d0,
                     m_CurrInputToken = Token_default E,
                     p_Table = parsingTable\<lparr>grammar := g\<rparr>, lexer = lx\<rparr>))"

definition reset_parser_state :: "enumerators \<Rightarrow> 'd \<Rightarrow> ('d, 'r) LRParser \<Rightarrow> ('d, 'r) LRParser" where
  "reset_parser_state E d0 P =
     P\<lparr>m_Stack := [], m_CurrTopState := START_STATE E d0, m_CurrInputToken := Token_default E\<rparr>"

definition LR_get_next_token :: "enumerators \<Rightarrow> ('d, 'r) LRParser \<Rightarrow> Token \<times> ('d, 'r) LRParser" where
  "LR_get_next_token E P = (case get_next_token E (lexer P) of (t, lx) \<Rightarrow> (t, P\<lparr>lexer := lx\<rparr>))"

text \<open>\<^verbatim>\<open>_push_state\<close>.\<close>

definition push_state :: "('d, 'r) LRParser \<Rightarrow> 'd LRState \<Rightarrow> ('d, 'r) LRParser" where
  "push_state P s = P\<lparr>m_Stack := m_Stack P @ [s], m_CurrTopState := s\<rparr>"

text \<open>
  \<^verbatim>\<open>_pop_state\<close> and \<^verbatim>\<open>_pop_states\<close>. The result is the exception, if one is thrown, and
  the parser at that moment. \<^verbatim>\<open>_pop_state\<close> sets the current top state to the state it is
  about to pop. In \<^verbatim>\<open>_pop_states\<close> the bound \<^verbatim>\<open>num + 1\<close> is computed in \<^verbatim>\<open>size_t\<close>.
\<close>

definition pop_state :: "('d, 'r) LRParser \<Rightarrow> exn option \<times> ('d, 'r) LRParser" where
  "pop_state P =
     (if length (m_Stack P) \<le> 1 then (Some StackUnderflow, P)
      else (None, P\<lparr>m_CurrTopState := last (m_Stack P), m_Stack := butlast (m_Stack P)\<rparr>))"

definition pop_states :: "('d, 'r) LRParser \<Rightarrow> nat \<Rightarrow> exn option \<times> ('d, 'r) LRParser" where
  "pop_states P num =
     (if length (m_Stack P) < inc64 num then (Some StackUnderflow, P)
      else if num > length (m_Stack P) then (Some UndefinedBehaviour, P)
      else
        let stk = take (length (m_Stack P) - num) (m_Stack P) in
        if stk = [] then (Some UndefinedBehaviour, P\<lparr>m_Stack := stk\<rparr>)
        else (None, P\<lparr>m_Stack := stk, m_CurrTopState := last stk\<rparr>))"

subsection \<open>Panic-mode recovery\<close>

text \<open>
  Modelled from the spec: \<^verbatim>\<open>isIn\<close> of \<^verbatim>\<open>utility/common.h\<close>, which is not among the sources.
  The spec reads the call as the test whether the token's terminal is in FOLLOW(N).
\<close>

definition isIn :: "GrammaticalSymbol \<Rightarrow> SymbolSet \<Rightarrow> bool" where
  "isIn x s = list_ex (\<lambda>y. Symbol_eq y x) s"

text \<open>
  The first loop of \<^verbatim>\<open>_error_recov_panic_mode\<close>: states are popped, with \<^verbatim>\<open>pop_back\<close>
  directly, until the top state has a goto on some non-terminal or the stack is empty.
  The result is the stack, the recorded non-terminals and \<open>found\<close>.
\<close>

function panic_find_state ::
  "enumerators \<Rightarrow> ('d, 'r) LRParsingTable \<Rightarrow> 'd LRState list
     \<Rightarrow> exn + ('d LRState list \<times> nat list \<times> bool)" where
  "panic_find_state E tbl stk =
     (if stk = [] then Inr (stk, [], False)
      else
        (case getGotos E tbl (state (last stk)) of
           Inl e \<Rightarrow> Inl e
         | Inr nonTerminals \<Rightarrow>
             (if nonTerminals \<noteq> [] then Inr (stk, nonTerminals, True)
              else panic_find_state E tbl (butlast stk))))"
  by pat_completeness auto
termination
  by (relation "measure (\<lambda>(E, tbl, stk). length stk)") auto

text \<open>
  The inner loop of the second part, over the recorded non-terminals for the current
  terminal: \<open>None\<close> when the terminal is in no FOLLOW set (nothing has changed), else the
  parser after the push of the goto state.
\<close>

fun panic_try_nonTerminals ::
  "enumerators \<Rightarrow> 'd \<Rightarrow> nat \<Rightarrow> nat list \<Rightarrow> ('d, 'r) LRParser \<Rightarrow> exn + ('d, 'r) LRParser option" where
  "panic_try_nonTerminals E d0 currT [] P = Inr None"
| "panic_try_nonTerminals E d0 currT (nonTerminal # rest) P =
     (case getFOLLOW (grammar (p_Table P)) nonTerminal of
        Inl e \<Rightarrow> Inl e
      | Inr follow \<Rightarrow>
          (if \<not> isIn \<lparr>isTerminal = True, as_value = currT\<rparr> follow
             then panic_try_nonTerminals E d0 currT rest P
           else if m_Stack P = [] then Inl UndefinedBehaviour
           else
             (case atGoto E (p_Table P) (state (last (m_Stack P))) nonTerminal of
                Inl e \<Rightarrow> Inl e
              | Inr (entry, tbl) \<Rightarrow>
                  (if isError entry then Inl ProgramAbort
                   else Inr (Some (push_state (P\<lparr>p_Table := tbl\<rparr>)
                                     (LRState_of E d0 (number entry))))))))"

text \<open>
  The second loop: the tokens left on the input, the current one first. After the end of
  input has been examined the loop fetches one more token and leaves; the function then
  returns normally, without having synchronized.
\<close>

function panic_sync ::
  "enumerators \<Rightarrow> 'd \<Rightarrow> nat list \<Rightarrow> bool \<Rightarrow> ('d, 'r) LRParser \<Rightarrow> exn option \<times> ('d, 'r) LRParser" where
  "panic_sync E d0 nonTerminals hasReachedEnd P =
     (if hasReachedEnd then (None, P)
      else
        (case panic_try_nonTerminals E d0 (name (m_CurrInputToken P)) nonTerminals P of
           Inl e \<Rightarrow> (Some e, P)
         | Inr (Some P') \<Rightarrow> (None, P')
         | Inr None \<Rightarrow>
             (case get_next_token E (lexer P) of
                (t, lx) \<Rightarrow>
                  panic_sync E d0 nonTerminals (Token_eq (m_CurrInputToken P) (Token_TEOF E))
                    (P\<lparr>lexer := lx, m_CurrInputToken := t\<rparr>))))"
  by pat_completeness auto
termination
  by (relation "measure (\<lambda>(E, d0, nonTerminals, hasReachedEnd, P).
        if hasReachedEnd then 0
        else if Token_eq (m_CurrInputToken P) (Token_TEOF E) then 1
        else 2 + length (lexer P))")
     (auto simp: get_next_token_def Token_eq_def Token_TEOF_def Token_default_def
           split: list.splits)

text \<open>\<^verbatim>\<open>_error_recov_panic_mode\<close>. When no state is found the program aborts.\<close>

definition error_recov_panic_mode ::
  "enumerators \<Rightarrow> 'd \<Rightarrow> ('d, 'r) LRParser \<Rightarrow> exn option \<times> ('d, 'r) LRParser" where
  "error_recov_panic_mode E d0 P =
     (case panic_find_state E (p_Table P) (m_Stack P) of
        Inl e \<Rightarrow> (Some e, P)
      | Inr (stk, nonTerminals, found) \<Rightarrow>
          (if \<not> found then (Some ProgramAbort, P\<lparr>m_Stack := stk\<rparr>)
           else panic_sync E d0 nonTerminals False (P\<lparr>m_Stack := stk\<rparr>)))"

subsection \<open>The driver\<close>

text \<open>
  \<^verbatim>\<open>_check_and_resolve_parsing_errors(errorNum, errorRecoveryType)\<close>. \<open>errorNum\<close> is a
  parameter passed by value: the function increments its own copy, which nothing reads
  afterwards, so the model has no result for it.
\<close>

definition check_and_resolve_parsing_errors ::
  "enumerators \<Rightarrow> 'd \<Rightarrow> ('d, 'r) LRParser \<Rightarrow> nat \<Rightarrow> ErrorRecoveryType
     \<Rightarrow> (exn + bool) \<times> ('d, 'r) LRParser" where
  "check_and_resolve_parsing_errors E d0 P errorNum errorRecoveryType =
     (case atAction E (p_Table P) (state (m_CurrTopState P)) (name (m_CurrInputToken P)) of
        Inl e \<Rightarrow> (Inl e, P)
      | Inr (currEntry, tbl) \<Rightarrow>
          (let P1 = P\<lparr>p_Table := tbl\<rparr> in
           if \<not> (isEmpty currEntry \<or> entryType currEntry = TET_ERROR) then (Inr False, P1)
           else if errorNum = ERR_RECOVERY_LIMIT then (Inl ErrorRecoveryLimitExceeded, P1)
           else if errorRecoveryType = ERT_NONE then (Inl UnacceptedString, P1)
           else
             (case errorRecoveryType of
                ERT_PANIC_MODE \<Rightarrow>
                  (case error_recov_panic_mode E d0 P1 of
                     (Some e, P2) \<Rightarrow> (Inl e, P2)
                   | (None, P2) \<Rightarrow> (Inr True, P2))
              | _ \<Rightarrow> (Inl UnacceptedString, P1))))"

text \<open>
  Calling the postfix action of a production in the reduce form. A null pointer is no
  call; a pointer to a function of the other form is undefined behaviour.
\<close>

definition call_reduce_action ::
  "('d, 'r) PostfixAction option \<Rightarrow> 'd LRState list \<Rightarrow> 'd LRState
     \<Rightarrow> exn + ('d LRState list \<times> 'd LRState)" where
  "call_reduce_action action stk newState =
     (case action of
        None \<Rightarrow> Inr (stk, newState)
      | Some (ReduceAction f) \<Rightarrow> Inr (f stk newState)
      | Some (AcceptAction f) \<Rightarrow> Inl UndefinedBehaviour)"

text \<open>\<^verbatim>\<open>_reduce(prodNumber)\<close>.\<close>

definition reduce ::
  "enumerators \<Rightarrow> 'd \<Rightarrow> ('d, 'r) LRParser \<Rightarrow> nat \<Rightarrow> exn option \<times> ('d, 'r) LRParser" where
  "reduce E d0 P prodNum =
     (let vec = m_Vector (grammar (p_Table P)) in
      if prodNum \<ge> length vec then (Some OutOfRange, P)
      else
        let production = vec ! prodNum in
        (case call_reduce_action (postfixAction production) (m_Stack P) (LRState_default E d0) of
           Inl e \<Rightarrow> (Some e, P)
         | Inr (stk, newState) \<Rightarrow>
             (let prodBodyLength = length (prodBody production) in
              case pop_states (P\<lparr>m_Stack := stk\<rparr>) prodBodyLength of
                (Some e, P2) \<Rightarrow> (Some e, P2)
              | (None, P2) \<Rightarrow>
                  (case atGoto E (p_Table P2) (state (m_CurrTopState P2))
                          (as_value (prodHead production)) of
                     Inl e \<Rightarrow> (Some e, P2)
                   | Inr (currEntry, tbl) \<Rightarrow>
                       (let P3 = P2\<lparr>p_Table := tbl\<rparr> in
                        if entryType currEntry \<noteq> TET_GOTO then (Some IncorrectEntryType, P3)
                        else (None, push_state P3 (newState\<lparr>state := number currEntry\<rparr>)))))))"

text \<open>
  \<^verbatim>\<open>_take_parsing_action(result)\<close>: the returned flag (the parser has accepted), the
  parser and the result.
\<close>

definition take_parsing_action ::
  "enumerators \<Rightarrow> 'd \<Rightarrow> ('d, 'r) LRParser \<Rightarrow> 'r \<Rightarrow> (exn + bool) \<times> ('d, 'r) LRParser \<times> 'r" where
  "take_parsing_action E d0 P result =
     (case atAction E (p_Table P) (state (m_CurrTopState P)) (name (m_CurrInputToken P)) of
        Inl e \<Rightarrow> (Inl e, P, result)
      | Inr (currEntry, tbl) \<Rightarrow>
          (let P1 = P\<lparr>p_Table := tbl\<rparr> in
           case entryType currEntry of
             TET_ACTION_SHIFT \<Rightarrow>
               (let s = (LRState_of E d0 (number currEntry))\<lparr>token := m_CurrInputToken P1\<rparr>;
                    P2 = push_state P1 s
                in case LR_get_next_token E P2 of
                     (t, P3) \<Rightarrow> (Inr False, P3\<lparr>m_CurrInputToken := t\<rparr>, result))
           | TET_ACTION_REDUCE \<Rightarrow>
               (case reduce E d0 P1 (number currEntry) of
                  (Some e, P2) \<Rightarrow> (Inl e, P2, result)
                | (None, P2) \<Rightarrow> (Inr False, P2, result))
           | TET_ACCEPT \<Rightarrow>
               (let vec = m_Vector (grammar (p_Table P1)) in
                if vec = [] then (Inl OutOfRange, P1, result)
                else
                  (case postfixAction (vec ! 0) of
                     None \<Rightarrow> (Inr True, P1, result)
                   | Some (AcceptAction f) \<Rightarrow>
                       (case f (m_Stack P1) (LRState_default E d0) result of
                          (stk, newState, result') \<Rightarrow> (Inr True, P1\<lparr>m_Stack := stk\<rparr>, result'))
                   | Some (ReduceAction f) \<Rightarrow> (Inl UndefinedBehaviour, P1, result)))
           | _ \<Rightarrow> (Inl ProgramAbort, P1, result)))"

text \<open>
  The main loop of \<^verbatim>\<open>parse\<close>. \<open>errorNum\<close> is the local variable of \<^verbatim>\<open>parse\<close> that "keeps
  track of the number of errors encountered thus far"; the loop passes it to
  \<^verbatim>\<open>_check_and_resolve_parsing_errors\<close> and never assigns it. A loop that does not end
  has the value \<open>None\<close>.
\<close>

partial_function (option) parse_loop ::
  "enumerators \<Rightarrow> 'd \<Rightarrow> ErrorRecoveryType \<Rightarrow> nat \<Rightarrow> ('d, 'r) LRParser \<Rightarrow> 'r
     \<Rightarrow> ((exn + 'r) \<times> ('d, 'r) LRParser) option" where
  [code]: "parse_loop E d0 errorRecoveryType errorNum P result =
     (case check_and_resolve_parsing_errors E d0 P errorNum errorRecoveryType of
        (Inl e, P1) \<Rightarrow> Some (Inl e, P1)
      | (Inr resolved, P1) \<Rightarrow>
          (if resolved then parse_loop E d0 errorRecoveryType errorNum P1 result
           else
             (case take_parsing_action E d0 P1 result of
                (Inl e, P2, result2) \<Rightarrow> Some (Inl e, P2)
              | (Inr accepted, P2, result2) \<Rightarrow>
                  (if accepted then Some (Inr result2, P2)
                   else parse_loop E d0 errorRecoveryType errorNum P2 result2))))"

text \<open>\<^verbatim>\<open>LRParser::parse(initResult, errorRecoveryType)\<close>.\<close>

definition parse ::
  "enumerators \<Rightarrow> 'd \<Rightarrow> ('d, 'r) LRParser \<Rightarrow> 'r \<Rightarrow> ErrorRecoveryType
     \<Rightarrow> ((exn + 'r) \<times> ('d, 'r) LRParser) option" where
  "parse E d0 P initResult errorRecoveryType =
     (let P1 = push_state (reset_parser_state E d0 P) (START_STATE E d0) in
      case LR_get_next_token E P1 of
        (t, P2) \<Rightarrow> parse_loop E d0 errorRecoveryType 0 (P2\<lparr>m_CurrInputToken := t\<rparr>) initResult)"

subsection \<open>Postfix actions and the stack\<close>

text \<open>
  A postfix action gets the stack by reference and may leave it in any state, so whether
  states stay on the stack during a parse depends on the actions of the grammar. The
  conditions on a grammar under which the parser is examined:

  \<^item> \<open>action_keeps_stack\<close>: the action, if there is one, leaves states on a stack that
    had some; \<open>keeps_stack\<close>: every production has such an action, and a body shorter
    than \<^verbatim>\<open>SIZE_MAX\<close>, as the size of every vector is;
  \<^item> \<open>action_keeps_bottom\<close>, \<open>keeps_bottom\<close>: the actions moreover leave the number of
    the state at the bottom of the stack as it is.

  \<open>bottom_has_goto\<close>: the stack is not empty and the state at its bottom has a goto on
  some non-terminal.
\<close>

definition action_keeps_stack :: "('d, 'r) PostfixAction option \<Rightarrow> bool" where
  "action_keeps_stack action =
     (case action of
        None \<Rightarrow> True
      | Some (ReduceAction f) \<Rightarrow> (\<forall>stk newState. stk \<noteq> [] \<longrightarrow> fst (f stk newState) \<noteq> [])
      | Some (AcceptAction f) \<Rightarrow>
          (\<forall>stk newState result. stk \<noteq> [] \<longrightarrow> fst (f stk newState result) \<noteq> []))"

definition keeps_stack ::
  "(ProductionElement, ('d, 'r) PostfixAction) ProductionVector \<Rightarrow> bool" where
  "keeps_stack G =
     (\<forall>p \<in> set (m_Vector G).
        action_keeps_stack (postfixAction p) \<and> length (prodBody p) < SIZE_MAX)"

definition action_keeps_bottom :: "('d, 'r) PostfixAction option \<Rightarrow> bool" where
  "action_keeps_bottom action =
     (case action of
        None \<Rightarrow> True
      | Some (ReduceAction f) \<Rightarrow>
          (\<forall>stk newState. stk \<noteq> [] \<longrightarrow>
             fst (f stk newState) \<noteq> [] \<and> state (hd (fst (f stk newState))) = state (hd stk))
      | Some (AcceptAction f) \<Rightarrow>
          (\<forall>stk newState result. stk \<noteq> [] \<longrightarrow>
             fst (f stk newState result) \<noteq> []
             \<and> state (hd (fst (f stk newState result))) = state (hd stk)))"

definition keeps_bottom ::
  "(ProductionElement, ('d, 'r) PostfixAction) ProductionVector \<Rightarrow> bool" where
  "keeps_bottom G =
     (\<forall>p \<in> set (m_Vector G).
        action_keeps_bottom (postfixAction p) \<and> length (prodBody p) < SIZE_MAX)"

definition bottom_has_goto :: "enumerators \<Rightarrow> ('d, 'r) LRParser \<Rightarrow> bool" where
  "bottom_has_goto E P =
     (m_Stack P \<noteq> [] \<and>
      (case getGotos E (p_Table P) (state (hd (m_Stack P))) of
         Inl e \<Rightarrow> False
       | Inr nonTerminals \<Rightarrow> nonTerminals \<noteq> []))"

subsection \<open>The error counter as the specification words it\<close>

text \<open>
  The specification: "A recovered-error counter is maintained across iterations.
  Exceeding a fixed limit (default 5) fails the parse with an error-limit-exceeded kind."
  This is the main loop with such a counter: it differs from \<open>parse_loop\<close> in one place,
  the counter is one more after an iteration that has recovered from an error.
\<close>

partial_function (option) spec_parse_loop ::
  "enumerators \<Rightarrow> 'd \<Rightarrow> ErrorRecoveryType \<Rightarrow> nat \<Rightarrow> ('d, 'r) LRParser \<Rightarrow> 'r
     \<Rightarrow> ((exn + 'r) \<times> ('d, 'r) LRParser) option" where
  [code]: "spec_parse_loop E d0 errorRecoveryType errorNum P result =
     (case check_and_resolve_parsing_errors E d0 P errorNum errorRecoveryType of
        (Inl e, P1) \<Rightarrow> Some (Inl e, P1)
      | (Inr resolved, P1) \<Rightarrow>
          (if resolved then spec_parse_loop E d0 errorRecoveryType (errorNum + 1) P1 result
           else
             (case take_parsing_action E d0 P1 result of
                (Inl e, P2, result2) \<Rightarrow> Some (Inl e, P2)
              | (Inr accepted, P2, result2) \<Rightarrow>
                  (if accepted then Some (Inr result2, P2)
                   else spec_parse_loop E d0 errorRecoveryType errorNum P2 result2))))"

definition spec_parse ::
  "enumerators \<Rightarrow> 'd \<Rightarrow> ('d, 'r) LRParser \<Rightarrow> 'r \<Rightarrow> ErrorRecoveryType
     \<Rightarrow> ((exn + 'r) \<times> ('d, 'r) LRParser) option" where
  "spec_parse E d0 P initResult errorRecoveryType =
     (let P1 = push_state (reset_parser_state E d0 P) (START_STATE E d0) in
      case LR_get_next_token E P1 of
        (t, P2) \<Rightarrow> spec_parse_loop E d0 errorRecoveryType 0 (P2\<lparr>m_CurrInputToken := t\<rparr>) initResult)"

section \<open>The deterministic finite automaton (DFA.h, FiniteStateMachine.h)\<close>

text \<open>
  States are unsigned numbers; 0 is the dead state and 1 the start state. A set of
  states (\<^verbatim>\<open>FSMStateSetType\<close>) is the ascending list of its members. The transition
  function is a callable of the machine that gives a set of states, which the DFA
  converts to a state: the least member, or 0 for the empty set.
\<close>

definition DEAD_STATE :: nat where
  "DEAD_STATE = 0"

definition FSM_START_STATE :: nat where
  "FSM_START_STATE = 1"

record DeterFiniteAutomatan =
  m_FinalStates :: "nat list"
  m_TransitionFunc :: "nat \<Rightarrow> char \<Rightarrow> nat list"

definition to_FSMStateType :: "nat list \<Rightarrow> nat" where
  "to_FSMStateType stateSet = (case stateSet of [] \<Rightarrow> 0 | s # rest \<Rightarrow> s)"

text \<open>\<^verbatim>\<open>_is_state_final\<close> and \<^verbatim>\<open>_get_final_states_from_state_set\<close>, on a set of states.\<close>

definition is_state_final :: "DeterFiniteAutomatan \<Rightarrow> nat list \<Rightarrow> bool" where
  "is_state_final M stateSet = list_ex (\<lambda>s. s \<in> set (m_FinalStates M)) stateSet"

definition get_final_states_from_state_set :: "DeterFiniteAutomatan \<Rightarrow> nat list \<Rightarrow> nat list" where
  "get_final_states_from_state_set M stateSet = filter (\<lambda>s. s \<in> set (m_FinalStates M)) stateSet"

record FSMResult =
  accepted :: bool
  finalState :: "nat list"
  indecies :: "nat \<times> nat"
  input :: string

text \<open>\<^verbatim>\<open>_simulate_whole_string\<close>: the loop stops at the dead state.\<close>

fun whole_string_loop :: "DeterFiniteAutomatan \<Rightarrow> string \<Rightarrow> nat \<Rightarrow> nat" where
  "whole_string_loop M [] currState = currState"
| "whole_string_loop M (c # cs) currState =
     (let next = to_FSMStateType (m_TransitionFunc M currState c) in
      if next = DEAD_STATE then next else whole_string_loop M cs next)"

definition simulate_whole_string :: "DeterFiniteAutomatan \<Rightarrow> string \<Rightarrow> FSMResult" where
  "simulate_whole_string M inp =
     (let currState = whole_string_loop M inp FSM_START_STATE;
          acc = is_state_final M [currState]
      in \<lparr>accepted = acc,
          finalState = (if acc then [currState] else [FSM_START_STATE]),
          indecies = (0, if acc then length inp else 0),
          input = inp\<rparr>)"

text \<open>
  The loop of \<^verbatim>\<open>_simulate_longest_prefix\<close>: the path through the machine and the value
  of \<open>charIndex\<close> at the end. On the dead state \<open>charIndex\<close> is decremented unless it is 0.
\<close>

function longest_prefix_loop ::
  "DeterFiniteAutomatan \<Rightarrow> string \<Rightarrow> nat \<Rightarrow> nat list \<Rightarrow> nat \<Rightarrow> nat list \<times> nat" where
  "longest_prefix_loop M inp currState matchedStates charIndex =
     (if charIndex < length inp then
        (let c = inp ! charIndex;
             next = to_FSMStateType (m_TransitionFunc M currState c)
         in if next = DEAD_STATE
              then (matchedStates, if charIndex \<noteq> 0 then charIndex - 1 else charIndex)
            else longest_prefix_loop M inp next (matchedStates @ [next]) (charIndex + 1))
      else (matchedStates, charIndex))"
  by pat_completeness auto
termination
  by (relation "measure (\<lambda>(M, inp, currState, matchedStates, charIndex). length inp - charIndex)")
     auto

text \<open>
  \<^verbatim>\<open>_check_accepted_longest_prefix(matchedStates, charIndex)\<close>: the path is walked from its
  end, and \<open>charIndex\<close>, an unsigned number, is decremented at each state that is not
  final. The first argument here is the reversed path. The test \<^verbatim>\<open>charIndex < 0\<close> after the
  loop is never true.
\<close>

fun check_accepted_rev :: "DeterFiniteAutomatan \<Rightarrow> nat list \<Rightarrow> nat \<Rightarrow> bool \<times> nat" where
  "check_accepted_rev M [] charIndex = (False, charIndex)"
| "check_accepted_rev M (s # rest) charIndex =
     (if is_state_final M [s] then (True, charIndex)
      else check_accepted_rev M rest (dec64 charIndex))"

definition check_accepted_longest_prefix ::
  "DeterFiniteAutomatan \<Rightarrow> nat list \<Rightarrow> nat \<Rightarrow> bool \<times> nat" where
  "check_accepted_longest_prefix M matchedStates charIndex =
     check_accepted_rev M (rev matchedStates) charIndex"

text \<open>\<^verbatim>\<open>_simulate_longest_prefix\<close>.\<close>

definition simulate_longest_prefix :: "DeterFiniteAutomatan \<Rightarrow> string \<Rightarrow> FSMResult" where
  "simulate_longest_prefix M inp =
     (case longest_prefix_loop M inp FSM_START_STATE [FSM_START_STATE] 0 of
        (matchedStates, charIndex) \<Rightarrow>
          (let charIndex1 = (if charIndex = length inp then dec64 charIndex else charIndex) in
           case check_accepted_longest_prefix M matchedStates charIndex1 of
             (acc, charIndex2) \<Rightarrow>
               \<lparr>accepted = acc,
                finalState = get_final_states_from_state_set M [last matchedStates],
                indecies = (0, if acc then inc64 charIndex2 else 0),
                input = inp\<rparr>))"

section \<open>The LL parser (LLParser.h)\<close>

text \<open>
  The synthesized and the action record of an LL stack element: the data and the action,
  an untyped function pointer. A pointer is modelled by a number, 0 for \<^verbatim>\<open>nullptr\<close>.
\<close>

record 'x LLRecord =
  rec_data :: 'x
  rec_action :: nat

text \<open>
  \<^verbatim>\<open>LLStackElement\<close>: the type tag and, side by side in a struct, a grammar symbol, a
  synthesized record and an action record.
\<close>

record ('sd, 'ad) LLStackElement = ProductionElement +
  synRecord :: "'sd LLRecord"
  actRecord :: "'ad LLRecord"

text \<open>
  \<^verbatim>\<open>LLTableEntry\<close>: the production index shares a union with the pointer to an error
  action, so the entry holds one number that is read as either.
\<close>

record LLTableEntry =
  entryIsError :: bool
  prodIndex :: nat
  entryIsEmpty :: bool

definition LLTableEntry_default :: LLTableEntry where
  "LLTableEntry_default = \<lparr>entryIsError = True, prodIndex = SIZE_MAX, entryIsEmpty = True\<rparr>"

text \<open>
  The functions behind the action pointers: for an address, the function of the expected
  type that is there, or \<open>None\<close> when there is none; a call through such a pointer is
  undefined behaviour. The actions of the records get the stack by reference and the
  data of a copy of the record; the error action of a table entry gets copies only and
  answers whether the parser is synchronized.
\<close>

record ('sd, 'ad) LLActions =
  synAction ::
    "nat \<Rightarrow> (('sd, 'ad) LLStackElement list \<Rightarrow> 'sd \<Rightarrow> ('sd, 'ad) LLStackElement list) option"
  actAction ::
    "nat \<Rightarrow> (('sd, 'ad) LLStackElement list \<Rightarrow> 'ad \<Rightarrow> ('sd, 'ad) LLStackElement list) option"
  errAction ::
    "nat \<Rightarrow> (('sd, 'ad) LLStackElement list \<Rightarrow> ('sd, 'ad) LLStackElement \<Rightarrow> Token \<Rightarrow> bool) option"

text \<open>
  The error action of a table entry. The pointer shares the union with the production
  index, whose initialiser is \<^verbatim>\<open>SIZE_MAX\<close>: in a default entry the pointer is not null, it
  has every bit set, and no function is at that address.
\<close>

definition entry_action ::
  "('sd, 'ad) LLActions \<Rightarrow> LLTableEntry
     \<Rightarrow> (('sd, 'ad) LLStackElement list \<Rightarrow> ('sd, 'ad) LLStackElement \<Rightarrow> Token \<Rightarrow> bool) option" where
  "entry_action A tableEntry =
     (if prodIndex tableEntry = SIZE_MAX then None else errAction A (prodIndex tableEntry))"

text \<open>
  The members of the LL parser that change during a parse, the table and the
  productions. The top of the stack is the last element of the list.
\<close>

record ('sd, 'ad) LLParser =
  ll_Stack :: "('sd, 'ad) LLStackElement list"
  ll_CurrTopElement :: "('sd, 'ad) LLStackElement"
  ll_CurrInputToken :: Token
  ll_Table :: "LLTableEntry list list"
  ll_ProdRecords :: "(('sd, 'ad) LLStackElement, unit) ProductionRecord list"
  ll_lexer :: "Token list"

text \<open>\<^verbatim>\<open>GrammaticalSymbol::operator==(const TokenT&)\<close>.\<close>

definition Symbol_eq_Token :: "GrammaticalSymbol \<Rightarrow> Token \<Rightarrow> bool" where
  "Symbol_eq_Token this t = (if isTerminal this then as_value this = name t else False)"

text \<open>
  \<^verbatim>\<open>p_Table[variable][terminal]\<close>: the first subscript is checked and throws a range
  error, the second is the unchecked subscript of \<^verbatim>\<open>std::array\<close>. Entries beyond the end
  of a list are default entries.
\<close>

definition LL_table_at ::
  "enumerators \<Rightarrow> LLTableEntry list list \<Rightarrow> nat \<Rightarrow> nat \<Rightarrow> exn + LLTableEntry" where
  "LL_table_at E tbl variable terminal =
     (if variable \<ge> NT_COUNT E then Inl RangeError
      else if terminal \<ge> T_COUNT E then Inl UndefinedBehaviour
      else
        let row = (if variable < length tbl then tbl ! variable else []) in
        Inr (if terminal < length row then row ! terminal else LLTableEntry_default))"

definition LL_get_next_token ::
  "enumerators \<Rightarrow> ('sd, 'ad) LLParser \<Rightarrow> ('sd, 'ad) LLParser" where
  "LL_get_next_token E P =
     (case get_next_token E (ll_lexer P) of
        (t, lx) \<Rightarrow> P\<lparr>ll_lexer := lx, ll_CurrInputToken := t\<rparr>)"

text \<open>
  The expansion by a production, in \<^verbatim>\<open>parse_grammar_symbol\<close> and in
  \<^verbatim>\<open>panic_mode_try_sync_variable\<close>: the production is fetched with \<^verbatim>\<open>at\<close>, its body is
  checked not to be empty and pushed in reverse order.
\<close>

definition LL_expand ::
  "('sd, 'ad) LLParser \<Rightarrow> nat \<Rightarrow> exn option \<times> ('sd, 'ad) LLParser" where
  "LL_expand P i =
     (if i \<ge> length (ll_ProdRecords P) then (Some OutOfRange, P)
      else
        let prodBody' = prodBody (ll_ProdRecords P ! i) in
        if prodBody' = [] then (Some EmptyProductionBody, P)
        else (None, P\<lparr>ll_Stack := ll_Stack P @ rev prodBody'\<rparr>))"

text \<open>\<^verbatim>\<open>panic_mode_try_sync_variable(currInputToken)\<close>.\<close>

definition panic_mode_try_sync_variable ::
  "enumerators \<Rightarrow> ('sd, 'ad) LLActions \<Rightarrow> ('sd, 'ad) LLParser \<Rightarrow> Token
     \<Rightarrow> (exn + bool) \<times> ('sd, 'ad) LLParser" where
  "panic_mode_try_sync_variable E A P currInputToken =
     (let variable = as_value (gramSymbol (ll_CurrTopElement P)) in
      case LL_table_at E (ll_Table P) variable (name (Token_EPSILON E)) of
        Inl e \<Rightarrow> (Inl e, P)
      | Inr tableEntry \<Rightarrow>
          (if \<not> entryIsError tableEntry then
             (case LL_expand P (prodIndex tableEntry) of
                (Some e, P') \<Rightarrow> (Inl e, P')
              | (None, P') \<Rightarrow> (Inr True, P'))
           else
             (case LL_table_at E (ll_Table P) variable (name currInputToken) of
                Inl e \<Rightarrow> (Inl e, P)
              | Inr tableEntry2 \<Rightarrow>
                  (if entryIsError tableEntry2 then
                     (if prodIndex tableEntry2 \<noteq> 0 then
                        (case entry_action A tableEntry2 of
                           None \<Rightarrow> (Inl UndefinedBehaviour, P)
                         | Some action \<Rightarrow>
                             (if action (ll_Stack P) (ll_CurrTopElement P) currInputToken
                                then (Inr True, LL_get_next_token E P)
                              else (Inr False, LL_get_next_token E P)))
                      else (Inr False, LL_get_next_token E P))
                   else (Inr True, LL_get_next_token E P)))))"

text \<open>
  The loop of \<^verbatim>\<open>panic_mode\<close>. \<open>topSymbol\<close> is the symbol of the current top element, the
  element \<^verbatim>\<open>parse\<close> has already taken off the stack; it does not change in the loop.
  \<^verbatim>\<open>pop_back\<close> on an empty stack is undefined behaviour.
\<close>

partial_function (option) panic_mode_loop ::
  "enumerators \<Rightarrow> ('sd, 'ad) LLActions \<Rightarrow> GrammaticalSymbol \<Rightarrow> ('sd, 'ad) LLParser
     \<Rightarrow> ((exn + bool) \<times> ('sd, 'ad) LLParser) option" where
  [code]: "panic_mode_loop E A topSymbol P =
     (if isTerminal topSymbol then
        (if ll_Stack P = [] then Some (Inl UndefinedBehaviour, P)
         else Some (Inr True, P\<lparr>ll_Stack := butlast (ll_Stack P)\<rparr>))
      else
        (case panic_mode_try_sync_variable E A P (peak E (ll_lexer P)) of
           (Inl e, P1) \<Rightarrow> Some (Inl e, P1)
         | (Inr synced, P1) \<Rightarrow>
             (if synced then Some (Inr True, P1)
              else if Token_eq (ll_CurrInputToken P1) (Token_default E) then
                (if ll_Stack P1 = [] then Some (Inl UndefinedBehaviour, P1)
                 else
                   let P2 = P1\<lparr>ll_Stack := butlast (ll_Stack P1)\<rparr> in
                   if ll_Stack P2 = [] then Some (Inr False, P2)
                   else panic_mode_loop E A topSymbol P2)
              else panic_mode_loop E A topSymbol P1)))"

definition panic_mode ::
  "enumerators \<Rightarrow> ('sd, 'ad) LLActions \<Rightarrow> ('sd, 'ad) LLParser
     \<Rightarrow> ((exn + bool) \<times> ('sd, 'ad) LLParser) option" where
  "panic_mode E A P = panic_mode_loop E A (gramSymbol (ll_CurrTopElement P)) P"

text \<open>
  \<^verbatim>\<open>error_recovery(errRecovType)\<close>. The counter of detected errors is a static local
  variable that is initialised to 0 and never assigned.
\<close>

definition error_recovery ::
  "enumerators \<Rightarrow> ('sd, 'ad) LLActions \<Rightarrow> ('sd, 'ad) LLParser \<Rightarrow> ErrorRecoveryType
     \<Rightarrow> ((exn + bool) \<times> ('sd, 'ad) LLParser) option" where
  "error_recovery E A P errRecovType =
     (let numOfDetectedErrs = (0 :: nat) in
      if errRecovType \<noteq> ERT_NONE \<and> errRecovType \<noteq> ERT_ABORT
         \<and> numOfDetectedErrs = ERR_RECOVERY_LIMIT
        then Some (Inl ErrorRecoveryLimitExceeded, P)
      else if errRecovType = ERT_NUM then Some (Inl InvalidArgument, P)
      else
        (case errRecovType of
           ERT_NONE \<Rightarrow> Some (Inr False, P)
         | ERT_PANIC_MODE \<Rightarrow> panic_mode E A P
         | ERT_PHRASE_LEVE \<Rightarrow> Some (Inr False, P)
         | ERT_GLOBAL \<Rightarrow> Some (Inr False, P)
         | ERT_ABORT \<Rightarrow> Some (Inl ProgramAbort, P)
         | ERT_NUM \<Rightarrow> Some (Inr False, P)))"

text \<open>
  \<^verbatim>\<open>parse_grammar_symbol(errRecoveryType)\<close>; the flag that \<^verbatim>\<open>error_recovery\<close> returns is
  not used.
\<close>

definition parse_grammar_symbol ::
  "enumerators \<Rightarrow> ('sd, 'ad) LLActions \<Rightarrow> ('sd, 'ad) LLParser \<Rightarrow> ErrorRecoveryType
     \<Rightarrow> (exn option \<times> ('sd, 'ad) LLParser) option" where
  "parse_grammar_symbol E A P errRecoveryType =
     (let topSymbol = gramSymbol (ll_CurrTopElement P) in
      if isTerminal topSymbol then
        (if Symbol_eq_Token topSymbol (Token_EPSILON E) then Some (None, P)
         else
           let matched = Symbol_eq_Token topSymbol (ll_CurrInputToken P);
               P1 = LL_get_next_token E P
           in if \<not> matched then
                (case error_recovery E A P1 errRecoveryType of
                   None \<Rightarrow> None
                 | Some (Inl e, P2) \<Rightarrow> Some (Some e, P2)
                 | Some (Inr b, P2) \<Rightarrow> Some (None, P2))
              else Some (None, P1))
      else
        (case LL_table_at E (ll_Table P) (as_value topSymbol) (name (ll_CurrInputToken P)) of
           Inl e \<Rightarrow> Some (Some e, P)
         | Inr tableEntry \<Rightarrow>
             (if entryIsError tableEntry then
                (case error_recovery E A P errRecoveryType of
                   None \<Rightarrow> None
                 | Some (Inl e, P2) \<Rightarrow> Some (Some e, P2)
                 | Some (Inr b, P2) \<Rightarrow> Some (None, P2))
              else Some (LL_expand P (prodIndex tableEntry)))))"

text \<open>
  One iteration of the loop of \<^verbatim>\<open>LLParser::parse\<close>, for a stack that is not empty: the
  top element is taken off the stack and handled according to its type.
\<close>

definition LL_parse_step ::
  "enumerators \<Rightarrow> ('sd, 'ad) LLActions \<Rightarrow> ('sd, 'ad) LLParser \<Rightarrow> ErrorRecoveryType
     \<Rightarrow> (exn option \<times> ('sd, 'ad) LLParser) option" where
  "LL_parse_step E A P errRecoveryType =
     (let P1 = P\<lparr>ll_CurrTopElement := last (ll_Stack P), ll_Stack := butlast (ll_Stack P)\<rparr> in
      case elemType (ll_CurrTopElement P1) of
        PET_GRAM_SYMBOL \<Rightarrow> parse_grammar_symbol E A P1 errRecoveryType
      | PET_SYNTH_RECORD \<Rightarrow>
          (let topRecord = synRecord (ll_CurrTopElement P1) in
           if rec_action topRecord \<noteq> 0 then
             (case synAction A (rec_action topRecord) of
                None \<Rightarrow> Some (Some UndefinedBehaviour, P1)
              | Some action \<Rightarrow>
                  Some (None, P1\<lparr>ll_Stack := action (ll_Stack P1) (rec_data topRecord)\<rparr>))
           else Some (None, P1))
      | PET_ACTION_RECORD \<Rightarrow>
          (let topRecord = actRecord (ll_CurrTopElement P1) in
           if rec_action topRecord \<noteq> 0 then
             (case actAction A (rec_action topRecord) of
                None \<Rightarrow> Some (Some UndefinedBehaviour, P1)
              | Some action \<Rightarrow>
                  Some (None, P1\<lparr>ll_Stack := action (ll_Stack P1) (rec_data topRecord)\<rparr>))
           else Some (None, P1)))"

text \<open>The loop of \<^verbatim>\<open>LLParser::parse\<close>: it runs while the stack is not empty.\<close>

partial_function (option) LL_parse_loop ::
  "enumerators \<Rightarrow> ('sd, 'ad) LLActions \<Rightarrow> ErrorRecoveryType \<Rightarrow> ('sd, 'ad) LLParser
     \<Rightarrow> (exn option \<times> ('sd, 'ad) LLParser) option" where
  [code]: "LL_parse_loop E A errRecoveryType P =
     (if ll_Stack P = [] then Some (None, P)
      else
        (case LL_parse_step E A P errRecoveryType of
           None \<Rightarrow> None
         | Some (Some e, P1) \<Rightarrow> Some (Some e, P1)
         | Some (None, P1) \<Rightarrow> LL_parse_loop E A errRecoveryType P1))"

text \<open>
  \<^verbatim>\<open>LLParser::parse(errRecoveryType)\<close>: the start symbol is pushed, the first token is
  fetched, the loop runs, and \<^verbatim>\<open>reset_parser_state()\<close> clears the stack and sets the current
  top element and the current token to their value-initialised values at the end.
  \<open>emptyElement\<close> is \<^verbatim>\<open>StackElementType{}\<close>.
\<close>

definition LL_parse ::
  "enumerators \<Rightarrow> ('sd, 'ad) LLActions \<Rightarrow> ('sd, 'ad) LLStackElement
     \<Rightarrow> ('sd, 'ad) LLStackElement \<Rightarrow> ('sd, 'ad) LLParser
     \<Rightarrow> ErrorRecoveryType \<Rightarrow> (exn option \<times> ('sd, 'ad) LLParser) option" where
  "LL_parse E A emptyElement startElement P errRecoveryType =
     (case LL_parse_loop E A errRecoveryType
             (LL_get_next_token E (P\<lparr>ll_Stack := ll_Stack P @ [startElement]\<rparr>)) of
        None \<Rightarrow> None
      | Some (Some e, P1) \<Rightarrow> Some (Some e, P1)
      | Some (None, P1) \<Rightarrow>
          Some (None, P1\<lparr>ll_Stack := [], ll_CurrTopElement := emptyElement,
                         ll_CurrInputToken := Token_default E\<rparr>))"

section \<open>LR items and item sets (ItemSet.h)\<close>

text \<open>
  \<^verbatim>\<open>Item\<close>: the production, the position of the dot counted in grammar symbols, the
  lookaheads, and the private actual position of the dot in the body, which counts
  every element. The productions of items are LR productions.
\<close>

record 'a Item =
  m_ActualDotPos :: nat
  production :: "(ProductionElement, 'a) ProductionRecord"
  dotPos :: nat
  lookaheads :: SymbolSet

text \<open>
  The loop of the constructor that moves the actual dot position forward until
  \<open>dotPos\<close> grammar symbols have been passed. The list is the body from the actual
  position on; reading beyond the body with \<^verbatim>\<open>at\<close> throws.
\<close>

fun actual_dot_loop :: "ProductionElement list \<Rightarrow> nat \<Rightarrow> nat \<Rightarrow> nat \<Rightarrow> exn + nat" where
  "actual_dot_loop [] dotPosition encountered actual =
     (if encountered = dotPosition then Inr actual else Inl OutOfRange)"
| "actual_dot_loop (el # rest) dotPosition encountered actual =
     (if encountered = dotPosition then Inr actual
      else actual_dot_loop rest dotPosition
             (if elemType el = PET_GRAM_SYMBOL then encountered + 1 else encountered)
             (actual + 1))"

text \<open>The converting constructor of \<^verbatim>\<open>Item\<close>: a dot beyond the grammar symbols throws.\<close>

definition Item_make ::
  "(ProductionElement, 'a) ProductionRecord \<Rightarrow> nat \<Rightarrow> SymbolSet \<Rightarrow> exn + 'a Item" where
  "Item_make p dotPosition las =
     (let psize = length (filter isGramSymbol (prodBody p)) in
      if dotPosition > psize then Inl InvalidDotPosition
      else
        (case actual_dot_loop (prodBody p) dotPosition 0 0 of
           Inl e \<Rightarrow> Inl e
         | Inr actual \<Rightarrow>
             Inr \<lparr>m_ActualDotPos = actual, production = p, dotPos = dotPosition,
                  lookaheads = las\<rparr>))"

text \<open>\<^verbatim>\<open>Item::operator==\<close> and \<^verbatim>\<open>Item::hasIdenticalCore\<close>; sets are compared element by element.\<close>

definition Item_eq :: "'a Item \<Rightarrow> 'a Item \<Rightarrow> bool" where
  "Item_eq this other =
     (dotPos other = dotPos this
      \<and> ProductionRecord_eq LRProductionElement_eq (production other) (production this)
      \<and> list_all2 Symbol_eq (lookaheads other) (lookaheads this))"

definition Item_hasIdenticalCore :: "'a Item \<Rightarrow> 'a Item \<Rightarrow> bool" where
  "Item_hasIdenticalCore this other =
     (dotPos this = dotPos other \<and> m_ActualDotPos this = m_ActualDotPos other
      \<and> ProductionRecord_eq LRProductionElement_eq (production this) (production other))"

text \<open>\<^verbatim>\<open>ItemSet\<close>: the vector of the items and the vector that caches the closure.\<close>

record 'a ItemSet =
  m_Set :: "'a Item list"
  m_Closure :: "'a Item list"

text \<open>
  The constructors: from a vector of items (the cache is empty), and the protected one
  for a set that is its own closure.
\<close>

definition ItemSet_of :: "'a Item list \<Rightarrow> 'a ItemSet" where
  "ItemSet_of items = \<lparr>m_Set = items, m_Closure = []\<rparr>"

definition ItemSet_sameClosure :: "'a Item list \<Rightarrow> 'a ItemSet" where
  "ItemSet_sameClosure items = \<lparr>m_Set = items, m_Closure = items\<rparr>"

text \<open>\<^verbatim>\<open>ItemSet::operator==\<close>: it compares the sets of items, not the caches.\<close>

definition ItemSet_eq :: "'a ItemSet \<Rightarrow> 'a ItemSet \<Rightarrow> bool" where
  "ItemSet_eq this rhs =
     (length (m_Set this) = length (m_Set this) \<and> list_all2 Item_eq (m_Set this) (m_Set rhs))"

text \<open>
  An iterator into one of the two vectors of an item set is the vector and a position;
  the end iterator has the size of the vector as its position. Iterators into different
  vectors point into different buffers and are modelled as unequal.
\<close>

datatype container = SetVector | ClosureVector

type_synonym iterator = "container \<times> nat"

definition find_if_index :: "('b \<Rightarrow> bool) \<Rightarrow> 'b list \<Rightarrow> nat" where
  "find_if_index pred xs = length (takeWhile (\<lambda>x. \<not> pred x) xs)"

text \<open>\<^verbatim>\<open>get_item_it(production, dotPosition, fromClosure)\<close>.\<close>

definition get_item_it ::
  "'a ItemSet \<Rightarrow> (ProductionElement, 'a) ProductionRecord \<Rightarrow> nat \<Rightarrow> bool \<Rightarrow> iterator" where
  "get_item_it S p dotPosition fromClosure =
     (let predicate = (\<lambda>item. dotPos item = dotPosition
                          \<and> ProductionRecord_eq LRProductionElement_eq (production item) p)
      in if fromClosure then (ClosureVector, find_if_index predicate (m_Closure S))
         else (SetVector, find_if_index predicate (m_Set S)))"

definition set_end :: "'a ItemSet \<Rightarrow> iterator" where
  "set_end S = (SetVector, length (m_Set S))"

definition closure_end :: "'a ItemSet \<Rightarrow> iterator" where
  "closure_end S = (ClosureVector, length (m_Closure S))"

text \<open>
  Modelled from the spec: \<^verbatim>\<open>insertAndAssert(from, to)\<close> of \<^verbatim>\<open>utility/common.h\<close>, which is not
  among the sources. The spec: "if an item with identical first component exists, union
  the lookaheads"; the callers use the result as the flag that something was inserted.

  \<open>union_lookaheads_at\<close> is the call \<^verbatim>\<open>insertAndAssert(las, it->lookaheads)\<close>: the lookaheads
  of the item the iterator points to are extended. Dereferencing an end iterator is
  undefined behaviour.
\<close>

definition insertAndAssert :: "SymbolSet \<Rightarrow> SymbolSet \<Rightarrow> exn + (SymbolSet \<times> bool)" where
  "insertAndAssert from to = set_insert_range from to"

definition union_lookaheads_at ::
  "'a ItemSet \<Rightarrow> iterator \<Rightarrow> SymbolSet \<Rightarrow> exn + ('a ItemSet \<times> bool)" where
  "union_lookaheads_at S it las =
     (case it of
        (SetVector, k) \<Rightarrow>
          (if k \<ge> length (m_Set S) then Inl UndefinedBehaviour
           else
             (case insertAndAssert las (lookaheads (m_Set S ! k)) of
                Inl e \<Rightarrow> Inl e
              | Inr (las', b) \<Rightarrow>
                  Inr (S\<lparr>m_Set := (m_Set S)[k := (m_Set S ! k)\<lparr>lookaheads := las'\<rparr>]\<rparr>, b)))
      | (ClosureVector, k) \<Rightarrow>
          (if k \<ge> length (m_Closure S) then Inl UndefinedBehaviour
           else
             (case insertAndAssert las (lookaheads (m_Closure S ! k)) of
                Inl e \<Rightarrow> Inl e
              | Inr (las', b) \<Rightarrow>
                  Inr (S\<lparr>m_Closure := (m_Closure S)[k := (m_Closure S ! k)\<lparr>lookaheads := las'\<rparr>]\<rparr>,
                       b))))"

text \<open>\<^verbatim>\<open>ItemSet::insert(item)\<close>.\<close>

definition ItemSet_insert :: "'a ItemSet \<Rightarrow> 'a Item \<Rightarrow> exn + ('a ItemSet \<times> bool)" where
  "ItemSet_insert S item =
     (let it = get_item_it S (production item) (dotPos item) False;
          found = (it \<noteq> set_end S)
      in if found then union_lookaheads_at S it (lookaheads item)
         else Inr (S\<lparr>m_Set := m_Set S @ [item]\<rparr>, True))"

text \<open>
  \<^verbatim>\<open>_add_to_closure_no_lookaheads(symbolProductions)\<close>: the loop over the productions. The
  item is looked up with \<^verbatim>\<open>get_item_it(.., false)\<close>, that is in the set, and the iterator
  is compared with the end of the closure.
\<close>

fun add_to_closure_no_lookaheads ::
  "(ProductionElement, 'a) ProductionRecord list \<Rightarrow> 'a ItemSet \<Rightarrow> bool
     \<Rightarrow> exn + ('a ItemSet \<times> bool)" where
  "add_to_closure_no_lookaheads [] S inserted = Inr (S, inserted)"
| "add_to_closure_no_lookaheads (p # ps) S inserted =
     (case Item_make p 0 [] of
        Inl e \<Rightarrow> Inl e
      | Inr item \<Rightarrow>
          (let it = get_item_it S (production item) (dotPos item) False;
               found = (it \<noteq> closure_end S)
           in if \<not> found
                then add_to_closure_no_lookaheads ps (S\<lparr>m_Closure := m_Closure S @ [item]\<rparr>) True
              else add_to_closure_no_lookaheads ps S inserted))"

text \<open>
  \<^verbatim>\<open>_add_to_closure_lookaheads(symbolProductions, lookaheads)\<close>: the inner loop over the
  productions, and the outer loop, which runs the inner one once for every production.
\<close>

fun add_to_closure_lookaheads_inner ::
  "(ProductionElement, 'a) ProductionRecord list \<Rightarrow> SymbolSet \<Rightarrow> 'a ItemSet \<Rightarrow> bool
     \<Rightarrow> exn + ('a ItemSet \<times> bool)" where
  "add_to_closure_lookaheads_inner [] las S inserted = Inr (S, inserted)"
| "add_to_closure_lookaheads_inner (p # ps) las S inserted =
     (let it = get_item_it S p 0 False;
          found = (it \<noteq> closure_end S)
      in if found then
           (case union_lookaheads_at S it las of
              Inl e \<Rightarrow> Inl e
            | Inr (S', b) \<Rightarrow> add_to_closure_lookaheads_inner ps las S' (inserted \<or> b))
         else
           (case Item_make p 0 las of
              Inl e \<Rightarrow> Inl e
            | Inr item \<Rightarrow>
                add_to_closure_lookaheads_inner ps las
                  (S\<lparr>m_Closure := m_Closure S @ [item]\<rparr>) True))"

fun add_to_closure_lookaheads_outer ::
  "(ProductionElement, 'a) ProductionRecord list \<Rightarrow> (ProductionElement, 'a) ProductionRecord list
     \<Rightarrow> SymbolSet \<Rightarrow> 'a ItemSet \<Rightarrow> bool \<Rightarrow> exn + ('a ItemSet \<times> bool)" where
  "add_to_closure_lookaheads_outer [] symbolProductions las S inserted = Inr (S, inserted)"
| "add_to_closure_lookaheads_outer (p # ps) symbolProductions las S inserted =
     (case Item_make p 0 [] of
        Inl e \<Rightarrow> Inl e
      | Inr item \<Rightarrow>
          (case add_to_closure_lookaheads_inner symbolProductions las S inserted of
             Inl e \<Rightarrow> Inl e
           | Inr (S', inserted') \<Rightarrow>
               add_to_closure_lookaheads_outer ps symbolProductions las S' inserted'))"

definition add_to_closure_lookaheads ::
  "(ProductionElement, 'a) ProductionRecord list \<Rightarrow> SymbolSet \<Rightarrow> 'a ItemSet
     \<Rightarrow> exn + ('a ItemSet \<times> bool)" where
  "add_to_closure_lookaheads symbolProductions las S =
     add_to_closure_lookaheads_outer symbolProductions symbolProductions las S False"

subsection \<open>CLOSURE\<close>

text \<open>
  The table \<^verbatim>\<open>alternativeProduction\<close> of \<^verbatim>\<open>CLOSURE\<close>: for every non-terminal the indices of
  its productions. It is an array of \<^verbatim>\<open>NT_COUNT\<close> vectors, subscripted without a check.
\<close>

fun alternatives_loop ::
  "(ProductionElement, 'a) ProductionRecord list \<Rightarrow> nat \<Rightarrow> nat list list \<Rightarrow> exn + nat list list" where
  "alternatives_loop [] prodIdx alt = Inr alt"
| "alternatives_loop (p # ps) prodIdx alt =
     (let varIndex = as_value (prodHead p) in
      if varIndex \<ge> length alt then Inl UndefinedBehaviour
      else alternatives_loop ps (prodIdx + 1) (alt[varIndex := alt ! varIndex @ [prodIdx]]))"

definition alternativeProduction ::
  "enumerators \<Rightarrow> (ProductionElement, 'a) ProductionRecord list \<Rightarrow> exn + nat list list" where
  "alternativeProduction E vec = alternatives_loop vec 0 (replicate (NT_COUNT E) [])"

text \<open>
  The loop of \<^verbatim>\<open>CLOSURE\<close> over the lookaheads of an LR(1) item: FIRST of the symbols
  after the symbol behind the dot, followed by the lookahead, gives the lookaheads of the
  new items.
\<close>

fun closure_lookaheads_loop ::
  "enumerators \<Rightarrow> SymbolSet list \<Rightarrow> GrammaticalSymbol list
     \<Rightarrow> (ProductionElement, 'a) ProductionRecord list \<Rightarrow> SymbolSet \<Rightarrow> 'a ItemSet
     \<Rightarrow> exn + 'a ItemSet" where
  "closure_lookaheads_loop E first symString symbolProductions [] S = Inr S"
| "closure_lookaheads_loop E first symString symbolProductions (lookahead # rest) S =
     (case SymbolString_calculateFIRST E first (SymbolString_make (symString @ [lookahead])) of
        Inl e \<Rightarrow> Inl e
      | Inr tempSymString \<Rightarrow>
          (case SymbolString_getFIRST tempSymString of
             Inl e \<Rightarrow> Inl e
           | Inr las \<Rightarrow>
               (case add_to_closure_lookaheads symbolProductions las S of
                  Inl e \<Rightarrow> Inl e
                | Inr (S', b) \<Rightarrow>
                    closure_lookaheads_loop E first symString symbolProductions rest S')))"

text \<open>The body of the main loop of \<^verbatim>\<open>CLOSURE\<close>, for one item of the closure.\<close>

definition closure_step ::
  "enumerators \<Rightarrow> (ProductionElement, 'a) ProductionRecord list \<Rightarrow> nat list list \<Rightarrow> bool
     \<Rightarrow> SymbolSet list \<Rightarrow> 'a ItemSet \<Rightarrow> 'a Item \<Rightarrow> exn + 'a ItemSet" where
  "closure_step E vec alt isLR0 first S item =
     (let itemProd = production item in
      if ProductionRecord_size itemProd = dotPos item then Inr S
      else if m_ActualDotPos item \<ge> length (prodBody itemProd) then Inl OutOfRange
      else
        let symbolAfterDot = gramSymbol (prodBody itemProd ! m_ActualDotPos item) in
        if isTerminal symbolAfterDot then Inr S
        else if as_value symbolAfterDot \<ge> length alt then Inl UndefinedBehaviour
        else
          let prods = alt ! as_value symbolAfterDot in
          if \<not> list_all (\<lambda>prodIdx. prodIdx < length vec) prods then Inl OutOfRange
          else
            let symbolProductions = map (\<lambda>prodIdx. vec ! prodIdx) prods in
            if isLR0 then
              (case add_to_closure_no_lookaheads symbolProductions S False of
                 Inl e \<Rightarrow> Inl e
               | Inr (S', b) \<Rightarrow> Inr S')
            else
              closure_lookaheads_loop E first
                (map gramSymbol
                   (filter isGramSymbol (drop (m_ActualDotPos item + 1) (prodBody itemProd))))
                symbolProductions (lookaheads item) S)"

text \<open>
  The main loop of \<^verbatim>\<open>CLOSURE\<close>: it runs over the closure, which may grow while it runs.
\<close>

partial_function (option) closure_loop ::
  "enumerators \<Rightarrow> (ProductionElement, 'a) ProductionRecord list \<Rightarrow> nat list list \<Rightarrow> bool
     \<Rightarrow> SymbolSet list \<Rightarrow> 'a ItemSet \<Rightarrow> nat \<Rightarrow> (exn + 'a ItemSet) option" where
  [code]: "closure_loop E vec alt isLR0 first S i =
     (if i < length (m_Closure S) then
        (case closure_step E vec alt isLR0 first S (m_Closure S ! i) of
           Inl e \<Rightarrow> Some (Inl e)
         | Inr S' \<Rightarrow> closure_loop E vec alt isLR0 first S' (i + 1))
      else Some (Inr S))"

text \<open>
  \<^verbatim>\<open>ItemSet::CLOSURE(grammarPtr)\<close>: the returned item set, this item set afterwards (its
  cache is filled) and the grammar afterwards (its FIRST sets are calculated for LR(1)
  items). A cached closure is returned as an item set made from the cache vector; an
  empty item set returns a copy of itself.
\<close>

definition CLOSURE ::
  "enumerators \<Rightarrow> 'a ItemSet \<Rightarrow> (ProductionElement, 'a) ProductionVector
     \<Rightarrow> (exn + ('a ItemSet \<times> 'a ItemSet \<times> (ProductionElement, 'a) ProductionVector)) option" where
  "CLOSURE E S G =
     (if length (m_Closure S) > 0 then Some (Inr (ItemSet_of (m_Closure S), S, G))
      else if length (m_Set S) = 0 then Some (Inr (S, S, G))
      else
        (case alternativeProduction E (m_Vector G) of
           Inl e \<Rightarrow> Some (Inl e)
         | Inr alt \<Rightarrow>
             (let S1 = S\<lparr>m_Closure := m_Set S\<rparr>;
                  isLR0 = (length (lookaheads (m_Closure S1 ! 0)) = 0)
              in case (if \<not> isLR0 then calculateFIRST E G else Some (Inr G)) of
                   None \<Rightarrow> None
                 | Some (Inl e) \<Rightarrow> Some (Inl e)
                 | Some (Inr G1) \<Rightarrow>
                     (case closure_loop E (m_Vector G1) alt isLR0
                             (if \<not> isLR0 then getFIRST G1 else []) S1 0 of
                        None \<Rightarrow> None
                      | Some (Inl e) \<Rightarrow> Some (Inl e)
                      | Some (Inr S2) \<Rightarrow>
                          Some (Inr (ItemSet_sameClosure (m_Closure S2), S2, G1))))))"

subsection \<open>GOTO\<close>

text \<open>The predicate of \<^verbatim>\<open>GOTO\<close>: the symbol at the actual dot position is the given one.\<close>

definition goto_predicate :: "GrammaticalSymbol \<Rightarrow> 'a Item \<Rightarrow> exn + bool" where
  "goto_predicate symbol item =
     (let dotPosition = m_ActualDotPos item in
      if ProductionRecord_size (production item) = dotPosition then Inr False
      else if dotPosition \<ge> length (prodBody (production item)) then Inl OutOfRange
      else Inr (Symbol_eq (gramSymbol (prodBody (production item) ! dotPosition)) symbol))"

text \<open>The first loop of \<^verbatim>\<open>GOTO\<close>: the items of the closure with the symbol behind the dot.\<close>

fun goto_found_loop ::
  "GrammaticalSymbol \<Rightarrow> 'a Item list \<Rightarrow> 'a ItemSet \<Rightarrow> exn + 'a ItemSet" where
  "goto_found_loop symbol [] foundItems = Inr foundItems"
| "goto_found_loop symbol (currItem # rest) foundItems =
     (case goto_predicate symbol currItem of
        Inl e \<Rightarrow> Inl e
      | Inr True \<Rightarrow>
          (case ItemSet_insert foundItems currItem of
             Inl e \<Rightarrow> Inl e
           | Inr (foundItems', b) \<Rightarrow> goto_found_loop symbol rest foundItems')
      | Inr False \<Rightarrow> goto_found_loop symbol rest foundItems)"

text \<open>The second loop: the kernel items, with the dot moved over the symbol.\<close>

fun goto_kernel_loop :: "'a Item list \<Rightarrow> 'a ItemSet \<Rightarrow> exn + 'a ItemSet" where
  "goto_kernel_loop [] result = Inr result"
| "goto_kernel_loop (item # rest) result =
     (case Item_make (production item) (dotPos item + 1) (lookaheads item) of
        Inl e \<Rightarrow> Inl e
      | Inr kernelItem \<Rightarrow>
          (case ItemSet_insert result kernelItem of
             Inl e \<Rightarrow> Inl e
           | Inr (result', b) \<Rightarrow> goto_kernel_loop rest result'))"

text \<open>
  \<^verbatim>\<open>ItemSet::GOTO(symbol, grammarPtr)\<close>: the returned item set, this item set afterwards
  and the grammar afterwards.
\<close>

definition GOTO ::
  "enumerators \<Rightarrow> 'a ItemSet \<Rightarrow> GrammaticalSymbol \<Rightarrow> (ProductionElement, 'a) ProductionVector
     \<Rightarrow> (exn + ('a ItemSet \<times> 'a ItemSet \<times> (ProductionElement, 'a) ProductionVector)) option" where
  "GOTO E S symbol G =
     (case (if length (m_Closure S) = 0 then CLOSURE E S G else Some (Inr (S, S, G))) of
        None \<Rightarrow> None
      | Some (Inl e) \<Rightarrow> Some (Inl e)
      | Some (Inr (ignored, S1, G1)) \<Rightarrow>
          (case goto_found_loop symbol (m_Closure S1) (ItemSet_of []) of
             Inl e \<Rightarrow> Some (Inl e)
           | Inr foundItems \<Rightarrow>
               (case (if length (m_Set foundItems) > 0
                        then goto_kernel_loop (m_Set foundItems) (ItemSet_of [])
                      else Inr (ItemSet_of [])) of
                  Inl e \<Rightarrow> Some (Inl e)
                | Inr result \<Rightarrow>
                    (case CLOSURE E result G1 of
                       None \<Rightarrow> None
                     | Some (Inl e) \<Rightarrow> Some (Inl e)
                     | Some (Inr (resultClosure, result', G2)) \<Rightarrow>
                         Some (Inr (resultClosure, S1, G2))))))"

section \<open>The enumerations and grammars of the examples\<close>

text \<open>
  The enumerations of the repository's tests (\<^verbatim>\<open>tests/Tests.ixx\<close>): the terminals
  \<^verbatim>\<open>T_ID\<close> = 0, \<^verbatim>\<open>T_INT\<close>, \<^verbatim>\<open>T_PLUS\<close>, \<^verbatim>\<open>T_STAR\<close>, \<^verbatim>\<open>T_LEFT_PAREN\<close>, \<^verbatim>\<open>T_RIGHT_PAREN\<close>,
  \<^verbatim>\<open>T_EOF\<close> = 6, \<^verbatim>\<open>T_EPSILON\<close> = 7, \<^verbatim>\<open>T_COUNT\<close> = 8, and the non-terminals \<^verbatim>\<open>NT_E\<close> = 8,
  \<^verbatim>\<open>NT_EP\<close> = 9, \<^verbatim>\<open>NT_T\<close> = 10, \<^verbatim>\<open>NT_TP\<close> = 11, \<^verbatim>\<open>NT_F\<close> = 12, \<^verbatim>\<open>NT_COUNT\<close> = 13.
\<close>

definition Tests_enumerators :: enumerators where
  "Tests_enumerators = \<lparr>T_EPSILON = 7, T_EOF = 6, T_COUNT = 8, NT_COUNT = 13\<rparr>"

definition T_ID :: nat where "T_ID = 0"
definition T_PLUS :: nat where "T_PLUS = 2"
definition NT_E :: nat where "NT_E = 8"
definition NT_EP :: nat where "NT_EP = 9"

definition toSymbolT :: "nat \<Rightarrow> GrammaticalSymbol" where
  "toSymbolT t = \<lparr>isTerminal = True, as_value = t\<rparr>"

definition toSymbolN :: "nat \<Rightarrow> GrammaticalSymbol" where
  "toSymbolN n = \<lparr>isTerminal = False, as_value = n\<rparr>"

text \<open>An LR production without an action, as the converting constructor builds it.\<close>

definition LRProduction ::
  "nat \<Rightarrow> GrammaticalSymbol list \<Rightarrow> nat \<Rightarrow> (ProductionElement, 'a) ProductionRecord" where
  "LRProduction h body n =
     \<lparr>m_Size = length (filter isGramSymbol (map LRProductionElement body)),
      prodHead = toSymbolN h, prodBody = map LRProductionElement body, prodNumber = n,
      postfixAction = None\<rparr>"

text \<open>The grammar \<open>E \<rightarrow> EP\<close>, \<open>EP \<rightarrow> EPSILON\<close>.\<close>

definition grammar_nullable :: "(ProductionElement, unit) ProductionVector" where
  "grammar_nullable =
     ProductionVector_make
       [LRProduction NT_E [toSymbolN NT_EP] 0,
        LRProduction NT_EP [toSymbolT (T_EPSILON Tests_enumerators)] 1]"

text \<open>The grammar \<open>E \<rightarrow> EP EPSILON\<close>, \<open>EP \<rightarrow> id\<close>.\<close>

definition grammar_epsilon_after :: "(ProductionElement, unit) ProductionVector" where
  "grammar_epsilon_after =
     ProductionVector_make
       [LRProduction NT_E [toSymbolN NT_EP, toSymbolT (T_EPSILON Tests_enumerators)] 0,
        LRProduction NT_EP [toSymbolT T_ID] 1]"

subsection \<open>An LR grammar with its SLR(1) table\<close>

definition NT_T :: nat where "NT_T = 10"

text \<open>
  The grammar \<open>EP \<rightarrow> E\<close>, \<open>E \<rightarrow> E + T\<close>, \<open>E \<rightarrow> T\<close>, \<open>T \<rightarrow> id\<close> (\<open>EP\<close> is the augmented start
  symbol) and its SLR(1) table: state 0 shifts \<open>id\<close> to 3 and has the gotos \<open>E \<mapsto> 1\<close>,
  \<open>T \<mapsto> 2\<close>; state 1 shifts \<open>+\<close> to 4 and accepts at the end of input; states 2, 3 and 5
  reduce by productions 2, 3 and 1 on \<open>+\<close> and at the end of input; state 4 shifts \<open>id\<close> to
  3 and has the goto \<open>T \<mapsto> 5\<close>.
\<close>

definition sum_grammar :: "(ProductionElement, (unit, unit) PostfixAction) ProductionVector" where
  "sum_grammar =
     ProductionVector_make
       [LRProduction NT_EP [toSymbolN NT_E] 0,
        LRProduction NT_E [toSymbolN NT_E, toSymbolT T_PLUS, toSymbolN NT_T] 1,
        LRProduction NT_E [toSymbolN NT_T] 2,
        LRProduction NT_T [toSymbolT T_ID] 3]"

definition sum_actions :: "LRTableEntry list list" where
  "sum_actions =
     (let d = LRTableEntry_default in
      [[TE_SHIFT 3],
       [d, d, TE_SHIFT 4, d, d, d, TE_ACCEPT],
       [d, d, TE_REDUCE 2, d, d, d, TE_REDUCE 2],
       [d, d, TE_REDUCE 3, d, d, d, TE_REDUCE 3],
       [TE_SHIFT 3],
       [d, d, TE_REDUCE 1, d, d, d, TE_REDUCE 1]])"

definition sum_gotos :: "LRTableEntry list list" where
  "sum_gotos =
     (let d = LRTableEntry_default in
      [[d, d, d, d, d, d, d, d, TE_GOTO 1, d, TE_GOTO 2],
       [], [], [],
       [d, d, d, d, d, d, d, d, d, d, TE_GOTO 5],
       []])"

definition sum_table :: "(unit, unit) LRParsingTable" where
  "sum_table = \<lparr>grammar = sum_grammar, actionTable = sum_actions, gotoTable = sum_gotos\<rparr>"

text \<open>
  The same grammar and table, with an action record after \<open>id\<close> in the body of
  production 3.
\<close>

definition sum_grammar_with_record ::
  "(ProductionElement, (unit, unit) PostfixAction) ProductionVector" where
  "sum_grammar_with_record =
     ProductionVector_make
       [LRProduction NT_EP [toSymbolN NT_E] 0,
        LRProduction NT_E [toSymbolN NT_E, toSymbolT T_PLUS, toSymbolN NT_T] 1,
        LRProduction NT_E [toSymbolN NT_T] 2,
        \<lparr>m_Size = 1, prodHead = toSymbolN NT_T,
         prodBody = [LRProductionElement (toSymbolT T_ID),
                     \<lparr>elemType = PET_ACTION_RECORD, gramSymbol = toSymbolT 0\<rparr>],
         prodNumber = 3, postfixAction = None\<rparr>]"

definition sum_table_with_record :: "(unit, unit) LRParsingTable" where
  "sum_table_with_record =
     \<lparr>grammar = sum_grammar_with_record, actionTable = sum_actions, gotoTable = sum_gotos\<rparr>"

text \<open>
  The grammar \<open>EP \<rightarrow> id\<close> and its table: state 0 shifts \<open>id\<close> to 1, state 1 accepts at the
  end of input; there is no goto.
\<close>

definition single_table :: "(unit, unit) LRParsingTable" where
  "single_table =
     (let d = LRTableEntry_default in
      \<lparr>grammar = ProductionVector_make [LRProduction NT_EP [toSymbolT T_ID] 0],
       actionTable = [[TE_SHIFT 1], [d, d, d, d, d, d, TE_ACCEPT]],
       gotoTable = [[], []]\<rparr>)"

definition tok :: "nat \<Rightarrow> Token" where
  "tok n = \<lparr>name = n, attribute = []\<rparr>"

text \<open>
  A parser is constructed for the table and the tokens, and \<^verbatim>\<open>parse\<close> is called in panic
  mode; the result is the outcome and the state numbers left on the stack.
\<close>

definition run_parse ::
  "(unit, unit) LRParsingTable \<Rightarrow> Token list \<Rightarrow> ((exn + unit) \<times> nat list) option" where
  "run_parse tbl toks =
     (case LRParser_make Tests_enumerators () toks tbl of
        None \<Rightarrow> None
      | Some (Inl e) \<Rightarrow> Some (Inl e, [])
      | Some (Inr P) \<Rightarrow>
          map_option (\<lambda>(r, P'). (r, map state (m_Stack P')))
            (parse Tests_enumerators () P () ERT_PANIC_MODE))"

definition run_spec_parse ::
  "(unit, unit) LRParsingTable \<Rightarrow> Token list \<Rightarrow> ((exn + unit) \<times> nat list) option" where
  "run_spec_parse tbl toks =
     (case LRParser_make Tests_enumerators () toks tbl of
        None \<Rightarrow> None
      | Some (Inl e) \<Rightarrow> Some (Inl e, [])
      | Some (Inr P) \<Rightarrow>
          map_option (\<lambda>(r, P'). (r, map state (m_Stack P')))
            (spec_parse Tests_enumerators () P () ERT_PANIC_MODE))"

text \<open>A parser in the middle of a parse with the table of sums: the stack holds 0, 1, 4.\<close>

definition parser_014 :: "(unit, unit) LRParser" where
  "parser_014 =
     \<lparr>m_Stack = [LRState_of Tests_enumerators () 0, LRState_of Tests_enumerators () 1,
                 LRState_of Tests_enumerators () 4],
      m_CurrTopState = LRState_of Tests_enumerators () 4, m_CurrInputToken = tok T_ID,
      p_Table = sum_table, lexer = []\<rparr>"

text \<open>
  A parser in the middle of a parse with the table of the grammar \<open>EP \<rightarrow> id\<close>: the stack
  holds 0 and 1, and no state has a goto.
\<close>

definition parser_01 :: "(unit, unit) LRParser" where
  "parser_01 =
     \<lparr>m_Stack = [LRState_of Tests_enumerators () 0, LRState_of Tests_enumerators () 1],
      m_CurrTopState = LRState_of Tests_enumerators () 1, m_CurrInputToken = tok T_ID,
      p_Table = single_table, lexer = []\<rparr>"


text \<open>
  The table of sums with a postfix action on production 3 that clears the stack.
\<close>

definition sum_table_clearing :: "(unit, unit) LRParsingTable" where
  "sum_table_clearing =
     sum_table\<lparr>grammar :=
       ProductionVector_make
         [LRProduction NT_EP [toSymbolN NT_E] 0,
          LRProduction NT_E [toSymbolN NT_E, toSymbolT T_PLUS, toSymbolN NT_T] 1,
          LRProduction NT_E [toSymbolN NT_T] 2,
          (LRProduction NT_T [toSymbolT T_ID] 3)
            \<lparr>postfixAction := Some (ReduceAction (\<lambda>stk newState. ([], newState)))\<rparr>]\<rparr>"

subsection \<open>Automata\<close>

text \<open>
  The automaton of the regular expression \<open>a*\<close>: state 1 is the start state and the
  final state, with a transition to itself on \<open>a\<close>.
\<close>

definition a_star :: DeterFiniteAutomatan where
  "a_star =
     \<lparr>m_FinalStates = [1],
      m_TransitionFunc = (\<lambda>s c. if s = 1 \<and> c = CHR ''a'' then [1] else [])\<rparr>"

text \<open>
  The automaton of the tests (\<^verbatim>\<open>initTranFn_a\<close>) for \<open>a+\<close>: from 1 to 2 on \<open>a\<close>, from 2 to
  2 on \<open>a\<close>; state 2 is final.
\<close>

definition a_plus :: DeterFiniteAutomatan where
  "a_plus =
     \<lparr>m_FinalStates = [2],
      m_TransitionFunc = (\<lambda>s c. if (s = 1 \<or> s = 2) \<and> c = CHR ''a'' then [2] else [])\<rparr>"

subsection \<open>An LL parser in the middle of a parse\<close>

definition LLSymbol :: "GrammaticalSymbol \<Rightarrow> (unit, unit) LLStackElement" where
  "LLSymbol symbol =
     \<lparr>elemType = PET_GRAM_SYMBOL, gramSymbol = symbol,
      synRecord = \<lparr>rec_data = (), rec_action = 0\<rparr>,
      actRecord = \<lparr>rec_data = (), rec_action = 0\<rparr>\<rparr>"

definition no_actions :: "(unit, unit) LLActions" where
  "no_actions =
     \<lparr>synAction = (\<lambda>a. None), actAction = (\<lambda>a. None), errAction = (\<lambda>a. None)\<rparr>"

text \<open>
  The grammar \<open>E \<rightarrow> id + id\<close> with its LL(1) table: the entry for \<open>E\<close> and \<open>id\<close> refers to
  production 0, every other entry is an error.
\<close>

definition ll_productions :: "((unit, unit) LLStackElement, unit) ProductionRecord list" where
  "ll_productions =
     [\<lparr>m_Size = 3, prodHead = toSymbolN NT_E,
       prodBody = [LLSymbol (toSymbolT T_ID), LLSymbol (toSymbolT T_PLUS), LLSymbol (toSymbolT T_ID)],
       prodNumber = 0, postfixAction = None\<rparr>]"

definition ll_table :: "LLTableEntry list list" where
  "ll_table =
     [[], [], [], [], [], [], [], [],
      [\<lparr>entryIsError = False, prodIndex = 0, entryIsEmpty = False\<rparr>]]"

definition ll_parser :: "Token list \<Rightarrow> (unit, unit) LLParser" where
  "ll_parser toks =
     \<lparr>ll_Stack = [], ll_CurrTopElement = LLSymbol (toSymbolN 0),
      ll_CurrInputToken = Token_default Tests_enumerators, ll_Table = ll_table,
      ll_ProdRecords = ll_productions, ll_lexer = toks\<rparr>"

text \<open>
  The parser after \<open>E\<close> has been expanded and the first \<open>id\<close> matched, on the input
  \<open>id id\<close>: the stack holds \<open>id\<close> and, on top, \<open>+\<close>; the current token is the second \<open>id\<close>.
\<close>

definition ll_parser_at_error :: "(unit, unit) LLParser" where
  "ll_parser_at_error =
     (ll_parser [])\<lparr>ll_Stack := [LLSymbol (toSymbolT T_ID), LLSymbol (toSymbolT T_PLUS)],
                    ll_CurrTopElement := LLSymbol (toSymbolT T_ID),
                    ll_CurrInputToken := tok T_ID\<rparr>"

text \<open>The terminals of the grammar symbols on a stack, the top last.\<close>

definition stack_symbols :: "(unit, unit) LLStackElement list \<Rightarrow> nat list" where
  "stack_symbols stk = map (\<lambda>el. as_value (gramSymbol el)) stk"

subsection \<open>Item sets\<close>

text \<open>
  The LR(0) item \<open>[EP \<rightarrow> . E]\<close> of the grammar of sums, and the item set with the item
  \<open>[EP \<rightarrow> E .]\<close> that is its own closure.
\<close>

definition item_start :: "(unit, unit) PostfixAction Item" where
  "item_start =
     \<lparr>m_ActualDotPos = 0, production = m_Vector sum_grammar ! 0, dotPos = 0, lookaheads = []\<rparr>"

definition goto_on_E :: "(unit, unit) PostfixAction ItemSet" where
  "goto_on_E =
     ItemSet_sameClosure
       [\<lparr>m_ActualDotPos = 1, production = m_Vector sum_grammar ! 0, dotPos = 1,
         lookaheads = []\<rparr>]"

section \<open>Properties of LR table entries\<close>

text \<open>
  C8 (as stated, refuted): the claim wants the payload compared for goto entries too, so
  that two goto entries with different target states are unequal. The operator compares
  the number only for shift and reduce entries: \<open>goto 1\<close> and \<open>goto 2\<close> compare equal.
\<close>

theorem C8_goto_counterexample:
  "LRTableEntry_eq (TE_GOTO 1) (TE_GOTO 2) \<and> number (TE_GOTO 1) \<noteq> number (TE_GOTO 2)"
  by (simp add: LRTableEntry_eq_def TE_GOTO_def)

text \<open>
  C8 (amended): two LR table entries are equal iff their emptiness flags agree, their
  tags agree and, when the tag is shift or reduce, their numbers agree. The number of
  goto, accept and error entries is not compared.
\<close>

theorem C8_entry_eq_iff:
  "LRTableEntry_eq a b \<longleftrightarrow>
     isEmpty a = isEmpty b \<and> entryType a = entryType b \<and>
     (entryType a \<in> {TET_ACTION_SHIFT, TET_ACTION_REDUCE} \<longrightarrow> number a = number b)"
  by (auto simp: LRTableEntry_eq_def Let_def)

theorem C8_entry_eq_iff_witness:
  "LRTableEntry_eq (TE_SHIFT 3) (TE_SHIFT 3) \<and> \<not> LRTableEntry_eq (TE_REDUCE 3) (TE_REDUCE 4)
   \<and> LRTableEntry_eq (TE_GOTO 3) (TE_GOTO 4)"
  using C8_entry_eq_iff [of "TE_SHIFT 3" "TE_SHIFT 3"]
    C8_entry_eq_iff [of "TE_REDUCE 3" "TE_REDUCE 4"]
    C8_entry_eq_iff [of "TE_GOTO 3" "TE_GOTO 4"]
  by (simp add: TE_SHIFT_def TE_REDUCE_def TE_GOTO_def)

section \<open>Properties of FIRST and FOLLOW\<close>

lemmas example_defs =
  Tests_enumerators_def T_ID_def T_PLUS_def NT_E_def NT_EP_def toSymbolT_def toSymbolN_def
  LRProduction_def LRProductionElement_def isGramSymbol_def ProductionVector_make_def
  set_insert_def set_contains_def set_erase_def comparable_def

text \<open>
  C3 (the code fails the claim): for the grammar \<open>E \<rightarrow> EP\<close>, \<open>EP \<rightarrow> EPSILON\<close> the fixed point
  ends with \<open>FIRST(EP) = {EPSILON}\<close> and \<open>FIRST(E) = {}\<close>. The loop over \<open>FIRST(EP)\<close>
  returns from \<^verbatim>\<open>_calc_FIRST_of_prod\<close> as soon as it meets EPSILON, so the branch that
  would add EPSILON to the head at the end of a body is never reached.
\<close>

theorem C3_FIRST_of_nullable_body_missing:
  "map_option (map_sum id (\<lambda>pv. (FIRST pv ! NT_E, FIRST pv ! NT_EP)))
     (calculateFIRST Tests_enumerators grammar_nullable)
   = Some (Inr ([], [EPSILON Tests_enumerators]))"
  by (simp add: grammar_nullable_def example_defs calculateFIRST_def resize_def
      FIRST_while.simps calc_FIRST_of_prod_def EPSILON_def Symbol_eq_def Symbol_less_def Let_def)

text \<open>
  The FIRST set of the body \<open>EP\<close> of the first production, computed by the library's own
  symbol-string routine from that FIRST vector, is \<open>{EPSILON}\<close>: it is not a subset of the
  empty \<open>FIRST(E)\<close>.
\<close>

lemma C3_FIRST_of_body:
  "map_sum id ss_FIRST
     (SymbolString_calculateFIRST Tests_enumerators
        [[], [], [], [], [], [], [], [], [], [EPSILON Tests_enumerators], [], [], []]
        (SymbolString_make (toSymbolString (m_Vector grammar_nullable ! 0))))
   = Inr [EPSILON Tests_enumerators]"
  by (simp add: grammar_nullable_def example_defs SymbolString_calculateFIRST_def
      SymbolString_make_def toSymbolString_def EPSILON_def Symbol_eq_def Symbol_less_def
      Let_def dec64_def)

text \<open>
  C6 (the code fails the claim): for the grammar \<open>E \<rightarrow> EP EPSILON\<close>, \<open>EP \<rightarrow> id\<close> the FOLLOW
  fixed point ends with \<open>FOLLOW(EP) = {EPSILON}\<close>. A terminal after the non-terminal is
  inserted as it is, also when it is EPSILON.
\<close>

theorem C6_EPSILON_in_FOLLOW:
  "map_option (map_sum id (\<lambda>pv. FOLLOW pv ! NT_EP))
     (calculate_FIRST_FOLLOW Tests_enumerators grammar_epsilon_after)
   = Some (Inr [EPSILON Tests_enumerators])"
  by (simp add: grammar_epsilon_after_def example_defs calculate_FIRST_FOLLOW_def
      calculateFIRST_def calculateFOLLOW_def resize_def FIRST_while.simps FOLLOW_while.simps
      calc_FIRST_of_prod_def calc_FOLLOW_of_nonTerminal_def EPSILON_def END_MARKER_def
      Symbol_eq_def Symbol_less_def Let_def dec64_def SIZE_MAX_def)

text \<open>
  C7 (the code fails the claim): the FIRST set computed for a symbol string with no
  symbols is the empty set, not \<open>{EPSILON}\<close>. EPSILON is added in the body of the loop over
  the symbols, for the last symbol; with no symbol the body never runs.
\<close>

theorem C7_FIRST_of_empty_string_is_empty:
  "map_sum id ss_FIRST
     (SymbolString_calculateFIRST Tests_enumerators [] (SymbolString_make [])) = Inr []
   \<and> [] \<noteq> [EPSILON Tests_enumerators]"
  by (simp add: SymbolString_calculateFIRST_def SymbolString_make_def)

text \<open>
  It is so for every string without symbols and every FIRST vector: the call succeeds
  and only sets the flag that FIRST is calculated.
\<close>

lemma empty_string_FIRST_unchanged:
  "symbols ss = [] \<Longrightarrow>
     SymbolString_calculateFIRST E prodVecFIRST ss = Inr (ss\<lparr>ss_CalculatedFIRST := True\<rparr>)"
  by (simp add: SymbolString_calculateFIRST_def)

text \<open>
  The strings that derive the empty string and have a symbol get \<open>{EPSILON}\<close>: the string
  \<open>EPSILON\<close>, and the string of one non-terminal whose FIRST set is \<open>{EPSILON}\<close>.
\<close>

lemma FIRST_of_nullable_strings:
  "map_sum id ss_FIRST
     (SymbolString_calculateFIRST Tests_enumerators []
        (SymbolString_make [EPSILON Tests_enumerators]))
   = Inr [EPSILON Tests_enumerators]"
  "map_sum id ss_FIRST
     (SymbolString_calculateFIRST Tests_enumerators
        [[], [], [], [], [], [], [], [], [], [EPSILON Tests_enumerators], [], [], []]
        (SymbolString_make [toSymbolN NT_EP]))
   = Inr [EPSILON Tests_enumerators]"
  by (simp_all add: example_defs SymbolString_calculateFIRST_def SymbolString_make_def
      EPSILON_def Symbol_eq_def Symbol_less_def Let_def dec64_def)

section \<open>Properties of the LR parser\<close>

text \<open>
  C2 (the code fails the claim): the input \<open>+ + + + + + id\<close> has six errors for the
  grammar of sums; panic mode recovers from each, and the parse accepts. \<^verbatim>\<open>parse\<close> passes
  its counter by value, so the counter it compares with the limit is 0 in every
  iteration.
\<close>

theorem C2_six_errors_accepted:
  "run_parse sum_table
     [tok T_PLUS, tok T_PLUS, tok T_PLUS, tok T_PLUS, tok T_PLUS, tok T_PLUS, tok T_ID]
   = Some (Inr (), [0, 1])"
  by code_simp

text \<open>
  With the counter maintained across the iterations, as the specification words it, the
  same parse fails with the error-limit-exceeded error at the sixth error.
\<close>

lemma C2_spec_six_errors_rejected:
  "run_spec_parse sum_table
     [tok T_PLUS, tok T_PLUS, tok T_PLUS, tok T_PLUS, tok T_PLUS, tok T_PLUS, tok T_ID]
   = Some (Inl ErrorRecoveryLimitExceeded, [0, 1, 4])"
  by code_simp

text \<open>
  What \<^verbatim>\<open>_reduce\<close> pops: when it returns normally, the stack below the new state is the
  stack the action has left, without its last \<^verbatim>\<open>prodBody.size()\<close> states. Every element of
  the body counts, of whatever type.
\<close>

lemma reduce_pops_body_length:
  "reduce E d0 P n = (None, P') \<Longrightarrow>
   \<exists>stk newState.
     call_reduce_action (postfixAction (m_Vector (grammar (p_Table P)) ! n)) (m_Stack P)
       (LRState_default E d0) = Inr (stk, newState)
     \<and> length (prodBody (m_Vector (grammar (p_Table P)) ! n)) < length stk
     \<and> butlast (m_Stack P')
         = take (length stk - length (prodBody (m_Vector (grammar (p_Table P)) ! n))) stk"
  by (auto simp: reduce_def Let_def pop_states_def push_state_def inc64_def
      split: if_splits sum.splits prod.splits option.splits)

text \<open>
  C1 (the code fails the claim): production 3 is \<open>T \<rightarrow> id\<close> followed by an action record,
  so its body has one grammar symbol and two elements. On the input \<open>id\<close> the stack is
  0, 3 when the parser reduces by production 3. The claim has it pop one state and go to
  state 2; \<^verbatim>\<open>_reduce\<close> asks for two pops and the parse ends with a stack underflow.
\<close>

theorem C1_reduce_counts_records:
  "run_parse sum_table_with_record [tok T_ID] = Some (Inl StackUnderflow, [0, 3])"
  by code_simp

text \<open>Without the action record the same input is accepted.\<close>

lemma C1_reduce_symbols_only:
  "run_parse sum_table [tok T_ID] = Some (Inr (), [0, 1])"
  by code_simp

text \<open>
  C10 (as stated, refuted): the claim has the stack never empty during a parse, every pop
  being checked. Panic-mode recovery pops with \<^verbatim>\<open>pop_back\<close>, without the check: for the
  grammar \<open>EP \<rightarrow> id\<close> and the input \<open>id id\<close> it pops state 1 and state 0, no state has a
  goto, and the parse ends in \<^verbatim>\<open>std::abort\<close> with an empty stack.
\<close>

theorem C10_panic_mode_empties_stack:
  "run_parse single_table [tok T_ID, tok T_ID] = Some (Inl ProgramAbort, [])"
  by code_simp

text \<open>
  A postfix action can leave the stack empty as well: with an action on production 3
  that clears it, the parse of \<open>id\<close> fails in \<^verbatim>\<open>_pop_states\<close> on an empty stack.
\<close>

lemma postfix_action_can_empty_stack:
  "run_parse sum_table_clearing [tok T_ID] = Some (Inl StackUnderflow, [])"
  by code_simp

subsection \<open>The stack during panic-mode recovery\<close>

text \<open>
  The first loop of the recovery ends with a state that has a goto on top of the stack,
  or with an empty stack, and it is empty exactly when no state had a goto. The second
  loop only pushes. The two functions are unfolded by hand in the proofs.
\<close>

declare panic_find_state.simps [simp del] panic_sync.simps [simp del]

lemma panic_find_state_found:
  "panic_find_state E tbl stk = Inr (stk', nts, found) \<Longrightarrow>
     (found \<longrightarrow> stk' \<noteq> []) \<and> (\<not> found \<longrightarrow> stk' = [] \<and> (\<forall>s\<in>set stk. getGotos E tbl (state s) = Inr []))"
proof (induction E tbl stk rule: panic_find_state.induct)
  case (1 E tbl stk)
  show ?case
  proof (cases "stk = []")
    case True
    with "1.prems" show ?thesis by (subst (asm) panic_find_state.simps) simp
  next
    case False
    note ne = this
    show ?thesis
    proof (cases "getGotos E tbl (state (last stk))")
      case (Inl e)
      with ne "1.prems" show ?thesis by (subst (asm) panic_find_state.simps) simp
    next
      case (Inr nonTerminals)
      show ?thesis
      proof (cases "nonTerminals = []")
        case True
        with ne Inr "1.prems" have rec: "panic_find_state E tbl (butlast stk) = Inr (stk', nts, found)"
          by (subst (asm) panic_find_state.simps) simp
        from "1.IH" [OF ne Inr _ rec] True
        have ih: "(found \<longrightarrow> stk' \<noteq> []) \<and>
                  (\<not> found \<longrightarrow> stk' = [] \<and> (\<forall>s\<in>set (butlast stk). getGotos E tbl (state s) = Inr []))"
          by simp
        from ne have "set stk = insert (last stk) (set (butlast stk))"
          by (metis append_butlast_last_id list.simps(15) rotate1.simps(2) set_rotate1)
        with ih Inr True show ?thesis by auto
      next
        case False
        with ne Inr "1.prems" show ?thesis by (subst (asm) panic_find_state.simps) auto
      qed
    qed
  qed
qed

lemma panic_find_state_none:
  "\<forall>s\<in>set stk. getGotos E tbl (state s) = Inr [] \<Longrightarrow>
     panic_find_state E tbl stk = Inr ([], [], False)"
proof (induction E tbl stk rule: panic_find_state.induct)
  case (1 E tbl stk)
  show ?case
  proof (cases "stk = []")
    case True
    then show ?thesis by (subst panic_find_state.simps) simp
  next
    case False
    with "1.prems" have g: "getGotos E tbl (state (last stk)) = Inr []" by simp
    from "1.prems" have "\<forall>s\<in>set (butlast stk). getGotos E tbl (state s) = Inr []"
      by (meson in_set_butlastD)
    with "1.IH" [OF False g] have "panic_find_state E tbl (butlast stk) = Inr ([], [], False)"
      by simp
    with False g show ?thesis by (subst panic_find_state.simps) simp
  qed
qed

lemma panic_try_nonTerminals_stack:
  "panic_try_nonTerminals E d0 currT nts P = Inr (Some P') \<Longrightarrow>
     m_Stack P' \<noteq> [] \<and> grammar (p_Table P') = grammar (p_Table P)"
  by (induction nts)
     (auto simp: push_state_def atGoto_def Let_def split: sum.splits if_splits prod.splits)

lemma panic_sync_stack:
  "panic_sync E d0 nts h P = (r, P') \<Longrightarrow> m_Stack P \<noteq> [] \<Longrightarrow>
     m_Stack P' \<noteq> [] \<and> grammar (p_Table P') = grammar (p_Table P)"
proof (induction E d0 nts h P rule: panic_sync.induct)
  case (1 E d0 nts h P)
  show ?case
  proof (cases h)
    case True
    with "1.prems" show ?thesis by (subst (asm) panic_sync.simps) simp
  next
    case False
    show ?thesis
    proof (cases "panic_try_nonTerminals E d0 (name (m_CurrInputToken P)) nts P")
      case (Inl e)
      with False "1.prems" show ?thesis by (subst (asm) panic_sync.simps) simp
    next
      case (Inr opt)
      show ?thesis
      proof (cases opt)
        case (Some P1)
        with False Inr "1.prems" panic_try_nonTerminals_stack [of E d0 _ nts P P1]
        show ?thesis by (subst (asm) panic_sync.simps) simp
      next
        case None
        obtain t lx where g: "get_next_token E (lexer P) = (t, lx)" by (cases "get_next_token E (lexer P)")
        from False Inr None g "1.prems"
        have rec: "panic_sync E d0 nts (Token_eq (m_CurrInputToken P) (Token_TEOF E))
                     (P\<lparr>lexer := lx, m_CurrInputToken := t\<rparr>) = (r, P')"
          by (subst (asm) panic_sync.simps) simp
        from "1.IH" [OF False Inr None g [symmetric] rec] "1.prems"
        show ?thesis by simp
      qed
    qed
  qed
qed


lemma error_recov_panic_mode_abort:
  "\<forall>s\<in>set (m_Stack P). getGotos E (p_Table P) (state s) = Inr [] \<Longrightarrow>
     error_recov_panic_mode E d0 P = (Some ProgramAbort, P\<lparr>m_Stack := []\<rparr>)"
  by (simp add: error_recov_panic_mode_def panic_find_state_none)

lemma error_recov_panic_mode_stack:
  assumes "error_recov_panic_mode E d0 P = (r, P')"
  shows "grammar (p_Table P') = grammar (p_Table P)"
    and "m_Stack P' = [] \<Longrightarrow>
           r = Some ProgramAbort \<and> (\<forall>s\<in>set (m_Stack P). getGotos E (p_Table P) (state s) = Inr [])"
proof -
  show "grammar (p_Table P') = grammar (p_Table P)"
  proof (cases "panic_find_state E (p_Table P) (m_Stack P)")
    case (Inl e)
    with assms show ?thesis by (simp add: error_recov_panic_mode_def)
  next
    case (Inr t)
    obtain stk nts found where t: "t = (stk, nts, found)" by (cases t)
    show ?thesis
    proof (cases found)
      case False
      with assms Inr t show ?thesis by (auto simp: error_recov_panic_mode_def)
    next
      case True
      with panic_find_state_found [of E "p_Table P" "m_Stack P" stk nts found] Inr t
      have "stk \<noteq> []" by simp
      with assms Inr t True panic_sync_stack [of E d0 nts False "P\<lparr>m_Stack := stk\<rparr>" r P']
      show ?thesis by (simp add: error_recov_panic_mode_def)
    qed
  qed
next
  assume empty: "m_Stack P' = []"
  show "r = Some ProgramAbort \<and> (\<forall>s\<in>set (m_Stack P). getGotos E (p_Table P) (state s) = Inr [])"
  proof (cases "panic_find_state E (p_Table P) (m_Stack P)")
    case (Inl e)
    with assms empty have "m_Stack P = []" by (simp add: error_recov_panic_mode_def)
    with Inl show ?thesis by (subst (asm) panic_find_state.simps) simp
  next
    case (Inr t)
    obtain stk nts found where t: "t = (stk, nts, found)" by (cases t)
    note f = panic_find_state_found [of E "p_Table P" "m_Stack P" stk nts found]
    show ?thesis
    proof (cases found)
      case False
      with assms Inr t f show ?thesis by (auto simp: error_recov_panic_mode_def)
    next
      case True
      with f Inr t have "stk \<noteq> []" by simp
      with assms Inr t True empty panic_sync_stack [of E d0 nts False "P\<lparr>m_Stack := stk\<rparr>" r P']
      show ?thesis by (simp add: error_recov_panic_mode_def)
    qed
  qed
qed


subsection \<open>The stack in one iteration of the main loop\<close>

text \<open>
  The accessors of the table leave the grammar as it is, and \<^verbatim>\<open>atAction\<close> the gotos. The
  error check leaves the stack to the recovery; a reduction calls the action, pops with
  the check and pushes one state.
\<close>

lemma atAction_grammar:
  "atAction E tbl st t = Inr (entry, tbl') \<Longrightarrow> grammar tbl' = grammar tbl"
  by (auto simp: atAction_def Let_def split: if_splits)

lemma atGoto_grammar:
  "atGoto E tbl st t = Inr (entry, tbl') \<Longrightarrow> grammar tbl' = grammar tbl"
  by (auto simp: atGoto_def Let_def split: if_splits)

lemma getGotos_actionTable [simp]:
  "getGotos E (tbl\<lparr>actionTable := rows\<rparr>) st = getGotos E tbl st"
  by (simp add: getGotos_def)

lemma atAction_gotos:
  "atAction E tbl st t = Inr (entry, tbl') \<Longrightarrow> getGotos E tbl' = getGotos E tbl"
  by (auto simp: atAction_def Let_def split: if_splits)

lemma check_and_resolve_grammar:
  "check_and_resolve_parsing_errors E d0 P n ert = (r, P1) \<Longrightarrow>
     grammar (p_Table P1) = grammar (p_Table P)"
  by (auto simp: check_and_resolve_parsing_errors_def Let_def
      split: sum.splits prod.splits if_splits ErrorRecoveryType.splits option.splits
      dest!: atAction_grammar error_recov_panic_mode_stack(1))

lemma check_and_resolve_stack:
  assumes "check_and_resolve_parsing_errors E d0 P n ert = (r, P1)"
    and "m_Stack P1 = []" and "m_Stack P \<noteq> []"
  shows "r = Inl ProgramAbort \<and> ert = ERT_PANIC_MODE
           \<and> (\<forall>s\<in>set (m_Stack P). getGotos E (p_Table P) (state s) = Inr [])"
proof (cases "atAction E (p_Table P) (state (m_CurrTopState P)) (name (m_CurrInputToken P))")
  case (Inl e)
  with assms show ?thesis by (simp add: check_and_resolve_parsing_errors_def)
next
  case (Inr t)
  obtain currEntry tbl where t: "t = (currEntry, tbl)" by (cases t)
  let ?P = "P\<lparr>p_Table := tbl\<rparr>"
  from Inr t have g: "getGotos E tbl = getGotos E (p_Table P)" by (simp add: atAction_gotos)
  from assms Inr t have pm: "ert = ERT_PANIC_MODE"
    by (auto simp: check_and_resolve_parsing_errors_def Let_def
        split: if_splits ErrorRecoveryType.splits)
  obtain r' P2 where e: "error_recov_panic_mode E d0 ?P = (r', P2)"
    by (cases "error_recov_panic_mode E d0 ?P")
  from assms Inr t pm e have "P1 = P2 \<and> (case r' of Some x \<Rightarrow> r = Inl x | None \<Rightarrow> r = Inr True)"
    by (auto simp: check_and_resolve_parsing_errors_def Let_def split: if_splits option.splits)
  with error_recov_panic_mode_stack(2) [OF e] assms g pm show ?thesis by auto
qed

lemma pop_states_stack:
  "pop_states P num = (r, P') \<Longrightarrow> m_Stack P \<noteq> [] \<Longrightarrow> num < SIZE_MAX \<Longrightarrow>
     m_Stack P' \<noteq> [] \<and> p_Table P' = p_Table P"
  by (auto simp: pop_states_def inc64_def Let_def split: if_splits)

lemma call_reduce_action_stack:
  "call_reduce_action a stk s = Inr (stk', s') \<Longrightarrow> action_keeps_stack a \<Longrightarrow> stk \<noteq> [] \<Longrightarrow>
     stk' \<noteq> []"
  by (auto simp: call_reduce_action_def action_keeps_stack_def
      split: option.splits PostfixAction.splits dest: arg_cong [where f = fst])

lemma reduce_stack:
  assumes "reduce E d0 P n = (r, P')" and "m_Stack P \<noteq> []" and "keeps_stack (grammar (p_Table P))"
  shows "m_Stack P' \<noteq> [] \<and> grammar (p_Table P') = grammar (p_Table P)"
proof (cases "n < length (m_Vector (grammar (p_Table P)))")
  case False
  with assms show ?thesis by (simp add: reduce_def Let_def)
next
  case True
  let ?p = "m_Vector (grammar (p_Table P)) ! n"
  from True assms(3) have k: "action_keeps_stack (postfixAction ?p)"
    and l: "length (prodBody ?p) < SIZE_MAX"
    by (simp_all add: keeps_stack_def)
  show ?thesis
  proof (cases "call_reduce_action (postfixAction ?p) (m_Stack P) (LRState_default E d0)")
    case (Inl e)
    with True assms show ?thesis by (simp add: reduce_def Let_def)
  next
    case (Inr t)
    obtain stk newState where t: "t = (stk, newState)" by (cases t)
    from call_reduce_action_stack [OF Inr [unfolded t] k assms(2)] have ne: "stk \<noteq> []" .
    obtain r2 P2 where p: "pop_states (P\<lparr>m_Stack := stk\<rparr>) (length (prodBody ?p)) = (r2, P2)"
      by (cases "pop_states (P\<lparr>m_Stack := stk\<rparr>) (length (prodBody ?p))")
    from pop_states_stack [OF p _ l] ne
    have P2: "m_Stack P2 \<noteq> []" "p_Table P2 = p_Table P" by simp_all
    from assms(1) True Inr t p P2 show ?thesis
      by (auto simp: reduce_def Let_def push_state_def
          split: option.splits sum.splits prod.splits if_splits dest: atGoto_grammar)
  qed
qed

lemma take_parsing_action_stack:
  assumes "take_parsing_action E d0 P res = (r, P', res')" and "m_Stack P \<noteq> []"
    and "keeps_stack (grammar (p_Table P))"
  shows "m_Stack P' \<noteq> [] \<and> grammar (p_Table P') = grammar (p_Table P)"
proof (cases "atAction E (p_Table P) (state (m_CurrTopState P)) (name (m_CurrInputToken P))")
  case (Inl e)
  with assms show ?thesis by (simp add: take_parsing_action_def)
next
  case (Inr t)
  obtain currEntry tbl where t: "t = (currEntry, tbl)" by (cases t)
  let ?P = "P\<lparr>p_Table := tbl\<rparr>"
  from Inr t have g: "grammar tbl = grammar (p_Table P)" by (simp add: atAction_grammar)
  show ?thesis
  proof (cases "entryType currEntry")
    case TET_ACTION_SHIFT
    with assms Inr t g show ?thesis
      by (auto simp: take_parsing_action_def Let_def push_state_def LR_get_next_token_def
          split: prod.splits)
  next
    case TET_ACTION_REDUCE
    obtain r2 P2 where rd: "reduce E d0 ?P (number currEntry) = (r2, P2)"
      by (cases "reduce E d0 ?P (number currEntry)")
    from reduce_stack [OF rd] assms(2,3) g
    have "m_Stack P2 \<noteq> [] \<and> grammar (p_Table P2) = grammar (p_Table P)" by simp
    with assms(1) Inr t TET_ACTION_REDUCE rd show ?thesis
      by (auto simp: take_parsing_action_def Let_def split: option.splits)
  next
    case TET_ACCEPT
    show ?thesis
    proof (cases "m_Vector (grammar tbl) = []")
      case True
      with assms Inr t g TET_ACCEPT show ?thesis by (auto simp: take_parsing_action_def Let_def)
    next
      case False
      with assms(3) g have "action_keeps_stack (postfixAction (m_Vector (grammar tbl) ! 0))"
        by (simp add: keeps_stack_def)
      with assms(1,2) Inr t g TET_ACCEPT False show ?thesis
        by (auto simp: take_parsing_action_def Let_def action_keeps_stack_def
            split: option.splits PostfixAction.splits prod.splits dest: arg_cong [where f = fst])
    qed
  next
    case TET_GOTO
    with assms Inr t g show ?thesis by (auto simp: take_parsing_action_def Let_def)
  next
    case TET_ERROR
    with assms Inr t g show ?thesis by (auto simp: take_parsing_action_def Let_def)
  qed
qed



subsection \<open>The stack at the end of a parse\<close>

text \<open>
  The main loop, by the induction rule of the loop: if it returns and the stack is empty
  then, it has returned from the abort of the recovery.
\<close>

lemma parse_loop_stack:
  fixes P :: "('a, 'b) LRParser"
  assumes run: "parse_loop E d0 ert n P res = Some (r, P')"
    and ne: "m_Stack P \<noteq> []" and keeps: "keeps_stack (grammar (p_Table P))"
    and empty: "m_Stack P' = []"
  shows "r = Inl ProgramAbort \<and> ert = ERT_PANIC_MODE"
proof -
  let ?Q = "\<lambda>(x :: ((((enumerators \<times> 'a) \<times> ErrorRecoveryType) \<times> nat) \<times> ('a, 'b) LRParser) \<times> 'b)
              (y :: (exn + 'b) \<times> ('a, 'b) LRParser).
      m_Stack (snd (fst x)) \<noteq> [] \<longrightarrow> keeps_stack (grammar (p_Table (snd (fst x)))) \<longrightarrow>
      m_Stack (snd y) = [] \<longrightarrow>
        fst y = Inl ProgramAbort \<and> snd (fst (fst (fst x))) = ERT_PANIC_MODE"
  have "?Q (((((E, d0), ert), n), P), res) (r, P')"
  proof (rule parse_loop.raw_induct [where Pa = ?Q, OF _ run])
    fix f :: "enumerators \<Rightarrow> 'a \<Rightarrow> ErrorRecoveryType \<Rightarrow> nat \<Rightarrow> ('a, 'b) LRParser \<Rightarrow> 'b
                \<Rightarrow> ((exn + 'b) \<times> ('a, 'b) LRParser) option"
    fix E d0 ert n P res y
    assume IH: "\<And>E d0 ert n P res y. f E d0 ert n P res = Some y
                  \<Longrightarrow> ?Q (((((E, d0), ert), n), P), res) y"
    assume step: "(case check_and_resolve_parsing_errors E d0 P n ert of
        (Inl e, P1) \<Rightarrow> Some (Inl e, P1)
      | (Inr resolved, P1) \<Rightarrow>
          (if resolved then f E d0 ert n P1 res
           else
             (case take_parsing_action E d0 P1 res of
                (Inl e, P2, result2) \<Rightarrow> Some (Inl e, P2)
              | (Inr isAccepted, P2, result2) \<Rightarrow>
                  (if isAccepted then Some (Inr result2, P2)
                   else f E d0 ert n P2 result2)))) = Some y"
    show "?Q (((((E, d0), ert), n), P), res) y"
    proof (intro impI, simp only: fst_conv snd_conv)
      assume ne: "m_Stack P \<noteq> []" and keeps: "keeps_stack (grammar (p_Table P))"
        and empty: "m_Stack (snd y) = []"
      obtain rc P1 where c: "check_and_resolve_parsing_errors E d0 P n ert = (rc, P1)"
        by (cases "check_and_resolve_parsing_errors E d0 P n ert")
      note g1 = check_and_resolve_grammar [OF c]
      show "fst y = Inl ProgramAbort \<and> ert = ERT_PANIC_MODE"
      proof (cases rc)
        case (Inl e)
        with step c have "y = (Inl e, P1)" by simp
        with check_and_resolve_stack [OF c _ ne] empty Inl show ?thesis by simp
      next
        case (Inr resolved)
        with check_and_resolve_stack [OF c _ ne] have ne1: "m_Stack P1 \<noteq> []" by auto
        show ?thesis
        proof (cases resolved)
          case True
          with step c Inr have "f E d0 ert n P1 res = Some y" by simp
          from IH [OF this] ne1 keeps g1 empty show ?thesis by simp
        next
          case False
          obtain ra P2 res2 where t: "take_parsing_action E d0 P1 res = (ra, P2, res2)"
            by (cases "take_parsing_action E d0 P1 res")
          from take_parsing_action_stack [OF t ne1] keeps g1
          have ne2: "m_Stack P2 \<noteq> []" and g2: "grammar (p_Table P2) = grammar (p_Table P)"
            by simp_all
          show ?thesis
          proof (cases ra)
            case (Inl e)
            with step c Inr False t have "y = (Inl e, P2)" by simp
            with ne2 empty show ?thesis by simp
          next
            case (Inr isAccepted)
            show ?thesis
            proof (cases isAccepted)
              case True
              with step c \<open>rc = Inr resolved\<close> False t Inr have "y = (Inr res2, P2)" by simp
              with ne2 empty show ?thesis by simp
            next
              case acc: False
              with step c \<open>rc = Inr resolved\<close> False t Inr
              have "f E d0 ert n P2 res2 = Some y" by simp
              from IH [OF this] ne2 keeps g2 empty show ?thesis by simp
            qed
          qed
        qed
      qed
    qed
  qed
  with ne keeps empty show ?thesis by simp
qed

lemma parse_stack:
  assumes "parse E d0 P init ert = Some (r, P')" and "keeps_stack (grammar (p_Table P))"
    and "m_Stack P' = []"
  shows "r = Inl ProgramAbort \<and> ert = ERT_PANIC_MODE"
proof -
  obtain t P2 where g: "LR_get_next_token E (push_state (reset_parser_state E d0 P) (START_STATE E d0)) = (t, P2)"
    by (cases "LR_get_next_token E (push_state (reset_parser_state E d0 P) (START_STATE E d0))")
  then have "m_Stack P2 \<noteq> []" "p_Table P2 = p_Table P"
    by (auto simp: LR_get_next_token_def push_state_def reset_parser_state_def split: prod.splits)
  with assms g parse_loop_stack [of E d0 ert 0 "P2\<lparr>m_CurrInputToken := t\<rparr>" init r P']
  show ?thesis by (simp add: parse_def Let_def)
qed



subsection \<open>Parses whose bottom state has a goto\<close>

text \<open>
  When the state at the bottom of the stack has a goto, the first loop of the recovery
  stops at that state at the latest. The bottom state stays where it is in every step:
  \<^verbatim>\<open>atGoto\<close> may add rows to the goto table and leaves the existing rows as they are.
\<close>

lemma panic_find_state_bottom:
  "panic_find_state E tbl stk = Inr (stk', nts, found) \<Longrightarrow> stk \<noteq> [] \<Longrightarrow>
   getGotos E tbl (state (hd stk)) = Inr gs \<Longrightarrow> gs \<noteq> [] \<Longrightarrow>
     found \<and> stk' \<noteq> [] \<and> hd stk' = hd stk"
proof (induction E tbl stk rule: panic_find_state.induct)
  case (1 E tbl stk)
  show ?case
  proof (cases "getGotos E tbl (state (last stk))")
    case (Inl e)
    with "1.prems" show ?thesis by (subst (asm) panic_find_state.simps) simp
  next
    case (Inr nonTerminals)
    show ?thesis
    proof (cases "nonTerminals = []")
      case False
      with Inr "1.prems" show ?thesis by (subst (asm) panic_find_state.simps) auto
    next
      case True
      with Inr "1.prems" have "last stk \<noteq> hd stk" by auto
      with "1.prems"(2) have b: "butlast stk \<noteq> []" "hd (butlast stk) = hd stk"
        by (cases stk; cases "tl stk"; auto)+
      from True Inr "1.prems" have rec: "panic_find_state E tbl (butlast stk) = Inr (stk', nts, found)"
        by (subst (asm) panic_find_state.simps) simp
      from True have nt: "\<not> nonTerminals \<noteq> []" by simp
      from "1.IH" [OF "1.prems"(2) Inr nt rec b(1)] b(2) "1.prems" show ?thesis by simp
    qed
  qed
qed

lemma atGoto_gotos:
  "atGoto E tbl st nt = Inr (entry, tbl') \<Longrightarrow> getGotos E tbl s0 = Inr gs \<Longrightarrow>
     getGotos E tbl' s0 = Inr gs \<and> grammar tbl' = grammar tbl"
  by (auto simp: atGoto_def getGotos_def resize_def Let_def nth_append split: if_splits)


lemma bottom_has_gotoD:
  "bottom_has_goto E P \<Longrightarrow>
     m_Stack P \<noteq> [] \<and> (\<exists>gs. getGotos E (p_Table P) (state (hd (m_Stack P))) = Inr gs \<and> gs \<noteq> [])"
  by (auto simp: bottom_has_goto_def split: sum.splits)

lemma bottom_has_gotoI:
  "m_Stack P \<noteq> [] \<Longrightarrow> getGotos E (p_Table P) (state (hd (m_Stack P))) = Inr gs \<Longrightarrow> gs \<noteq> [] \<Longrightarrow>
     bottom_has_goto E P"
  by (simp add: bottom_has_goto_def)

lemma action_keeps_bottom_stack: "action_keeps_bottom a \<Longrightarrow> action_keeps_stack a"
  by (simp add: action_keeps_bottom_def action_keeps_stack_def
      split: option.splits PostfixAction.splits)

lemma keeps_bottom_stack: "keeps_bottom G \<Longrightarrow> keeps_stack G"
  by (simp add: keeps_bottom_def keeps_stack_def action_keeps_bottom_stack)

lemma panic_try_nonTerminals_bottom:
  "panic_try_nonTerminals E d0 currT nts P = Inr (Some P') \<Longrightarrow> bottom_has_goto E P \<Longrightarrow>
     bottom_has_goto E P'"
proof (induction nts)
  case Nil
  then show ?case by simp
next
  case (Cons nonTerminal rest)
  from Cons.prems(2) obtain gs where ne: "m_Stack P \<noteq> []"
    and g: "getGotos E (p_Table P) (state (hd (m_Stack P))) = Inr gs" "gs \<noteq> []"
    by (auto dest: bottom_has_gotoD)
  from Cons ne g show ?case
    by (auto simp: push_state_def Let_def intro!: bottom_has_gotoI
        split: sum.splits if_splits prod.splits dest!: atGoto_gotos [where ?s0.0 = "state (hd (m_Stack P))" and gs = gs])
qed


lemma panic_sync_bottom:
  "panic_sync E d0 nts h P = (r, P') \<Longrightarrow> bottom_has_goto E P \<Longrightarrow> bottom_has_goto E P'"
proof (induction E d0 nts h P rule: panic_sync.induct)
  case (1 E d0 nts h P)
  show ?case
  proof (cases h)
    case True
    with "1.prems" show ?thesis by (subst (asm) panic_sync.simps) simp
  next
    case False
    show ?thesis
    proof (cases "panic_try_nonTerminals E d0 (name (m_CurrInputToken P)) nts P")
      case (Inl e)
      with False "1.prems" show ?thesis by (subst (asm) panic_sync.simps) simp
    next
      case (Inr opt)
      show ?thesis
      proof (cases opt)
        case (Some P1)
        with False Inr "1.prems" panic_try_nonTerminals_bottom [of E d0 _ nts P P1]
        show ?thesis by (subst (asm) panic_sync.simps) simp
      next
        case None
        obtain t lx where g: "get_next_token E (lexer P) = (t, lx)" by (cases "get_next_token E (lexer P)")
        from False Inr None g "1.prems"
        have rec: "panic_sync E d0 nts (Token_eq (m_CurrInputToken P) (Token_TEOF E))
                     (P\<lparr>lexer := lx, m_CurrInputToken := t\<rparr>) = (r, P')"
          by (subst (asm) panic_sync.simps) simp
        from "1.prems" have "bottom_has_goto E (P\<lparr>lexer := lx, m_CurrInputToken := t\<rparr>)"
          by (simp add: bottom_has_goto_def)
        from "1.IH" [OF False Inr None g [symmetric] rec this] show ?thesis .
      qed
    qed
  qed
qed

lemma error_recov_panic_mode_bottom:
  assumes "error_recov_panic_mode E d0 P = (r, P')" and "bottom_has_goto E P"
  shows "bottom_has_goto E P'"
proof -
  from assms(2) obtain gs where ne: "m_Stack P \<noteq> []"
    and g: "getGotos E (p_Table P) (state (hd (m_Stack P))) = Inr gs" "gs \<noteq> []"
    by (auto dest: bottom_has_gotoD)
  show ?thesis
  proof (cases "panic_find_state E (p_Table P) (m_Stack P)")
    case (Inl e)
    with assms show ?thesis by (simp add: error_recov_panic_mode_def)
  next
    case (Inr t)
    obtain stk nts found where t: "t = (stk, nts, found)" by (cases t)
    from panic_find_state_bottom [OF Inr [unfolded t] ne g]
    have f: "found" "stk \<noteq> []" "hd stk = hd (m_Stack P)" by simp_all
    with g have "bottom_has_goto E (P\<lparr>m_Stack := stk\<rparr>)" by (simp add: bottom_has_goto_def)
    with assms Inr t f panic_sync_bottom [of E d0 nts False "P\<lparr>m_Stack := stk\<rparr>" r P']
    show ?thesis by (simp add: error_recov_panic_mode_def)
  qed
qed

lemma check_and_resolve_bottom:
  assumes "check_and_resolve_parsing_errors E d0 P n ert = (r, P1)" and "bottom_has_goto E P"
  shows "bottom_has_goto E P1"
proof (cases "atAction E (p_Table P) (state (m_CurrTopState P)) (name (m_CurrInputToken P))")
  case (Inl e)
  with assms show ?thesis by (simp add: check_and_resolve_parsing_errors_def)
next
  case (Inr t)
  obtain currEntry tbl where t: "t = (currEntry, tbl)" by (cases t)
  let ?P = "P\<lparr>p_Table := tbl\<rparr>"
  from Inr t have "getGotos E tbl = getGotos E (p_Table P)" by (simp add: atAction_gotos)
  with assms(2) have b: "bottom_has_goto E ?P" by (simp add: bottom_has_goto_def)
  obtain r' P2 where e: "error_recov_panic_mode E d0 ?P = (r', P2)"
    by (cases "error_recov_panic_mode E d0 ?P")
  from error_recov_panic_mode_bottom [OF e b] have "bottom_has_goto E P2" .
  with assms(1) Inr t b e show ?thesis
    by (auto simp: check_and_resolve_parsing_errors_def Let_def
        split: if_splits ErrorRecoveryType.splits option.splits)
qed

lemma pop_states_bottom:
  "pop_states P num = (r, P') \<Longrightarrow> m_Stack P \<noteq> [] \<Longrightarrow> num < SIZE_MAX \<Longrightarrow>
     hd (m_Stack P') = hd (m_Stack P)"
  by (auto simp: pop_states_def inc64_def Let_def hd_take split: if_splits)

lemma call_reduce_action_bottom:
  "call_reduce_action a stk s = Inr (stk', s') \<Longrightarrow> action_keeps_bottom a \<Longrightarrow> stk \<noteq> [] \<Longrightarrow>
     state (hd stk') = state (hd stk)"
  by (auto simp: call_reduce_action_def action_keeps_bottom_def
      split: option.splits PostfixAction.splits) (metis fst_conv)


lemma reduce_bottom:
  assumes "reduce E d0 P n = (r, P')" and "bottom_has_goto E P"
    and "keeps_bottom (grammar (p_Table P))"
  shows "bottom_has_goto E P'"
proof (cases "n < length (m_Vector (grammar (p_Table P)))")
  case False
  with assms show ?thesis by (simp add: reduce_def Let_def)
next
  case True
  let ?p = "m_Vector (grammar (p_Table P)) ! n"
  from assms(2) obtain gs where ne: "m_Stack P \<noteq> []"
    and g: "getGotos E (p_Table P) (state (hd (m_Stack P))) = Inr gs" "gs \<noteq> []"
    by (auto dest: bottom_has_gotoD)
  from True assms(3) have k: "action_keeps_bottom (postfixAction ?p)"
    and l: "length (prodBody ?p) < SIZE_MAX"
    by (simp_all add: keeps_bottom_def)
  show ?thesis
  proof (cases "call_reduce_action (postfixAction ?p) (m_Stack P) (LRState_default E d0)")
    case (Inl e)
    with True assms show ?thesis by (simp add: reduce_def Let_def)
  next
    case (Inr t)
    obtain stk newState where t: "t = (stk, newState)" by (cases t)
    from call_reduce_action_stack [OF Inr [unfolded t] action_keeps_bottom_stack [OF k] ne]
    have ne1: "stk \<noteq> []" .
    from call_reduce_action_bottom [OF Inr [unfolded t] k ne]
    have hd1: "state (hd stk) = state (hd (m_Stack P))" .
    obtain r2 P2 where p: "pop_states (P\<lparr>m_Stack := stk\<rparr>) (length (prodBody ?p)) = (r2, P2)"
      by (cases "pop_states (P\<lparr>m_Stack := stk\<rparr>) (length (prodBody ?p))")
    from pop_states_stack [OF p _ l] pop_states_bottom [OF p _ l] ne1
    have P2: "m_Stack P2 \<noteq> []" "p_Table P2 = p_Table P" "hd (m_Stack P2) = hd stk" by simp_all
    with g hd1 have b2: "bottom_has_goto E P2" by (simp add: bottom_has_goto_def)
    show ?thesis
    proof (cases r2)
      case (Some e)
      with assms(1) True Inr t p b2 show ?thesis by (simp add: reduce_def Let_def)
    next
      case None
      show ?thesis
      proof (cases "atGoto E (p_Table P2) (state (m_CurrTopState P2)) (as_value (prodHead ?p))")
        case (Inl e)
        with assms(1) True \<open>call_reduce_action (postfixAction ?p) (m_Stack P) (LRState_default E d0) = Inr t\<close>
          t p None b2 show ?thesis by (simp add: reduce_def Let_def)
      next
        case (Inr u)
        obtain currEntry tbl where u: "u = (currEntry, tbl)" by (cases u)
        from atGoto_gotos [OF Inr [unfolded u]] g hd1 P2
        have "getGotos E tbl (state (hd (m_Stack P2))) = Inr gs" by simp
        with P2 g have "bottom_has_goto E (P2\<lparr>p_Table := tbl\<rparr>)"
          and "\<And>s. bottom_has_goto E (push_state (P2\<lparr>p_Table := tbl\<rparr>) s)"
          by (simp_all add: bottom_has_goto_def push_state_def)
        with assms(1) True \<open>call_reduce_action (postfixAction ?p) (m_Stack P) (LRState_default E d0) = Inr t\<close>
          t p None Inr u show ?thesis by (auto simp: reduce_def Let_def split: if_splits)
      qed
    qed
  qed
qed

lemma take_parsing_action_bottom:
  assumes "take_parsing_action E d0 P res = (r, P', res')" and "bottom_has_goto E P"
    and "keeps_bottom (grammar (p_Table P))"
  shows "bottom_has_goto E P'"
proof (cases "atAction E (p_Table P) (state (m_CurrTopState P)) (name (m_CurrInputToken P))")
  case (Inl e)
  with assms show ?thesis by (simp add: take_parsing_action_def)
next
  case (Inr t)
  obtain currEntry tbl where t: "t = (currEntry, tbl)" by (cases t)
  let ?P = "P\<lparr>p_Table := tbl\<rparr>"
  from Inr t have g: "grammar tbl = grammar (p_Table P)" by (simp add: atAction_grammar)
  from Inr t have "getGotos E tbl = getGotos E (p_Table P)" by (simp add: atAction_gotos)
  with assms(2) have b: "bottom_has_goto E ?P" by (simp add: bottom_has_goto_def)
  show ?thesis
  proof (cases "entryType currEntry")
    case TET_ACTION_SHIFT
    from b have "\<And>s t lx. bottom_has_goto E (push_state ?P s\<lparr>lexer := lx, m_CurrInputToken := t\<rparr>)"
      by (simp add: bottom_has_goto_def push_state_def)
    with assms(1) Inr t TET_ACTION_SHIFT show ?thesis
      by (auto simp: take_parsing_action_def Let_def LR_get_next_token_def split: prod.splits)
  next
    case TET_ACTION_REDUCE
    obtain r2 P2 where rd: "reduce E d0 ?P (number currEntry) = (r2, P2)"
      by (cases "reduce E d0 ?P (number currEntry)")
    from reduce_bottom [OF rd b] assms(3) g have "bottom_has_goto E P2" by simp
    with assms(1) Inr t TET_ACTION_REDUCE rd show ?thesis
      by (auto simp: take_parsing_action_def Let_def split: option.splits)
  next
    case TET_ACCEPT
    show ?thesis
    proof (cases "m_Vector (grammar tbl) = []")
      case True
      with assms Inr t g b TET_ACCEPT show ?thesis by (auto simp: take_parsing_action_def Let_def)
    next
      case False
      with assms(3) g have k: "action_keeps_bottom (postfixAction (m_Vector (grammar tbl) ! 0))"
        by (simp add: keeps_bottom_def)
      show ?thesis
      proof (cases "postfixAction (m_Vector (grammar tbl) ! 0)")
        case None
        with assms(1) Inr t b TET_ACCEPT False show ?thesis
          by (auto simp: take_parsing_action_def Let_def)
      next
        case (Some a)
        show ?thesis
        proof (cases a)
          case (ReduceAction f)
          with assms(1) Inr t b TET_ACCEPT False Some show ?thesis
            by (auto simp: take_parsing_action_def Let_def)
        next
          case (AcceptAction f)
          obtain stk newState res2 where f: "f (m_Stack ?P) (LRState_default E d0) res = (stk, newState, res2)"
            by (cases "f (m_Stack ?P) (LRState_default E d0) res")
          from b have ne: "m_Stack ?P \<noteq> []" by (simp add: bottom_has_goto_def)
          from k Some AcceptAction ne f
          have "stk \<noteq> [] \<and> state (hd stk) = state (hd (m_Stack ?P))"
            by (auto simp: action_keeps_bottom_def) (metis fst_conv)+
          with b have "bottom_has_goto E (?P\<lparr>m_Stack := stk\<rparr>)" by (simp add: bottom_has_goto_def)
          with assms(1) Inr t TET_ACCEPT False Some AcceptAction f show ?thesis
            by (auto simp: take_parsing_action_def Let_def)
        qed
      qed
    qed
  next
    case TET_GOTO
    with assms Inr t g b show ?thesis by (auto simp: take_parsing_action_def Let_def)
  next
    case TET_ERROR
    with assms Inr t g b show ?thesis by (auto simp: take_parsing_action_def Let_def)
  qed
qed


lemma parse_loop_bottom:
  fixes P :: "('a, 'b) LRParser"
  assumes run: "parse_loop E d0 ert n P res = Some (r, P')"
    and b: "bottom_has_goto E P" and keeps: "keeps_bottom (grammar (p_Table P))"
  shows "bottom_has_goto E P'"
proof -
  let ?Q = "\<lambda>(x :: ((((enumerators \<times> 'a) \<times> ErrorRecoveryType) \<times> nat) \<times> ('a, 'b) LRParser) \<times> 'b)
              (y :: (exn + 'b) \<times> ('a, 'b) LRParser).
      bottom_has_goto (fst (fst (fst (fst (fst x))))) (snd (fst x)) \<longrightarrow>
      keeps_bottom (grammar (p_Table (snd (fst x)))) \<longrightarrow>
        bottom_has_goto (fst (fst (fst (fst (fst x))))) (snd y)"
  have "?Q (((((E, d0), ert), n), P), res) (r, P')"
  proof (rule parse_loop.raw_induct [where Pa = ?Q, OF _ run])
    fix f :: "enumerators \<Rightarrow> 'a \<Rightarrow> ErrorRecoveryType \<Rightarrow> nat \<Rightarrow> ('a, 'b) LRParser \<Rightarrow> 'b
                \<Rightarrow> ((exn + 'b) \<times> ('a, 'b) LRParser) option"
    fix E d0 ert n P res y
    assume IH: "\<And>E d0 ert n P res y. f E d0 ert n P res = Some y
                  \<Longrightarrow> ?Q (((((E, d0), ert), n), P), res) y"
    assume step: "(case check_and_resolve_parsing_errors E d0 P n ert of
        (Inl e, P1) \<Rightarrow> Some (Inl e, P1)
      | (Inr resolved, P1) \<Rightarrow>
          (if resolved then f E d0 ert n P1 res
           else
             (case take_parsing_action E d0 P1 res of
                (Inl e, P2, result2) \<Rightarrow> Some (Inl e, P2)
              | (Inr isAccepted, P2, result2) \<Rightarrow>
                  (if isAccepted then Some (Inr result2, P2)
                   else f E d0 ert n P2 result2)))) = Some y"
    show "?Q (((((E, d0), ert), n), P), res) y"
    proof (intro impI, simp only: fst_conv snd_conv)
      assume b: "bottom_has_goto E P" and keeps: "keeps_bottom (grammar (p_Table P))"
      obtain rc P1 where c: "check_and_resolve_parsing_errors E d0 P n ert = (rc, P1)"
        by (cases "check_and_resolve_parsing_errors E d0 P n ert")
      note g1 = check_and_resolve_grammar [OF c]
      note b1 = check_and_resolve_bottom [OF c b]
      show "bottom_has_goto E (snd y)"
      proof (cases rc)
        case (Inl e)
        with step c have "y = (Inl e, P1)" by simp
        with b1 show ?thesis by simp
      next
        case (Inr resolved)
        show ?thesis
        proof (cases resolved)
          case True
          with step c Inr have "f E d0 ert n P1 res = Some y" by simp
          from IH [OF this] b1 keeps g1 show ?thesis by simp
        next
          case False
          obtain ra P2 res2 where t: "take_parsing_action E d0 P1 res = (ra, P2, res2)"
            by (cases "take_parsing_action E d0 P1 res")
          from keeps g1 have k1: "keeps_bottom (grammar (p_Table P1))" by simp
          note b2 = take_parsing_action_bottom [OF t b1 k1]
          from take_parsing_action_stack [OF t _ keeps_bottom_stack [OF k1]] b1 g1
          have g2: "grammar (p_Table P2) = grammar (p_Table P)"
            by (simp add: bottom_has_goto_def)
          show ?thesis
          proof (cases ra)
            case (Inl e)
            with step c Inr False t have "y = (Inl e, P2)" by simp
            with b2 show ?thesis by simp
          next
            case (Inr isAccepted)
            show ?thesis
            proof (cases isAccepted)
              case True
              with step c \<open>rc = Inr resolved\<close> False t Inr have "y = (Inr res2, P2)" by simp
              with b2 show ?thesis by simp
            next
              case acc: False
              with step c \<open>rc = Inr resolved\<close> False t Inr
              have "f E d0 ert n P2 res2 = Some y" by simp
              from IH [OF this] b2 keeps g2 show ?thesis by simp
            qed
          qed
        qed
      qed
    qed
  qed
  with b keeps show ?thesis by simp
qed

lemma START_STATE_state [simp]: "state (START_STATE E d0) = 0"
  by (simp add: START_STATE_def LRState_of_def)

lemma parse_bottom:
  assumes "parse E d0 P init ert = Some (r, P')" and "keeps_bottom (grammar (p_Table P))"
    and "getGotos E (p_Table P) 0 = Inr (g # gs)"
  shows "m_Stack P' \<noteq> []"
proof -
  obtain t P2 where g: "LR_get_next_token E (push_state (reset_parser_state E d0 P) (START_STATE E d0)) = (t, P2)"
    by (cases "LR_get_next_token E (push_state (reset_parser_state E d0 P) (START_STATE E d0))")
  then have "m_Stack P2 = [START_STATE E d0]" "p_Table P2 = p_Table P"
    by (auto simp: LR_get_next_token_def push_state_def reset_parser_state_def split: prod.splits)
  with assms(3) have "bottom_has_goto E (P2\<lparr>m_CurrInputToken := t\<rparr>)"
    by (simp add: bottom_has_goto_def)
  with assms g \<open>p_Table P2 = p_Table P\<close>
    parse_loop_bottom [of E d0 ert 0 "P2\<lparr>m_CurrInputToken := t\<rparr>" init r P']
  show ?thesis by (simp add: parse_def Let_def bottom_has_goto_def)
qed

lemma LRParser_make_table:
  "LRParser_make E d0 lx tbl = Some (Inr P) \<Longrightarrow>
     m_Vector (grammar (p_Table P)) = m_Vector (grammar tbl)
     \<and> gotoTable (p_Table P) = gotoTable tbl \<and> actionTable (p_Table P) = actionTable tbl"
  by (auto simp: LRParser_make_def calculate_FIRST_FOLLOW_def calculateFIRST_def
      calculateFOLLOW_def Let_def split: option.splits sum.splits if_splits prod.splits)



text \<open>
  C10 (amended). \<^verbatim>\<open>_pop_state\<close> and \<^verbatim>\<open>_pop_states(n)\<close>, for \<open>n\<close> below \<^verbatim>\<open>SIZE_MAX\<close>, first
  check that at least one state would remain; if not, they throw the stack-underflow
  error and leave the parser as it is, otherwise the stack they leave is not empty.
  Panic-mode recovery pops without the check: when no state on the stack has a goto it
  ends in \<^verbatim>\<open>std::abort\<close> with an empty stack, and that is the only way it leaves the stack
  empty. During a parse the stack is empty in that case only: the error check with its
  recovery leaves a stack that is not empty unless it aborts so, and the parsing action
  leaves one that is not empty, when the postfix actions of the grammar keep states on
  the stack; the same holds of the parser when \<^verbatim>\<open>parse\<close> ends. When, moreover, state 0
  has a goto and the actions keep the bottom state, no parse ends with an empty stack.
\<close>

theorem C10_stack_empty_only_at_abort:
  "(length (m_Stack P) \<le> 1 \<longrightarrow> pop_state P = (Some StackUnderflow, P)) \<and>
   (1 < length (m_Stack P) \<longrightarrow>
      (\<exists>P'. pop_state P = (None, P') \<and> m_Stack P' = butlast (m_Stack P) \<and> m_Stack P' \<noteq> [])) \<and>
   (num < SIZE_MAX \<longrightarrow> length (m_Stack P) \<le> num \<longrightarrow>
      pop_states P num = (Some StackUnderflow, P)) \<and>
   (num < SIZE_MAX \<longrightarrow> num < length (m_Stack P) \<longrightarrow>
      (\<exists>P'. pop_states P num = (None, P')
            \<and> m_Stack P' = take (length (m_Stack P) - num) (m_Stack P) \<and> m_Stack P' \<noteq> [])) \<and>
   ((\<forall>s\<in>set (m_Stack P). getGotos E (p_Table P) (state s) = Inr []) \<longrightarrow>
      error_recov_panic_mode E d0 P = (Some ProgramAbort, P\<lparr>m_Stack := []\<rparr>)) \<and>
   (\<forall>r P'. error_recov_panic_mode E d0 P = (r, P') \<longrightarrow> m_Stack P' = [] \<longrightarrow>
      r = Some ProgramAbort
      \<and> (\<forall>s\<in>set (m_Stack P). getGotos E (p_Table P) (state s) = Inr [])) \<and>
   (m_Stack P \<noteq> [] \<longrightarrow>
      (\<forall>r P'. check_and_resolve_parsing_errors E d0 P errorNum errorRecoveryType = (r, P') \<longrightarrow>
         grammar (p_Table P') = grammar (p_Table P)
         \<and> (m_Stack P' = [] \<longrightarrow>
              r = Inl ProgramAbort \<and> errorRecoveryType = ERT_PANIC_MODE
              \<and> (\<forall>s\<in>set (m_Stack P). getGotos E (p_Table P) (state s) = Inr [])))) \<and>
   (m_Stack P \<noteq> [] \<longrightarrow> keeps_stack (grammar (p_Table P)) \<longrightarrow>
      (\<forall>r P' result'. take_parsing_action E d0 P result = (r, P', result') \<longrightarrow>
         grammar (p_Table P') = grammar (p_Table P) \<and> m_Stack P' \<noteq> [])) \<and>
   (keeps_stack (grammar (p_Table P)) \<longrightarrow>
      (\<forall>r P'. parse E d0 P result errorRecoveryType = Some (r, P') \<longrightarrow> m_Stack P' = [] \<longrightarrow>
         r = Inl ProgramAbort \<and> errorRecoveryType = ERT_PANIC_MODE)) \<and>
   (keeps_bottom (grammar (p_Table P)) \<longrightarrow> (\<exists>g gs. getGotos E (p_Table P) 0 = Inr (g # gs)) \<longrightarrow>
      (\<forall>r P'. parse E d0 P result errorRecoveryType = Some (r, P') \<longrightarrow> m_Stack P' \<noteq> []))"
proof (intro conjI)
  show "length (m_Stack P) \<le> 1 \<longrightarrow> pop_state P = (Some StackUnderflow, P)"
    by (simp add: pop_state_def)
  show "1 < length (m_Stack P) \<longrightarrow>
      (\<exists>P'. pop_state P = (None, P') \<and> m_Stack P' = butlast (m_Stack P) \<and> m_Stack P' \<noteq> [])"
    by (auto simp: pop_state_def dest: arg_cong [where f = length])
  show "num < SIZE_MAX \<longrightarrow> length (m_Stack P) \<le> num \<longrightarrow>
      pop_states P num = (Some StackUnderflow, P)"
    by (simp add: pop_states_def inc64_def)
  show "num < SIZE_MAX \<longrightarrow> num < length (m_Stack P) \<longrightarrow>
      (\<exists>P'. pop_states P num = (None, P')
            \<and> m_Stack P' = take (length (m_Stack P) - num) (m_Stack P) \<and> m_Stack P' \<noteq> [])"
    by (auto simp: pop_states_def inc64_def Let_def)
  show "(\<forall>s\<in>set (m_Stack P). getGotos E (p_Table P) (state s) = Inr []) \<longrightarrow>
      error_recov_panic_mode E d0 P = (Some ProgramAbort, P\<lparr>m_Stack := []\<rparr>)"
    by (simp add: error_recov_panic_mode_abort)
  show "\<forall>r P'. error_recov_panic_mode E d0 P = (r, P') \<longrightarrow> m_Stack P' = [] \<longrightarrow>
      r = Some ProgramAbort
      \<and> (\<forall>s\<in>set (m_Stack P). getGotos E (p_Table P) (state s) = Inr [])"
  proof (intro allI impI)
    fix r P'
    assume "error_recov_panic_mode E d0 P = (r, P')" and "m_Stack P' = []"
    then show "r = Some ProgramAbort
      \<and> (\<forall>s\<in>set (m_Stack P). getGotos E (p_Table P) (state s) = Inr [])"
      by (rule error_recov_panic_mode_stack(2))
  qed
  show "m_Stack P \<noteq> [] \<longrightarrow>
      (\<forall>r P'. check_and_resolve_parsing_errors E d0 P errorNum errorRecoveryType = (r, P') \<longrightarrow>
         grammar (p_Table P') = grammar (p_Table P)
         \<and> (m_Stack P' = [] \<longrightarrow>
              r = Inl ProgramAbort \<and> errorRecoveryType = ERT_PANIC_MODE
              \<and> (\<forall>s\<in>set (m_Stack P). getGotos E (p_Table P) (state s) = Inr [])))"
  proof (intro allI impI)
    fix r P'
    assume ne: "m_Stack P \<noteq> []"
      and c: "check_and_resolve_parsing_errors E d0 P errorNum errorRecoveryType = (r, P')"
    show "grammar (p_Table P') = grammar (p_Table P)
         \<and> (m_Stack P' = [] \<longrightarrow>
              r = Inl ProgramAbort \<and> errorRecoveryType = ERT_PANIC_MODE
              \<and> (\<forall>s\<in>set (m_Stack P). getGotos E (p_Table P) (state s) = Inr []))"
    proof (rule conjI)
      show "grammar (p_Table P') = grammar (p_Table P)"
        by (rule check_and_resolve_grammar [OF c])
      show "m_Stack P' = [] \<longrightarrow>
              r = Inl ProgramAbort \<and> errorRecoveryType = ERT_PANIC_MODE
              \<and> (\<forall>s\<in>set (m_Stack P). getGotos E (p_Table P) (state s) = Inr [])"
      proof (rule impI)
        assume "m_Stack P' = []"
        from check_and_resolve_stack [OF c this ne]
        show "r = Inl ProgramAbort \<and> errorRecoveryType = ERT_PANIC_MODE
              \<and> (\<forall>s\<in>set (m_Stack P). getGotos E (p_Table P) (state s) = Inr [])" .
      qed
    qed
  qed
  show "m_Stack P \<noteq> [] \<longrightarrow> keeps_stack (grammar (p_Table P)) \<longrightarrow>
      (\<forall>r P' result'. take_parsing_action E d0 P result = (r, P', result') \<longrightarrow>
         grammar (p_Table P') = grammar (p_Table P) \<and> m_Stack P' \<noteq> [])"
  proof (intro allI impI)
    fix r P' result'
    assume ne: "m_Stack P \<noteq> []" and k: "keeps_stack (grammar (p_Table P))"
      and t: "take_parsing_action E d0 P result = (r, P', result')"
    from take_parsing_action_stack [OF t ne k]
    show "grammar (p_Table P') = grammar (p_Table P) \<and> m_Stack P' \<noteq> []" by simp
  qed
  show "keeps_stack (grammar (p_Table P)) \<longrightarrow>
      (\<forall>r P'. parse E d0 P result errorRecoveryType = Some (r, P') \<longrightarrow> m_Stack P' = [] \<longrightarrow>
         r = Inl ProgramAbort \<and> errorRecoveryType = ERT_PANIC_MODE)"
  proof (intro allI impI)
    fix r P'
    assume k: "keeps_stack (grammar (p_Table P))"
      and run: "parse E d0 P result errorRecoveryType = Some (r, P')"
      and empty: "m_Stack P' = []"
    show "r = Inl ProgramAbort \<and> errorRecoveryType = ERT_PANIC_MODE"
      by (rule parse_stack [OF run k empty])
  qed
  show "keeps_bottom (grammar (p_Table P)) \<longrightarrow> (\<exists>g gs. getGotos E (p_Table P) 0 = Inr (g # gs)) \<longrightarrow>
      (\<forall>r P'. parse E d0 P result errorRecoveryType = Some (r, P') \<longrightarrow> m_Stack P' \<noteq> [])"
  proof (intro allI impI)
    fix r P'
    assume k: "keeps_bottom (grammar (p_Table P))"
      and "\<exists>g gs. getGotos E (p_Table P) 0 = Inr (g # gs)"
      and run: "parse E d0 P result errorRecoveryType = Some (r, P')"
    then obtain g gs where "getGotos E (p_Table P) 0 = Inr (g # gs)" by auto
    from parse_bottom [OF run k this] show "m_Stack P' \<noteq> []" .
  qed
qed


text \<open>
  The instances: the parser with the stack 0, 1, 4 and the table of sums, the parser with
  the stack 0, 1 and the table without gotos, and the parse of \<open>+ id\<close> by the parser
  constructed for the table of sums, which recovers from one error in panic mode.
\<close>

lemma getGotos_cong:
  "gotoTable tbl = gotoTable tbl' \<Longrightarrow> getGotos E tbl st = getGotos E tbl' st"
  by (simp add: getGotos_def)

lemma sum_table_gotos: "getGotos Tests_enumerators sum_table 0 = Inr [NT_E, NT_T]"
  by code_simp

lemma single_table_gotos:
  "getGotos Tests_enumerators single_table 0 = Inr []"
  "getGotos Tests_enumerators single_table (Suc 0) = Inr []"
  by code_simp+

lemma sum_grammar_keeps_bottom: "m_Vector G = m_Vector sum_grammar \<Longrightarrow> keeps_bottom G"
  by (simp add: keeps_bottom_def action_keeps_bottom_def sum_grammar_def LRProduction_def
      ProductionVector_make_def SIZE_MAX_def)

lemma sum_parse_plus_id: "run_parse sum_table [tok T_PLUS, tok T_ID] = Some (Inr (), [0, 1])"
  by code_simp

theorem C10_stack_empty_only_at_abort_witness:
  "fst (pop_states parser_014 2) = None
   \<and> map state (m_Stack (snd (pop_states parser_014 2))) = [0]
   \<and> pop_states parser_014 3 = (Some StackUnderflow, parser_014)
   \<and> fst (pop_state parser_014) = None
   \<and> map state (m_Stack (snd (pop_state parser_014))) = [0, 1]
   \<and> pop_state (snd (pop_states parser_014 2))
       = (Some StackUnderflow, snd (pop_states parser_014 2))
   \<and> error_recov_panic_mode Tests_enumerators () parser_01
       = (Some ProgramAbort, parser_01\<lparr>m_Stack := []\<rparr>)
   \<and> keeps_stack (grammar (p_Table parser_014))
   \<and> m_Stack (snd (check_and_resolve_parsing_errors Tests_enumerators () parser_014 0
                     ERT_PANIC_MODE)) \<noteq> []
   \<and> m_Stack (fst (snd (take_parsing_action Tests_enumerators () parser_014 ()))) \<noteq> []
   \<and> (\<exists>P r P'. LRParser_make Tests_enumerators () [tok T_PLUS, tok T_ID] sum_table = Some (Inr P)
         \<and> keeps_bottom (grammar (p_Table P))
         \<and> getGotos Tests_enumerators (p_Table P) 0 = Inr [NT_E, NT_T]
         \<and> parse Tests_enumerators () P () ERT_PANIC_MODE = Some (r, P')
         \<and> m_Stack P' \<noteq> [])"
proof -
  note T = C10_stack_empty_only_at_abort
  note c5 = T [THEN conjunct2, THEN conjunct2, THEN conjunct2, THEN conjunct2, THEN conjunct1,
      rule_format]
  note c7 = T [THEN conjunct2, THEN conjunct2, THEN conjunct2, THEN conjunct2, THEN conjunct2,
      THEN conjunct2, THEN conjunct1, rule_format]
  note c8 = T [THEN conjunct2, THEN conjunct2, THEN conjunct2, THEN conjunct2, THEN conjunct2,
      THEN conjunct2, THEN conjunct2, THEN conjunct1, rule_format]
  note c10 = T [THEN conjunct2, THEN conjunct2, THEN conjunct2, THEN conjunct2, THEN conjunct2,
      THEN conjunct2, THEN conjunct2, THEN conjunct2, THEN conjunct2, rule_format]
  have pops:
    "fst (pop_states parser_014 2) = None
     \<and> map state (m_Stack (snd (pop_states parser_014 2))) = [0]
     \<and> pop_states parser_014 3 = (Some StackUnderflow, parser_014)
     \<and> fst (pop_state parser_014) = None
     \<and> map state (m_Stack (snd (pop_state parser_014))) = [0, 1]
     \<and> pop_state (snd (pop_states parser_014 2))
         = (Some StackUnderflow, snd (pop_states parser_014 2))"
    using T [of parser_014 2, THEN conjunct1] T [of parser_014 2, THEN conjunct2, THEN conjunct1]
      T [of parser_014 2, THEN conjunct2, THEN conjunct2, THEN conjunct2, THEN conjunct1]
      T [of parser_014 3, THEN conjunct2, THEN conjunct2, THEN conjunct1]
      T [of "snd (pop_states parser_014 2)" 0, THEN conjunct1]
    by (auto simp: parser_014_def SIZE_MAX_def LRState_of_def)
  have abort:
    "error_recov_panic_mode Tests_enumerators () parser_01
       = (Some ProgramAbort, parser_01\<lparr>m_Stack := []\<rparr>)"
    by (rule c5) (auto simp: parser_01_def LRState_of_def single_table_gotos)
  have keeps: "keeps_stack (grammar (p_Table parser_014))"
    by (simp add: keeps_bottom_stack sum_grammar_keeps_bottom parser_014_def sum_table_def)
  have ne: "m_Stack parser_014 \<noteq> []" by (simp add: parser_014_def)
  have g0: "getGotos Tests_enumerators (p_Table parser_014) (state (hd (m_Stack parser_014)))
              = Inr [NT_E, NT_T]"
    using sum_table_gotos by (simp add: parser_014_def LRState_of_def)
  have hd0: "hd (m_Stack parser_014) \<in> set (m_Stack parser_014)"
    by (simp add: parser_014_def)
  obtain rc P1
    where c: "check_and_resolve_parsing_errors Tests_enumerators () parser_014 0 ERT_PANIC_MODE
                = (rc, P1)"
    by (cases "check_and_resolve_parsing_errors Tests_enumerators () parser_014 0 ERT_PANIC_MODE")
  have "m_Stack P1 \<noteq> []"
  proof
    assume "m_Stack P1 = []"
    from c7 [OF ne c, THEN conjunct2, rule_format, OF this] hd0
    have "getGotos Tests_enumerators (p_Table parser_014) (state (hd (m_Stack parser_014))) = Inr []"
      by simp
    with g0 show False by simp
  qed
  with c have step1:
    "m_Stack (snd (check_and_resolve_parsing_errors Tests_enumerators () parser_014 0
                     ERT_PANIC_MODE)) \<noteq> []"
    by simp
  obtain ra P2 res2
    where t: "take_parsing_action Tests_enumerators () parser_014 () = (ra, P2, res2)"
    by (cases "take_parsing_action Tests_enumerators () parser_014 ()")
  from c8 [OF ne keeps t] t
  have step2: "m_Stack (fst (snd (take_parsing_action Tests_enumerators () parser_014 ()))) \<noteq> []"
    by simp
  from sum_parse_plus_id obtain P r P'
    where mk: "LRParser_make Tests_enumerators () [tok T_PLUS, tok T_ID] sum_table = Some (Inr P)"
      and run: "parse Tests_enumerators () P () ERT_PANIC_MODE = Some (r, P')"
    by (auto simp: run_parse_def split: option.splits sum.splits)
  from LRParser_make_table [OF mk]
  have kb: "keeps_bottom (grammar (p_Table P))"
    by (simp add: sum_grammar_keeps_bottom sum_table_def)
  from LRParser_make_table [OF mk]
  have gt: "getGotos Tests_enumerators (p_Table P) 0 = Inr [NT_E, NT_T]"
    by (simp add: getGotos_cong [of "p_Table P" sum_table] sum_table_gotos)
  from gt have "\<exists>g gs. getGotos Tests_enumerators (p_Table P) 0 = Inr (g # gs)" by simp
  from c10 [OF kb this run] have "m_Stack P' \<noteq> []" .
  with mk kb gt run have last:
    "\<exists>P r P'. LRParser_make Tests_enumerators () [tok T_PLUS, tok T_ID] sum_table = Some (Inr P)
         \<and> keeps_bottom (grammar (p_Table P))
         \<and> getGotos Tests_enumerators (p_Table P) 0 = Inr [NT_E, NT_T]
         \<and> parse Tests_enumerators () P () ERT_PANIC_MODE = Some (r, P')
         \<and> m_Stack P' \<noteq> []"
    by (intro exI conjI)
  show ?thesis
    by (intro conjI pops [THEN conjunct1] pops [THEN conjunct2, THEN conjunct1]
        pops [THEN conjunct2, THEN conjunct2, THEN conjunct1]
        pops [THEN conjunct2, THEN conjunct2, THEN conjunct2, THEN conjunct1]
        pops [THEN conjunct2, THEN conjunct2, THEN conjunct2, THEN conjunct2, THEN conjunct1]
        pops [THEN conjunct2, THEN conjunct2, THEN conjunct2, THEN conjunct2, THEN conjunct2]
        abort keeps step1 step2 last)
qed


section \<open>Properties of the DFA\<close>

lemmas dfa_defs =
  simulate_longest_prefix_def simulate_whole_string_def check_accepted_longest_prefix_def
  is_state_final_def get_final_states_from_state_set_def to_FSMStateType_def
  DEAD_STATE_def FSM_START_STATE_def dec64_def inc64_def SIZE_MAX_def Let_def

text \<open>
  C4 (the code fails the claim): the automaton of \<open>a*\<close> on the input \<open>b\<close>. The first byte
  leads to the dead state, \<open>charIndex\<close> stays 0, and the start state is final: the result
  is accepted with the span \<open>[0, 1)\<close>. The longest accepted prefix is the empty one, with
  the span \<open>[0, 0)\<close>; the prefix \<open>b\<close> of length 1 is not accepted.
\<close>

theorem C4_dead_on_first_byte:
  "accepted (simulate_longest_prefix a_star ''b'') \<and>
   indecies (simulate_longest_prefix a_star ''b'') = (0, 1) \<and>
   \<not> accepted (simulate_whole_string a_star ''b'') \<and>
   accepted (simulate_whole_string a_star [])"
  by (simp add: dfa_defs a_star_def)

text \<open>
  The other edge cases of the claim come out as it says: the empty input (\<open>k = 0\<close>, by
  the wrap-around of \<open>charIndex\<close>), a whole input that is accepted (\<open>k = |s|\<close>), a dead
  state after the first byte, and no accepted prefix.
\<close>

lemma C4_other_edge_cases:
  "indecies (simulate_longest_prefix a_star []) = (0, 0)"
  "accepted (simulate_longest_prefix a_star [])"
  "indecies (simulate_longest_prefix a_star ''aaa'') = (0, 3)"
  "indecies (simulate_longest_prefix a_star ''aab'') = (0, 2)"
  "indecies (simulate_longest_prefix a_plus ''aab'') = (0, 2)"
  "\<not> accepted (simulate_longest_prefix a_plus ''babaa'')"
  "indecies (simulate_longest_prefix a_plus ''babaa'') = (0, 0)"
  by (simp_all add: dfa_defs a_star_def a_plus_def)

section \<open>Properties of the LL parser\<close>

lemmas ll_defs =
  LL_parse_step_def parse_grammar_symbol_def error_recovery_def panic_mode_def
  panic_mode_loop.simps LL_get_next_token_def get_next_token_def Symbol_eq_Token_def
  Token_EPSILON_def Token_default_def ERR_RECOVERY_LIMIT_def Let_def

text \<open>
  C9 (the code fails the claim): the stack holds \<open>id\<close> and, on top, the terminal \<open>+\<close>, and
  the current token is \<open>id\<close>. The iteration of \<^verbatim>\<open>parse\<close> takes \<open>+\<close> off the stack, the match
  fails, and \<^verbatim>\<open>panic_mode\<close> pops once more: the \<open>id\<close> below is removed too and the stack is
  empty. The claim has exactly \<open>+\<close> removed and every other element unchanged.
\<close>

theorem C9_panic_mode_pops_below_terminal:
  "stack_symbols (ll_Stack ll_parser_at_error) = [T_ID, T_PLUS] \<and>
   map_option (\<lambda>(e, P). (e, stack_symbols (ll_Stack P)))
     (LL_parse_step Tests_enumerators no_actions ll_parser_at_error ERT_PANIC_MODE)
   = Some (None, [])"
  by (simp add: ll_defs ll_parser_at_error_def ll_parser_def stack_symbols_def LLSymbol_def
      tok_def example_defs)

text \<open>
  The whole parse of \<open>id id\<close>: it reaches that state, loses the second operand in the
  recovery and returns normally, with an empty stack.
\<close>

lemma C9_parse_id_id:
  "map_option (\<lambda>(e, P). (e, stack_symbols (ll_Stack P), ll_lexer P))
     (LL_parse Tests_enumerators no_actions (LLSymbol (toSymbolN 0))
        (LLSymbol (toSymbolN NT_E)) (ll_parser [tok T_ID, tok T_ID]) ERT_PANIC_MODE)
   = Some (None, [], [])"
  by code_simp

section \<open>Properties of item sets\<close>

lemma Symbol_eq_refl: "Symbol_eq x x"
  by (simp add: Symbol_eq_def)

lemma Item_eq_refl: "Item_eq x x"
  by (simp add: Item_eq_def ProductionRecord_eq_def LRProductionElement_eq_def Symbol_eq_refl
      list_all2_same)

lemma ItemSet_eq_same_set: "m_Set R2 = m_Set R \<Longrightarrow> ItemSet_eq R2 R"
  by (simp add: ItemSet_eq_def list_all2_same Item_eq_refl)

text \<open>
  What \<^verbatim>\<open>CLOSURE\<close> returns for an item set without a cached closure is its own closure:
  either the empty item set or a set built by the constructor for closed sets.
\<close>

lemma CLOSURE_result_shape:
  "CLOSURE E S G = Some (Inr (R, S', G')) \<Longrightarrow> m_Closure S = [] \<Longrightarrow> m_Closure R = m_Set R"
  by (auto simp: CLOSURE_def ItemSet_sameClosure_def Let_def
      split: if_splits sum.splits option.splits)

lemma ItemSet_insert_closure:
  "ItemSet_insert S item = Inr (S', b) \<Longrightarrow> m_Closure S' = m_Closure S"
  by (auto simp: ItemSet_insert_def union_lookaheads_at_def get_item_it_def Let_def
      split: if_splits prod.splits sum.splits)

lemma goto_kernel_loop_closure:
  "goto_kernel_loop items result = Inr result' \<Longrightarrow> m_Closure result' = m_Closure result"
proof (induction items arbitrary: result)
  case Nil
  then show ?case by simp
next
  case (Cons item rest)
  then show ?case
    by (auto split: sum.splits prod.splits dest!: ItemSet_insert_closure)
qed

lemma GOTO_result_shape:
  "GOTO E S X G = Some (Inr (R, S', G')) \<Longrightarrow> m_Closure R = m_Set R"
  by (auto simp: GOTO_def ItemSet_of_def
      split: if_splits sum.splits option.splits prod.splits
      dest!: goto_kernel_loop_closure dest: CLOSURE_result_shape)

lemma CLOSURE_of_closed:
  "m_Closure R = m_Set R \<Longrightarrow> CLOSURE E R G = Some (Inr (ItemSet_of (m_Set R), R, G))"
  by (cases R) (auto simp: CLOSURE_def ItemSet_of_def)

text \<open>
  C5: whenever \<^verbatim>\<open>GOTO(I, X)\<close> returns an item set \<open>R\<close>, \<^verbatim>\<open>CLOSURE\<close> of \<open>R\<close>, for any grammar
  pointer, returns at once (it changes neither \<open>R\<close> nor the grammar), and the item set it
  returns is made of the items of \<open>R\<close>: it is equal to \<open>R\<close> under \<^verbatim>\<open>ItemSet::operator==\<close>.
\<close>

theorem C5_CLOSURE_of_GOTO:
  "GOTO E S X G = Some (Inr (R, S', G')) \<Longrightarrow>
   CLOSURE E R G2 = Some (Inr (ItemSet_of (m_Set R), R, G2))
   \<and> ItemSet_eq (ItemSet_of (m_Set R)) R"
  using CLOSURE_of_closed [OF GOTO_result_shape, of E S X G R S' G' E G2]
    ItemSet_eq_same_set [of "ItemSet_of (m_Set R)" R]
  by (simp add: ItemSet_of_def)

text \<open>
  \<^verbatim>\<open>GOTO\<close> of the item set \<open>{[EP \<rightarrow> . E]}\<close> on \<open>E\<close>, for the grammar of sums, returns the item
  set \<open>{[EP \<rightarrow> E .]}\<close>.
\<close>

lemma GOTO_item_start:
  "GOTO Tests_enumerators (ItemSet_of [item_start]) (toSymbolN NT_E) sum_grammar
   = Some (Inr (goto_on_E, ItemSet_sameClosure [item_start], sum_grammar))"
  by (simp add: GOTO_def CLOSURE_def closure_loop.simps closure_step_def
      alternativeProduction_def ItemSet_of_def ItemSet_sameClosure_def item_start_def
      goto_on_E_def sum_grammar_def example_defs NT_T_def goto_predicate_def ItemSet_insert_def
      get_item_it_def find_if_index_def set_end_def closure_end_def Item_make_def
      ProductionRecord_size_def ProductionRecord_eq_def LRProductionElement_eq_def Symbol_eq_def
      Let_def)

theorem C5_CLOSURE_of_GOTO_witness:
  "GOTO Tests_enumerators (ItemSet_of [item_start]) (toSymbolN NT_E) sum_grammar
     = Some (Inr (goto_on_E, ItemSet_sameClosure [item_start], sum_grammar))
   \<and> CLOSURE Tests_enumerators goto_on_E sum_grammar
       = Some (Inr (ItemSet_of (m_Set goto_on_E), goto_on_E, sum_grammar))
   \<and> ItemSet_eq (ItemSet_of (m_Set goto_on_E)) goto_on_E"
  using C5_CLOSURE_of_GOTO [OF GOTO_item_start, of sum_grammar] GOTO_item_start
  by (auto simp: ItemSet_of_def goto_on_E_def ItemSet_sameClosure_def)

end
